(* ===== verification/Prelude.thy ===== *)
theory Prelude
  imports Complex_Main "HOL-Library.Multiset"
begin

text \<open>
  Shared vocabulary of the development: how JavaScript values that the
  TypeScript sources manipulate are represented in HOL, and the generic
  lemmas every component proof uses.
  \<^item> A JavaScript object used as a dictionary (\<open>shipment.documents\<close>) is an
    association list with distinct keys in insertion order; spreading an
    object and assigning one computed key (\<open>{...o, [k]: v}\<close>) is
    \<open>obj_set\<close>: the value is replaced in place when the key exists and
    appended otherwise, which is the ECMAScript property order.
  \<^item> \<open>undefined\<close> is \<open>None\<close>; the truthiness test of a string
    (\<open>s && ...\<close>, \<open>s || d\<close>) is \<open>js_truthy_str\<close>: the empty string is falsy.
  \<^item> The decimal rendering of a non-negative integer in a template literal
    (\<open>`log-${Date.now()}`\<close>) is \<open>show_nat\<close>; \<open>parse_nat\<close> reads it back.
\<close>

named_theorems obj_simps "laws of the association-list model of JavaScript objects"
named_theorems model_simps "unfolding rules of the model shared by the component proofs"

type_synonym js_string = string
type_synonym ('k, 'v) js_obj = "('k \<times> 'v) list"

section \<open>JavaScript objects as association lists\<close>

fun obj_set :: "('k, 'v) js_obj \<Rightarrow> 'k \<Rightarrow> 'v \<Rightarrow> ('k, 'v) js_obj" where
  "obj_set [] k v = [(k, v)]"
| "obj_set ((k', v') # kvs) k v =
     (if k' = k then (k, v) # kvs else (k', v') # obj_set kvs k v)"

definition obj_keys :: "('k, 'v) js_obj \<Rightarrow> 'k list" where
  "obj_keys kvs = map fst kvs"

definition obj_values :: "('k, 'v) js_obj \<Rightarrow> 'v list" where
  "obj_values kvs = map snd kvs"

section \<open>Truthiness of strings\<close>

definition js_truthy_str :: "js_string \<Rightarrow> bool" where
  "js_truthy_str s \<longleftrightarrow> s \<noteq> []"

definition js_truthy_opt_str :: "js_string option \<Rightarrow> bool" where
  "js_truthy_opt_str s \<longleftrightarrow> (case s of None \<Rightarrow> False | Some x \<Rightarrow> js_truthy_str x)"

section \<open>Decimal rendering of naturals\<close>

definition digit_char :: "nat \<Rightarrow> char" where
  "digit_char d = char_of (48 + d)"

fun show_nat :: "nat \<Rightarrow> js_string" where
  "show_nat n = (if n < 10 then [digit_char n] else show_nat (n div 10) @ [digit_char (n mod 10)])"

declare show_nat.simps [simp del]

definition digit_val :: "char \<Rightarrow> nat" where
  "digit_val c = of_char c - 48"

definition parse_nat :: "js_string \<Rightarrow> nat" where
  "parse_nat s = foldl (\<lambda>acc c. 10 * acc + digit_val c) 0 s"

section \<open>Lemmas on the object model\<close>

lemma obj_set_fresh [obj_simps]:
  "k \<notin> set (obj_keys kvs) \<Longrightarrow> obj_set kvs k v = kvs @ [(k, v)]"
  by (induction kvs) (auto simp: obj_keys_def)

lemma obj_keys_obj_set_mem [obj_simps]:
  "k \<in> set (obj_keys kvs) \<Longrightarrow> obj_keys (obj_set kvs k v) = obj_keys kvs"
  unfolding obj_keys_def by (induction kvs) force+

lemma obj_keys_obj_set:
  "obj_keys (obj_set kvs k v) = (if k \<in> set (obj_keys kvs) then obj_keys kvs else obj_keys kvs @ [k])"
  using obj_keys_obj_set_mem [of k kvs v] obj_set_fresh [of k kvs v]
  by (auto simp: obj_keys_def)

lemma map_of_obj_set [obj_simps]:
  "map_of (obj_set kvs k v) = (map_of kvs)(k \<mapsto> v)"
  by (induction kvs) (auto simp: fun_eq_iff)

lemma length_obj_set_mem [obj_simps]:
  "k \<in> set (obj_keys kvs) \<Longrightarrow> length (obj_set kvs k v) = length kvs"
  by (metis length_map obj_keys_def obj_keys_obj_set_mem)

lemma obj_values_obj_set_mem:
  assumes "distinct (obj_keys kvs)" and "map_of kvs k = Some u"
  shows "mset (obj_values (obj_set kvs k v)) = mset (obj_values kvs) - {#u#} + {#v#}"
  using assms unfolding obj_keys_def obj_values_def
proof (induction kvs)
  case Nil
  then show ?case by simp
next
  case (Cons p kvs)
  obtain k' v' where p: "p = (k', v')" by (cases p)
  show ?case
  proof (cases "k' = k")
    case True
    with Cons.prems p show ?thesis by simp
  next
    case False
    with Cons.prems p have IH: "mset (map snd (obj_set kvs k v)) = mset (map snd kvs) - {#u#} + {#v#}"
      by (intro Cons.IH) auto
    from False Cons.prems p have "(k, u) \<in> set kvs" by (auto dest: map_of_SomeD)
    then have "u \<in># mset (map snd kvs)" by force
    with IH False p show ?thesis by simp
  qed
qed

lemma set_obj_values_obj_set: "set (obj_values (obj_set kvs k v)) \<subseteq> insert v (set (obj_values kvs))"
  unfolding obj_values_def by (induction kvs) (force split: if_split_asm)+

section \<open>Lemmas on truthiness and decimal rendering\<close>

lemma js_truthy_opt_str_Some [simp]: "js_truthy_opt_str (Some x) \<longleftrightarrow> x \<noteq> []"
  and js_truthy_opt_str_None [simp]: "\<not> js_truthy_opt_str None"
  by (simp_all add: js_truthy_opt_str_def js_truthy_str_def)

lemma digit_val_digit_char [simp]: "d < 10 \<Longrightarrow> digit_val (digit_char d) = d"
  by (simp add: digit_val_def digit_char_def of_char_of)

lemma parse_nat_snoc [simp]: "parse_nat (s @ [c]) = 10 * parse_nat s + digit_val c"
  by (simp add: parse_nat_def)

lemma parse_show_nat [simp]: "parse_nat (show_nat n) = n"
proof (induction n rule: show_nat.induct)
  case (1 n)
  show ?case
  proof (cases "n < 10")
    case True
    then show ?thesis by (simp add: show_nat.simps [of n] parse_nat_def)
  next
    case False
    with "1.IH" show ?thesis by (simp add: show_nat.simps [of n])
  qed
qed

lemma show_nat_inj [simp]: "show_nat m = show_nat n \<longleftrightarrow> m = n"
  by (metis parse_show_nat)

lemma show_nat_nonempty [simp]: "show_nat n \<noteq> []"
  by (subst show_nat.simps) simp

lemma length_show_nat:
  "length (show_nat n) = (if n < 10 then 1 else Suc (length (show_nat (n div 10))))"
  by (subst show_nat.simps) simp

lemma length_show_nat_le: "0 < k \<Longrightarrow> length (show_nat n) \<le> k \<longleftrightarrow> n < 10 ^ k"
proof (induction n arbitrary: k rule: show_nat.induct)
  case (1 n)
  show ?case
  proof (cases "n < 10")
    case True
    moreover have "(10::nat) \<le> 10 ^ k" using "1.prems" by (cases k) simp_all
    ultimately show ?thesis using "1.prems" by (simp add: length_show_nat)
  next
    case False
    show ?thesis
    proof (cases "k = 1")
      case True
      with False show ?thesis by (simp add: length_show_nat)
    next
      case k: False
      with "1.prems" obtain j where j: "k = Suc j" "0 < j" by (cases k) auto
      have "n div 10 < 10 ^ j \<longleftrightarrow> n < 10 ^ k" using j(1) by (simp add: div_less_iff_less_mult mult.commute)
      with "1.IH" [OF False j(2)] False j show ?thesis by (simp add: length_show_nat)
    qed
  qed
qed

lemma set_show_nat_digits: "c \<in> set (show_nat n) \<Longrightarrow> \<exists>d < 10. c = digit_char d"
proof (induction n rule: show_nat.induct)
  case (1 n)
  show ?case
  proof (cases "n < 10")
    case True
    with "1.prems" show ?thesis by (auto simp: show_nat.simps [of n])
  next
    case False
    from "1.prems" False have "c \<in> set (show_nat (n div 10)) \<or> c = digit_char (n mod 10)"
      by (simp add: show_nat.simps [of n] disj_commute)
    then show ?thesis
    proof
      assume "c \<in> set (show_nat (n div 10))"
      with "1.IH" False show ?thesis by blast
    next
      assume "c = digit_char (n mod 10)"
      then show ?thesis by (intro exI [of _ "n mod 10"]) simp
    qed
  qed
qed

end
