(* ===== verification/Types.thy ===== *)
theory Types
  imports Prelude
begin

text \<open>
  The data model of \<open>src/types.ts\<close>: the two string enums as datatypes with
  their string values, the per-slot document record, the shipment record
  whose \<open>documents\<close> object is an association list keyed by document type,
  the analyzer's result, the analyzed-data row, the upload log entry and the
  modal's state. Optional TypeScript fields (\<open>?:\<close>, \<open>Partial\<close>) are
  \<open>option\<close> fields. The browser's \<open>File\<close> object (not part of the
  repository) is the record \<open>file_info\<close> of the three properties the code reads.
\<close>

section \<open>Enumerations\<close>

datatype DocumentType =
    INVOICE
  | BILL_OF_LADING
  | PACKING_LIST
  | CERTIFICATE_OF_ORIGIN
  | CUSTOMS_DECLARATION
  | SETTLEMENT_STATEMENT

fun DocumentType_value :: "DocumentType \<Rightarrow> js_string" where
  "DocumentType_value INVOICE = ''Commercial Invoice''"
| "DocumentType_value BILL_OF_LADING = ''Bill of Lading (BL)''"
| "DocumentType_value PACKING_LIST = ''Packing List''"
| "DocumentType_value CERTIFICATE_OF_ORIGIN = ''Certificate of Origin''"
| "DocumentType_value CUSTOMS_DECLARATION = ''Customs Declaration''"
| "DocumentType_value SETTLEMENT_STATEMENT = ''Settlement Statement''"

datatype DocumentStatus =
    MISSING
  | UPLOADED
  | PROCESSING
  | DUPLICATE
  | ERROR

fun DocumentStatus_value :: "DocumentStatus \<Rightarrow> js_string" where
  "DocumentStatus_value MISSING = ''Missing''"
| "DocumentStatus_value UPLOADED = ''Uploaded''"
| "DocumentStatus_value PROCESSING = ''Processing''"
| "DocumentStatus_value DUPLICATE = ''Duplicate''"
| "DocumentStatus_value ERROR = ''Error''"

section \<open>Records\<close>

text \<open>
  A document slot is \<open>Pick<Document, 'status'> & Partial<Omit<Document, 'status'>>\<close>:
  the status is always present, every other field may be absent.
\<close>

record doc_slot =
  status :: DocumentStatus
  name :: "js_string option"
  uploadDate :: "js_string option"
  uploader :: "js_string option"
  driveLink :: "js_string option"
  analysisSummary :: "js_string option"

text \<open>\<open>Shipment.id\<close> is the field \<open>sid\<close> (\<open>id\<close> is the HOL identity function).\<close>

record shipment =
  sid :: js_string
  invoiceNumber :: js_string
  shippingDate :: js_string
  origin :: js_string
  destination :: js_string
  carrier :: js_string
  documents :: "(DocumentType, doc_slot) js_obj"

text \<open>
  The analyzer returns \<open>Omit<AnalyzedData, 'shipmentId'>\<close>; the stored row
  \<open>AnalyzedData\<close> extends it with the shipment id. JavaScript numbers are
  modelled exactly: amounts as \<open>rat\<close>, quantities as \<open>int\<close>.
\<close>

record analysis_result =
  res_invoiceNumber :: "js_string option"
  totalAmount :: "rat option"
  quantity :: "int option"
  skus :: "js_string list option"
  res_analysisSummary :: "js_string option"

record analyzed_data = analysis_result +
  ad_shipmentId :: js_string

datatype analysis_status = Success | Failed

record upload_log_entry =
  log_id :: js_string
  fileName :: js_string
  log_driveLink :: js_string
  uploadTimestamp :: js_string
  documentType :: DocumentType
  log_uploader :: js_string
  log_shipmentId :: js_string
  analysisStatus :: analysis_status
  comments :: "js_string option"
  extractedData :: "analysis_result option"

record file_info =
  file_name :: js_string
  file_type :: js_string
  file_size :: nat

record modal_state =
  isOpen :: bool
  modal_shipmentId :: "js_string option"
  modal_docType :: "DocumentType option"
  modal_file :: "file_info option"

section \<open>Enumeration values\<close>

definition all_DocumentType :: "DocumentType list" where
  "all_DocumentType = [INVOICE, BILL_OF_LADING, PACKING_LIST, CERTIFICATE_OF_ORIGIN,
     CUSTOMS_DECLARATION, SETTLEMENT_STATEMENT]"

text \<open>
  The select control of the upload modal yields the enum's string value and the
  handler casts it back (\<open>selectedDocType as DocumentType\<close>); the cast is the
  partial inverse of \<open>DocumentType_value\<close>, \<open>None\<close> for a string that is no
  member's value.
\<close>

definition DocumentType_of_value :: "js_string \<Rightarrow> DocumentType option" where
  "DocumentType_of_value s = find (\<lambda>d. DocumentType_value d = s) all_DocumentType"

lemma set_all_DocumentType [simp]: "set all_DocumentType = UNIV"
proof -
  have "d \<in> set all_DocumentType" for d by (cases d) (simp_all add: all_DocumentType_def)
  then show ?thesis by blast
qed

lemma DocumentType_value_inj [simp]: "DocumentType_value d = DocumentType_value e \<longleftrightarrow> d = e"
  by (cases d; cases e) simp_all

lemma DocumentType_value_nonempty [simp]: "DocumentType_value d \<noteq> []"
  by (cases d) simp_all

lemma slot_cases_status [model_simps]:
  "(status s = UPLOADED \<or> status s = MISSING \<or> status s = PROCESSING \<or> status s = DUPLICATE
     \<or> status s = ERROR)"
  by (cases "status s") simp_all

end
