(* ===== verification/Constants.thy ===== *)
theory Constants
  imports Types
begin

text \<open>
  \<open>src/constants.ts\<close>: the display order of the six document types and the
  seed shipments the session starts from. A slot literal \<open>{ status: S }\<close> is
  \<open>status_only S\<close>; the seed's uploaded slots carry a name, an upload date,
  an uploader and the placeholder link \<open>'#'\<close>, and no analysis summary.
  The carrier \<open>CJ\<close> followed by four Hangul syllables is written as its UTF-8 bytes.
\<close>

definition DOCUMENT_TYPES :: "DocumentType list" where
  "DOCUMENT_TYPES = [INVOICE, BILL_OF_LADING, PACKING_LIST, CERTIFICATE_OF_ORIGIN,
     CUSTOMS_DECLARATION, SETTLEMENT_STATEMENT]"

definition status_only :: "DocumentStatus \<Rightarrow> doc_slot" where
  "status_only st = \<lparr>status = st, name = None, uploadDate = None, uploader = None,
     driveLink = None, analysisSummary = None\<rparr>"

definition seed_uploaded :: "js_string \<Rightarrow> js_string \<Rightarrow> js_string \<Rightarrow> doc_slot" where
  "seed_uploaded n d u = \<lparr>status = UPLOADED, name = Some n, uploadDate = Some d,
     uploader = Some u, driveLink = Some ''#'', analysisSummary = None\<rparr>"

definition carrier_CJ :: js_string where
  "carrier_CJ = ''CJ'' @ map char_of [235::nat, 140, 128, 237, 149, 156, 237, 134, 181, 236, 154, 180]"

definition INITIAL_SHIPMENTS :: "shipment list" where
  "INITIAL_SHIPMENTS = [
    \<lparr>sid = ''BSTSE002509010-1'', invoiceNumber = ''INPHL0002508290044'',
     shippingDate = ''2025-10-01'', origin = ''IN'', destination = ''KR'', carrier = ''SBSGPH'',
     documents = [
       (INVOICE, seed_uploaded ''CIPL_BSTSE002509010.pdf'' ''2024-10-23'' ''Yujin''),
       (BILL_OF_LADING, status_only MISSING),
       (PACKING_LIST, status_only MISSING),
       (CERTIFICATE_OF_ORIGIN, seed_uploaded ''COO_BSTSE002509010.pdf'' ''2024-10-24'' ''Admin''),
       (CUSTOMS_DECLARATION, status_only MISSING),
       (SETTLEMENT_STATEMENT, status_only MISSING)]\<rparr>,
    \<lparr>sid = ''MV0205020250510-02'', invoiceNumber = ''INSCG00250830021'',
     shippingDate = ''2025-10-02'', origin = ''KR'', destination = ''US'', carrier = ''AMZUS'',
     documents = [
       (INVOICE, status_only MISSING),
       (BILL_OF_LADING, status_only MISSING),
       (PACKING_LIST, status_only MISSING),
       (CERTIFICATE_OF_ORIGIN, status_only MISSING),
       (CUSTOMS_DECLARATION, status_only MISSING),
       (SETTLEMENT_STATEMENT, status_only MISSING)]\<rparr>,
    \<lparr>sid = ''MV0205020250510-06'', invoiceNumber = ''MV0205020250510-06'',
     shippingDate = ''2025-10-08'', origin = ''KR'', destination = ''US'', carrier = ''AMZUS'',
     documents = [
       (INVOICE, seed_uploaded ''INV_MV0205020250510-06.pdf'' ''2024-10-23'' ''Yujin''),
       (BILL_OF_LADING, seed_uploaded ''BL_MV0205020250510-06.pdf'' ''2024-10-23'' ''Yujin''),
       (PACKING_LIST, status_only MISSING),
       (CERTIFICATE_OF_ORIGIN, status_only MISSING),
       (CUSTOMS_DECLARATION, status_only MISSING),
       (SETTLEMENT_STATEMENT, status_only MISSING)]\<rparr>,
    \<lparr>sid = ''MV02110604202510-01'', invoiceNumber = ''MV02110604202510-01'',
     shippingDate = ''2025-10-01'', origin = ''KR'', destination = ''US'', carrier = carrier_CJ,
     documents = [
       (INVOICE, status_only ERROR),
       (BILL_OF_LADING, status_only MISSING),
       (PACKING_LIST, seed_uploaded ''PL_MV02110604202510-01.pdf'' ''2024-10-22'' ''Jaehyun''),
       (CERTIFICATE_OF_ORIGIN, status_only MISSING),
       (CUSTOMS_DECLARATION, status_only MISSING),
       (SETTLEMENT_STATEMENT, status_only MISSING)]\<rparr>,
    \<lparr>sid = ''MV02110604202510-09'', invoiceNumber = ''MV02110604202510-09'',
     shippingDate = ''2025-10-01'', origin = ''KR'', destination = ''US'', carrier = carrier_CJ,
     documents = [
       (INVOICE, status_only MISSING),
       (BILL_OF_LADING, status_only MISSING),
       (PACKING_LIST, status_only MISSING),
       (CERTIFICATE_OF_ORIGIN, status_only MISSING),
       (CUSTOMS_DECLARATION, status_only MISSING),
       (SETTLEMENT_STATEMENT, status_only MISSING)]\<rparr>]"

lemma DOCUMENT_TYPES_all: "DOCUMENT_TYPES = all_DocumentType"
  by (simp add: DOCUMENT_TYPES_def all_DocumentType_def)

lemma set_DOCUMENT_TYPES [simp]: "set DOCUMENT_TYPES = UNIV"
  by (simp add: DOCUMENT_TYPES_all)

lemma distinct_DOCUMENT_TYPES [simp]: "distinct DOCUMENT_TYPES"
  by (simp add: DOCUMENT_TYPES_def)

lemma length_DOCUMENT_TYPES [simp]: "length DOCUMENT_TYPES = 6"
  by (simp add: DOCUMENT_TYPES_def)

lemma status_only_simps [simp]:
  "status (status_only st) = st" "name (status_only st) = None"
  "uploadDate (status_only st) = None" "uploader (status_only st) = None"
  "driveLink (status_only st) = None" "analysisSummary (status_only st) = None"
  by (simp_all add: status_only_def)

lemma seed_uploaded_simps [simp]:
  "status (seed_uploaded n d u) = UPLOADED" "name (seed_uploaded n d u) = Some n"
  "uploadDate (seed_uploaded n d u) = Some d" "uploader (seed_uploaded n d u) = Some u"
  "driveLink (seed_uploaded n d u) = Some ''#''" "analysisSummary (seed_uploaded n d u) = None"
  by (simp_all add: seed_uploaded_def)

end
