(* ===== verification/Analyzer.thy ===== *)
theory Analyzer
  imports Types
begin

text \<open>
  \<open>src/services/geminiService.ts\<close>: the external analysis capability.
  \<^item> \<open>mockGeminiService\<close> draws five values from \<open>Math.random()\<close> (in the
    order the code calls it: amount, quantity, three SKUs) and reads
    \<open>Date.now()\<close>; these readings are the record \<open>mock_env\<close>. The returned
    promise always resolves.
  \<^item> The Gemini path builds a prompt and a request (\<open>gemini_prompt\<close>,
    \<open>gemini_request_of\<close>) and parses the JSON reply; the call and the parse are
    outside the repository, so they are a function \<open>gemini_api\<close> of the request:
    \<open>None\<close> when the request or \<open>JSON.parse\<close> throws, otherwise the parsed
    object's fields.
  \<^item> \<open>analyzeDocumentContent\<close> chooses the mock exactly when no API key is set.
  A settled promise is an \<open>analysis_outcome\<close>: \<open>Resolved\<close> with the result or
  \<open>Rejected\<close> with the error message.
  \<open>toFixed(2)\<close> rounds to the nearest hundredth (ties upward), and a JavaScript
  number with at most two decimals prints as \<open>show_num2\<close>; both act on the
  exact rational value (binary floating point is not modelled).
\<close>

datatype analysis_outcome = Resolved analysis_result | Rejected js_string

record mock_env =
  mock_now :: nat
  rand_amount :: rat
  rand_quantity :: rat
  rand_sku1 :: rat
  rand_sku2 :: rat
  rand_sku3 :: rat

section \<open>JavaScript number formatting used by the service\<close>

definition to_fixed2 :: "rat \<Rightarrow> rat" where
  "to_fixed2 x = of_int \<lfloor>x * 100 + 1 / 2\<rfloor> / 100"

definition show_num2 :: "rat \<Rightarrow> js_string" where
  "show_num2 x =
     (let c = nat \<lfloor>x * 100\<rfloor>; ip = c div 100; fp = c mod 100 in
      if fp = 0 then show_nat ip
      else if fp mod 10 = 0 then show_nat ip @ ''.'' @ [digit_char (fp div 10)]
      else show_nat ip @ ''.'' @ [digit_char (fp div 10), digit_char (fp mod 10)])"

definition slice_last :: "nat \<Rightarrow> js_string \<Rightarrow> js_string" where
  "slice_last k s = drop (length s - k) s"

section \<open>The mock service\<close>

definition randomSku :: "rat \<Rightarrow> js_string" where
  "randomSku r = ''SKU'' @ show_nat (nat \<lfloor>1000 + r * 9000\<rfloor>)"

definition mockGeminiService :: "mock_env \<Rightarrow> js_string \<Rightarrow> DocumentType \<Rightarrow> analysis_outcome" where
  "mockGeminiService env fileContent docType =
     (let totalAmount' = to_fixed2 (rand_amount env * 10000 + 500);
          quantity' = \<lfloor>rand_quantity env * 200 + 10\<rfloor>
      in Resolved
        \<lparr>res_invoiceNumber = Some (''INV-'' @ slice_last 6 (show_nat (mock_now env))),
         totalAmount = Some totalAmount',
         quantity = Some quantity',
         skus = Some [randomSku (rand_sku1 env), randomSku (rand_sku2 env), randomSku (rand_sku3 env)],
         res_analysisSummary = Some (''This document appears to be a '' @ DocumentType_value docType
           @ '' for a shipment of '' @ show_nat (nat quantity') @ '' items, with a total value of $''
           @ show_num2 totalAmount' @ ''.'')\<rparr>)"

section \<open>The Gemini path and the dispatcher\<close>

definition gemini_error :: js_string where
  "gemini_error = ''Failed to parse document with Gemini API.''"

text \<open>
  The prompt is a template literal whose continuation lines keep the source's
  four-space indent; the quotes around the document type and the content are
  \<open>CHR 0x22\<close>.
\<close>

definition prompt_line :: "js_string \<Rightarrow> js_string" where
  "prompt_line s = [CHR 0x0A] @ replicate 4 (CHR 0x20) @ s"

definition gemini_prompt :: "DocumentType \<Rightarrow> js_string \<Rightarrow> js_string" where
  "gemini_prompt docType fileContent =
     ''Analyze the following document content, which is a '' @ [CHR 0x22] @ DocumentType_value docType
     @ [CHR 0x22] @ ''. Extract the following information:''
     @ prompt_line ''1. The invoice number.''
     @ prompt_line ''2. The total monetary amount (as a number).''
     @ prompt_line ''3. The total quantity of all items.''
     @ prompt_line ''4. A list of all unique SKU codes.''
     @ prompt_line (''5. A brief, one-sentence summary of the document'' @ [CHR 0x27] @ ''s key content.'')
     @ prompt_line []
     @ prompt_line ''Document Content:''
     @ prompt_line ([CHR 0x22] @ fileContent @ [CHR 0x22])
     @ prompt_line []
     @ prompt_line ''Return the data in the specified JSON format.''"

text \<open>
  The argument of \<open>ai.models.generateContent\<close>: the model, the prompt as
  contents, the JSON MIME type and the fields the response schema requires.
\<close>

record gemini_request =
  gr_model :: js_string
  gr_contents :: js_string
  gr_mimeType :: js_string
  gr_required :: "js_string list"

definition gemini_request_of :: "js_string \<Rightarrow> gemini_request" where
  "gemini_request_of prompt =
     \<lparr>gr_model = ''gemini-2.5-flash'', gr_contents = prompt, gr_mimeType = ''application/json'',
      gr_required = [''invoiceNumber'', ''totalAmount'', ''quantity'', ''skus'', ''analysisSummary'']\<rparr>"

text \<open>
  The Gemini call followed by \<open>JSON.parse\<close> is outside the repository: it is a
  function of the request, \<open>None\<close> when the call or the parse throws.
\<close>

type_synonym gemini_api = "gemini_request \<Rightarrow> analysis_result option"

text \<open>
  The reply's five fields are copied into a fresh object; a field the JSON
  lacks stays \<open>undefined\<close>.
\<close>

definition geminiAnalyze :: "analysis_result option \<Rightarrow> analysis_outcome" where
  "geminiAnalyze reply =
     (case reply of
        None \<Rightarrow> Rejected gemini_error
      | Some result \<Rightarrow> Resolved
          \<lparr>res_invoiceNumber = res_invoiceNumber result, totalAmount = totalAmount result,
           quantity = quantity result, skus = skus result,
           res_analysisSummary = res_analysisSummary result\<rparr>)"

definition analyzeDocumentContent ::
  "js_string option \<Rightarrow> mock_env \<Rightarrow> gemini_api \<Rightarrow> js_string \<Rightarrow> DocumentType \<Rightarrow> analysis_outcome" where
  "analyzeDocumentContent API_KEY env gemini fileContent docType =
     (if \<not> js_truthy_opt_str API_KEY then mockGeminiService env fileContent docType
      else geminiAnalyze (gemini (gemini_request_of (gemini_prompt docType fileContent))))"

section \<open>Lemmas\<close>

lemma to_fixed2_mono: "x \<le> y \<Longrightarrow> to_fixed2 x \<le> to_fixed2 y"
  unfolding to_fixed2_def by (simp add: divide_right_mono floor_mono)

lemma to_fixed2_of_int: "to_fixed2 (of_int k) = of_int k"
proof -
  have "\<lfloor>(of_int k :: rat) * 100 + 1 / 2\<rfloor> = k * 100" by linarith
  then show ?thesis by (simp add: to_fixed2_def)
qed

lemma to_fixed2_cents: "to_fixed2 x * 100 \<in> \<int>"
  by (simp add: to_fixed2_def)

lemma slice_last_snoc: "slice_last (Suc k) (xs @ [c]) = slice_last k xs @ [c]"
  by (simp add: slice_last_def)

lemma length_slice_last: "length (slice_last k s) = min k (length s)"
  by (simp add: slice_last_def)

lemma parse_slice_last_show_nat: "parse_nat (slice_last k (show_nat n)) = n mod 10 ^ k"
proof (induction k arbitrary: n)
  case 0
  then show ?case by (simp add: slice_last_def parse_nat_def)
next
  case (Suc k)
  show ?case
  proof (cases "n < 10")
    case True
    moreover have "n < 10 ^ Suc k" using True by (rule less_le_trans) simp
    ultimately show ?thesis
      by (simp add: show_nat.simps [of n] slice_last_def parse_nat_def digit_val_def digit_char_def)
  next
    case False
    then have "show_nat n = show_nat (n div 10) @ [digit_char (n mod 10)]" by (simp add: show_nat.simps [of n])
    then have "parse_nat (slice_last (Suc k) (show_nat n)) = 10 * (n div 10 mod 10 ^ k) + n mod 10"
      by (simp add: slice_last_snoc Suc.IH)
    also have "\<dots> = n mod 10 ^ Suc k" by (simp add: mod_mult2_eq mult.commute)
    finally show ?thesis .
  qed
qed

section \<open>Properties of the service\<close>

text \<open>
  C16. With \<open>Math.random()\<close> readings in [0, 1) the mock always resolves, with
  an amount between 500 and 10500 carrying at most two decimals, a quantity
  between 10 and 209, and three SKUs.
\<close>

theorem mockGeminiService_bounds:
  assumes "0 \<le> rand_amount env" and "rand_amount env < 1"
    and "0 \<le> rand_quantity env" and "rand_quantity env < 1"
  shows "\<exists>r a q. mockGeminiService env fileContent docType = Resolved r
           \<and> totalAmount r = Some a \<and> quantity r = Some q
           \<and> 500 \<le> a \<and> a \<le> 10500 \<and> a * 100 \<in> \<int>
           \<and> 10 \<le> q \<and> q \<le> 209 \<and> length (the (skus r)) = 3"
proof -
  let ?x = "rand_amount env * 10000 + 500"
  have "to_fixed2 (of_int 500) \<le> to_fixed2 ?x" "to_fixed2 ?x \<le> to_fixed2 (of_int 10500)"
    using assms(1,2) by (simp_all add: to_fixed2_mono)
  then have a: "500 \<le> to_fixed2 ?x" "to_fixed2 ?x \<le> 10500" by (simp_all only: to_fixed2_of_int)
  have q: "10 \<le> \<lfloor>rand_quantity env * 200 + 10\<rfloor>" "\<lfloor>rand_quantity env * 200 + 10\<rfloor> \<le> 209"
    using assms(3,4) by linarith+
  show ?thesis using a q to_fixed2_cents [of ?x] by (simp add: mockGeminiService_def Let_def)
qed

text \<open>
  C17. A random SKU is \<open>SKU\<close> followed by four decimal digits, and reading the
  digits back gives the drawn number \<open>Math.floor(1000 + r * 9000)\<close>.
\<close>

theorem randomSku_roundtrip:
  assumes "0 \<le> r" and "r < 1"
  shows "take 3 (randomSku r) = ''SKU'' \<and> length (randomSku r) = 7
         \<and> parse_nat (drop 3 (randomSku r)) = nat \<lfloor>1000 + r * 9000\<rfloor>
         \<and> 1000 \<le> parse_nat (drop 3 (randomSku r)) \<and> parse_nat (drop 3 (randomSku r)) \<le> 9999"
proof -
  let ?n = "nat \<lfloor>1000 + r * 9000\<rfloor>"
  have n: "1000 \<le> ?n" "?n \<le> 9999" using assms by linarith+
  then have "\<not> length (show_nat ?n) \<le> 3" "length (show_nat ?n) \<le> 4"
    using length_show_nat_le [of 3 ?n] length_show_nat_le [of 4 ?n] by simp_all
  then have "length (show_nat ?n) = 4" by simp
  with n show ?thesis by (simp add: randomSku_def)
qed

text \<open>
  C18. The mock's invoice number is \<open>INV-\<close> followed by the last six digits
  of \<open>Date.now()\<close>: reading them back gives the clock reading modulo
  \<open>10^6\<close>; it is never empty, so it always overwrites the shipment's invoice
  number on success.
\<close>

theorem mock_invoice_roundtrip:
  "\<exists>r s. mockGeminiService env fileContent docType = Resolved r
      \<and> res_invoiceNumber r = Some (''INV-'' @ s)
      \<and> parse_nat s = mock_now env mod 10 ^ 6 \<and> 0 < length s \<and> length s \<le> 6"
proof -
  let ?s = "slice_last 6 (show_nat (mock_now env))"
  have "parse_nat ?s = mock_now env mod 10 ^ 6" by (rule parse_slice_last_show_nat)
  moreover have "0 < length ?s" "length ?s \<le> 6"
    using show_nat_nonempty [of "mock_now env"] by (simp_all add: length_slice_last)
  ultimately show ?thesis by (simp add: mockGeminiService_def Let_def)
qed

text \<open>
  C19. \<open>analyzeDocumentContent\<close> rejects exactly when an API key is set and the
  Gemini call on the request built from the prompt, or the parse of its reply, fails, and then with the message
  \<open>Failed to parse document with Gemini API.\<close>; without a key it never rejects.
\<close>

theorem analyzeDocumentContent_rejects:
  "analyzeDocumentContent key env gemini fileContent docType = Rejected m
   \<longleftrightarrow> js_truthy_opt_str key \<and> gemini (gemini_request_of (gemini_prompt docType fileContent)) = None
       \<and> m = gemini_error"
  by (auto simp: analyzeDocumentContent_def mockGeminiService_def geminiAnalyze_def Let_def
      split: option.splits)

text \<open>
  The mock is not a deterministic test double: for the same document two
  \<open>Math.random()\<close> readings give two different results.
\<close>

lemma mockGeminiService_not_deterministic:
  "mockGeminiService (env\<lparr>rand_amount := 0\<rparr>) fileContent docType
     \<noteq> mockGeminiService (env\<lparr>rand_amount := 1 / 2\<rparr>) fileContent docType"
proof -
  have "to_fixed2 500 = 500" "to_fixed2 5500 = 5500"
    using to_fixed2_of_int [of 500] to_fixed2_of_int [of 5500] by simp_all
  then show ?thesis by (simp add: mockGeminiService_def Let_def)
qed

section \<open>Witnesses\<close>

theorem mockGeminiService_bounds_witness:
  "\<exists>r a q. mockGeminiService \<lparr>mock_now = 1700000123456, rand_amount = 1 / 2, rand_quantity = 1 / 4,
             rand_sku1 = 0, rand_sku2 = 1 / 2, rand_sku3 = 9 / 10\<rparr> ''x'' INVOICE = Resolved r
      \<and> totalAmount r = Some a \<and> quantity r = Some q
      \<and> 500 \<le> a \<and> a \<le> 10500 \<and> a * 100 \<in> \<int> \<and> 10 \<le> q \<and> q \<le> 209 \<and> length (the (skus r)) = 3"
  by (rule mockGeminiService_bounds) simp_all

theorem randomSku_roundtrip_witness:
  "take 3 (randomSku (1 / 2)) = ''SKU'' \<and> length (randomSku (1 / 2)) = 7
   \<and> parse_nat (drop 3 (randomSku (1 / 2))) = 5500
   \<and> 1000 \<le> parse_nat (drop 3 (randomSku (1 / 2))) \<and> parse_nat (drop 3 (randomSku (1 / 2))) \<le> 9999"
proof -
  have "nat \<lfloor>1000 + (1 / 2 :: rat) * 9000\<rfloor> = 5500" by simp
  with randomSku_roundtrip [of "1 / 2"] show ?thesis by simp
qed

end
