(* ===== verification/Lifecycle.thy ===== *)
theory Lifecycle
  imports Constants Analyzer
begin

text \<open>
  \<open>src/App.tsx\<close>: the session state held by the \<open>App\<close> component's
  \<open>useState\<close> hooks (record \<open>app_state\<close>) and its handlers as functions on it.
  \<open>handleFileUpload\<close> is asynchronous: its synchronous prefix (\<open>uploadStart\<close>,
  lines 192--206) runs before the \<open>await\<close>; when the analyzer's promise settles,
  \<open>uploadSettle\<close> runs the \<open>try\<close> continuation (\<open>uploadSucceeded\<close>) or the
  \<open>catch\<close> block (\<open>uploadFailed\<close>) and then the \<open>finally\<close> block. The
  analyzer is a parameter of type \<open>analyzer\<close>, discharged by
  \<open>analyzeDocumentContent\<close> of \<open>Analyzer\<close>. Each functional \<open>setState\<close>
  update is applied to the state current when it runs, so every phase is a
  function of the state. The clock readings the handler makes
  (\<open>new Date().toISOString()\<close> twice and \<open>Date.now()\<close>) are the record
  \<open>upload_clock\<close>.
\<close>

type_synonym analyzer = "js_string \<Rightarrow> DocumentType \<Rightarrow> analysis_outcome"

record app_state =
  shipments :: "shipment list"
  uploadLogs :: "upload_log_entry list"
  analyzedData :: "analyzed_data list"
  modalState :: modal_state
  isAnalyzing :: bool
  error :: "js_string option"
  dragActive :: bool

record upload_clock =
  clock_slotDate :: js_string
  clock_now_ms :: nat
  clock_logDate :: js_string

record summary =
  totalDocs :: int
  uploadedDocs :: int
  missingDocs :: int
  totalValue :: rat

section \<open>Initial state and modal handlers\<close>

definition closed_modal :: modal_state where
  "closed_modal = \<lparr>isOpen = False, modal_shipmentId = None, modal_docType = None, modal_file = None\<rparr>"

definition initial_state :: app_state where
  "initial_state = \<lparr>shipments = INITIAL_SHIPMENTS, uploadLogs = [], analyzedData = [],
     modalState = closed_modal, isAnalyzing = False, error = None, dragActive = False\<rparr>"

definition handleOpenModal ::
  "js_string option \<Rightarrow> DocumentType option \<Rightarrow> file_info option \<Rightarrow> app_state \<Rightarrow> app_state" where
  "handleOpenModal shipmentId docType file st =
     st\<lparr>modalState := \<lparr>isOpen = True, modal_shipmentId = shipmentId, modal_docType = docType,
                        modal_file = file\<rparr>\<rparr>"

definition handleCloseModal :: "app_state \<Rightarrow> app_state" where
  "handleCloseModal st = st\<lparr>modalState := closed_modal, error := None\<rparr>"

section \<open>The upload workflow\<close>

text \<open>\<open>{...shipment.documents[docType], status: S}\<close>: an absent slot spreads as nothing.\<close>

definition spread_status :: "doc_slot option \<Rightarrow> DocumentStatus \<Rightarrow> doc_slot" where
  "spread_status d st = (case d of None \<Rightarrow> status_only st | Some s \<Rightarrow> s\<lparr>status := st\<rparr>)"

definition markProcessing :: "js_string \<Rightarrow> DocumentType \<Rightarrow> shipment \<Rightarrow> shipment" where
  "markProcessing shipmentId docType shipment =
     (if sid shipment = shipmentId
      then shipment\<lparr>documents := obj_set (documents shipment) docType
             (spread_status (map_of (documents shipment) docType) PROCESSING)\<rparr>
      else shipment)"

definition uploadStart :: "js_string \<Rightarrow> DocumentType \<Rightarrow> app_state \<Rightarrow> app_state" where
  "uploadStart shipmentId docType st =
     st\<lparr>isAnalyzing := True, error := None,
        shipments := map (markProcessing shipmentId docType) (shipments st)\<rparr>"

text \<open>The content surrogate: a template literal whose continuation lines keep the source's 12-space indent.\<close>

definition src_line :: "js_string \<Rightarrow> js_string" where
  "src_line s = [CHR 0x0A] @ replicate 12 (CHR 0x20) @ s"

definition fileContent :: "file_info \<Rightarrow> DocumentType \<Rightarrow> js_string \<Rightarrow> js_string" where
  "fileContent file docType shipmentId =
     ''--- DUMMY FILE CONTENT ---''
     @ src_line (''File Name: '' @ file_name file)
     @ src_line (''File Type: '' @ file_type file)
     @ src_line (''Size: '' @ show_nat (file_size file) @ '' bytes'')
     @ src_line (''Document Type: '' @ DocumentType_value docType)
     @ src_line (''Shipment ID: '' @ shipmentId)
     @ src_line ''This is a placeholder for the actual file content.''
     @ src_line ''--- END DUMMY CONTENT ---''"

definition uploaded_slot :: "js_string \<Rightarrow> file_info \<Rightarrow> js_string \<Rightarrow> analysis_result \<Rightarrow> doc_slot" where
  "uploaded_slot invoice file date result =
     \<lparr>status = UPLOADED, name = Some (file_name file), uploadDate = Some date,
      uploader = Some ''Admin User'',
      driveLink = Some (''https://mock-drive.com/'' @ invoice @ ''/'' @ file_name file),
      analysisSummary = res_analysisSummary result\<rparr>"

definition applySuccess ::
  "js_string \<Rightarrow> DocumentType \<Rightarrow> file_info \<Rightarrow> js_string \<Rightarrow> analysis_result \<Rightarrow> shipment \<Rightarrow> shipment" where
  "applySuccess shipmentId docType file date result shipment =
     (if sid shipment = shipmentId
      then (let s' = shipment\<lparr>documents := obj_set (documents shipment) docType
                       (uploaded_slot (invoiceNumber shipment) file date result)\<rparr>
            in case res_invoiceNumber result of
                 Some n \<Rightarrow> if js_truthy_str n then s'\<lparr>invoiceNumber := n\<rparr> else s'
               | None \<Rightarrow> s')
      else shipment)"

definition newLog ::
  "upload_clock \<Rightarrow> file_info \<Rightarrow> js_string \<Rightarrow> DocumentType \<Rightarrow> js_string option \<Rightarrow> analysis_result
   \<Rightarrow> upload_log_entry" where
  "newLog clk file shipmentId docType comments' result =
     \<lparr>log_id = ''log-'' @ show_nat (clock_now_ms clk), fileName = file_name file,
      log_driveLink = ''https://mock-drive.com/'' @ shipmentId @ ''/'' @ file_name file,
      uploadTimestamp = clock_logDate clk, documentType = docType, log_uploader = ''Admin User'',
      log_shipmentId = shipmentId, analysisStatus = Success, comments = comments',
      extractedData = Some result\<rparr>"

definition analyzed_row :: "js_string \<Rightarrow> analysis_result \<Rightarrow> analyzed_data" where
  "analyzed_row shipmentId result =
     \<lparr>res_invoiceNumber = res_invoiceNumber result, totalAmount = totalAmount result,
      quantity = quantity result, skus = skus result,
      res_analysisSummary = res_analysisSummary result, ad_shipmentId = shipmentId\<rparr>"

definition uploadSucceeded ::
  "upload_clock \<Rightarrow> file_info \<Rightarrow> js_string \<Rightarrow> DocumentType \<Rightarrow> js_string option \<Rightarrow> analysis_result
   \<Rightarrow> app_state \<Rightarrow> app_state" where
  "uploadSucceeded clk file shipmentId docType comments' result st =
     handleCloseModal
       (st\<lparr>shipments := map (applySuccess shipmentId docType file (clock_slotDate clk) result) (shipments st),
           uploadLogs := newLog clk file shipmentId docType comments' result # uploadLogs st,
           analyzedData := analyzedData st @ [analyzed_row shipmentId result]\<rparr>)"

definition upload_error_msg :: js_string where
  "upload_error_msg = ''Failed to analyze document. The content might be invalid or the service is unavailable. Please try again.''"

definition markError :: "js_string \<Rightarrow> DocumentType \<Rightarrow> shipment \<Rightarrow> shipment" where
  "markError shipmentId docType shipment =
     (if sid shipment = shipmentId
      then shipment\<lparr>documents := obj_set (documents shipment) docType
             (spread_status (map_of (documents shipment) docType) ERROR)\<rparr>
      else shipment)"

definition uploadFailed :: "js_string \<Rightarrow> DocumentType \<Rightarrow> app_state \<Rightarrow> app_state" where
  "uploadFailed shipmentId docType st =
     st\<lparr>error := Some upload_error_msg,
        shipments := map (markError shipmentId docType) (shipments st)\<rparr>"

definition uploadSettle ::
  "upload_clock \<Rightarrow> file_info \<Rightarrow> js_string \<Rightarrow> DocumentType \<Rightarrow> js_string option \<Rightarrow> analysis_outcome
   \<Rightarrow> app_state \<Rightarrow> app_state" where
  "uploadSettle clk file shipmentId docType comments' outcome st =
     (let st' = (case outcome of
                   Resolved result \<Rightarrow> uploadSucceeded clk file shipmentId docType comments' result st
                 | Rejected _ \<Rightarrow> uploadFailed shipmentId docType st)
      in st'\<lparr>isAnalyzing := False\<rparr>)"

definition handleFileUpload ::
  "analyzer \<Rightarrow> upload_clock \<Rightarrow> file_info \<Rightarrow> js_string \<Rightarrow> DocumentType \<Rightarrow> js_string option
   \<Rightarrow> app_state \<Rightarrow> app_state" where
  "handleFileUpload analyze clk file shipmentId docType comments' st =
     uploadSettle clk file shipmentId docType comments'
       (analyze (fileContent file docType shipmentId) docType)
       (uploadStart shipmentId docType st)"

section \<open>The dashboard summary\<close>

definition amount_or_zero :: "analyzed_data \<Rightarrow> rat" where
  "amount_or_zero data = (case totalAmount data of None \<Rightarrow> 0 | Some a \<Rightarrow> a)"

definition analyticsSummary :: "shipment list \<Rightarrow> analyzed_data list \<Rightarrow> summary" where
  "analyticsSummary ships datas =
     (let totalDocs' = int (length ships * length DOCUMENT_TYPES);
          uploadedDocs' = int (length (filter (\<lambda>d. status d = UPLOADED)
                                  (concat (map (\<lambda>s. obj_values (documents s)) ships))));
          missingDocs' = totalDocs' - uploadedDocs';
          totalValue' = foldl (\<lambda>acc data. acc + amount_or_zero data) 0 datas
      in \<lparr>totalDocs = totalDocs', uploadedDocs = uploadedDocs', missingDocs = missingDocs',
          totalValue = totalValue'\<rparr>)"

section \<open>Drag and drop\<close>

definition handleDrag :: "js_string \<Rightarrow> app_state \<Rightarrow> app_state" where
  "handleDrag evType st =
     (if evType = ''dragenter'' \<or> evType = ''dragover'' then st\<lparr>dragActive := True\<rparr>
      else if evType = ''dragleave'' then st\<lparr>dragActive := False\<rparr>
      else st)"

definition handleDrop :: "file_info list \<Rightarrow> app_state \<Rightarrow> app_state" where
  "handleDrop files st =
     (let st' = st\<lparr>dragActive := False\<rparr> in
      case files of [] \<Rightarrow> st' | f # _ \<Rightarrow> handleOpenModal None None (Some f) st')"

section \<open>Invariants and the abstract slot state machine\<close>

definition slots_wf :: "shipment \<Rightarrow> bool" where
  "slots_wf s \<longleftrightarrow> obj_keys (documents s) = DOCUMENT_TYPES"


definition uploaded_wf :: "doc_slot \<Rightarrow> bool" where
  "uploaded_wf d \<longleftrightarrow>
     (status d = UPLOADED \<longrightarrow> name d \<noteq> None \<and> uploadDate d \<noteq> None \<and> uploader d \<noteq> None \<and> driveLink d \<noteq> None)"


definition shipments_wf :: "shipment list \<Rightarrow> bool" where
  "shipments_wf ss \<longleftrightarrow> distinct (map sid ss) \<and> list_all slots_wf ss
     \<and> list_all (\<lambda>s. list_all uploaded_wf (obj_values (documents s))) ss"


definition find_shipment :: "shipment list \<Rightarrow> js_string \<Rightarrow> shipment option" where
  "find_shipment ss x = find (\<lambda>s. sid s = x) ss"


definition slot_of :: "shipment list \<Rightarrow> js_string \<Rightarrow> DocumentType \<Rightarrow> doc_slot option" where
  "slot_of ss x dt = (case find_shipment ss x of None \<Rightarrow> None | Some s \<Rightarrow> map_of (documents s) dt)"


definition abs_slots :: "shipment list \<Rightarrow> (js_string \<times> DocumentType) \<rightharpoonup> DocumentStatus" where
  "abs_slots ss = (\<lambda>(x, dt). map_option status (slot_of ss x dt))"


datatype slot_event = Begin | Succeed | Fail


fun spec_slot :: "DocumentStatus \<Rightarrow> slot_event \<Rightarrow> DocumentStatus" where
  "spec_slot _ Begin = PROCESSING"
| "spec_slot _ Succeed = UPLOADED"
| "spec_slot _ Fail = ERROR"


definition spec_apply ::
  "((js_string \<times> DocumentType) \<rightharpoonup> DocumentStatus) \<Rightarrow> js_string \<Rightarrow> DocumentType \<Rightarrow> slot_event
   \<Rightarrow> ((js_string \<times> DocumentType) \<rightharpoonup> DocumentStatus)" where
  "spec_apply m x dt ev = (case m (x, dt) of None \<Rightarrow> m | Some st \<Rightarrow> m((x, dt) \<mapsto> spec_slot st ev))"


text \<open>A shipment transformer of the handler touches only the shipment with the given id and sets one slot.\<close>


definition sets_slot :: "(shipment \<Rightarrow> shipment) \<Rightarrow> js_string \<Rightarrow> DocumentType \<Rightarrow> (shipment \<Rightarrow> doc_slot) \<Rightarrow> bool" where
  "sets_slot f x dt new \<longleftrightarrow> (\<forall>s. sid (f s) = sid s
     \<and> (sid s \<noteq> x \<longrightarrow> f s = s)
     \<and> (sid s = x \<longrightarrow> documents (f s) = obj_set (documents s) dt (new s)))"


fun outcome_event :: "analysis_outcome \<Rightarrow> slot_event" where
  "outcome_event (Resolved _) = Succeed"
| "outcome_event (Rejected _) = Fail"


definition uploaded_in :: "shipment \<Rightarrow> nat" where
  "uploaded_in s = length (filter (\<lambda>d. status d = UPLOADED) (obj_values (documents s)))"


section \<open>Upload workflow lemmas\<close>

lemma sets_slot_markProcessing:
  "sets_slot (markProcessing x dt) x dt (\<lambda>s. spread_status (map_of (documents s) dt) PROCESSING)"
  by (simp add: sets_slot_def markProcessing_def)


lemma sets_slot_markError:
  "sets_slot (markError x dt) x dt (\<lambda>s. spread_status (map_of (documents s) dt) ERROR)"
  by (simp add: sets_slot_def markError_def)


lemma sets_slot_applySuccess:
  "sets_slot (applySuccess x dt file date r) x dt (\<lambda>s. uploaded_slot (invoiceNumber s) file date r)"
  by (auto simp: sets_slot_def applySuccess_def Let_def split: option.splits)


lemma find_map_sid:
  assumes "\<And>s. sid (f s) = sid s"
  shows "find (\<lambda>s. sid s = x) (map f ss) = map_option f (find (\<lambda>s. sid s = x) ss)"
  by (induction ss) (simp_all add: assms)


lemma map_sid_sets_slot: "sets_slot f x dt new \<Longrightarrow> map sid (map f ss) = map sid ss"
  by (induction ss) (simp_all add: sets_slot_def)


lemma slot_of_sets_slot:
  assumes "sets_slot f x dt new"
  shows "slot_of (map f ss) y dt' =
    (case find_shipment ss y of None \<Rightarrow> None
     | Some s \<Rightarrow> if y = x \<and> dt' = dt then Some (new s) else map_of (documents s) dt')"
proof -
  from assms have sid: "\<And>s. sid (f s) = sid s" by (simp add: sets_slot_def)
  show ?thesis
  proof (cases "find_shipment ss y")
    case None
    then show ?thesis by (simp add: slot_of_def find_shipment_def find_map_sid [OF sid])
  next
    case (Some s)
    then have "sid s = y" by (auto simp: find_shipment_def dest: find_Some_iff [THEN iffD1])
    with Some assms show ?thesis
      by (cases "y = x") (auto simp: slot_of_def find_shipment_def find_map_sid [OF sid] sets_slot_def obj_simps)
  qed
qed


lemma abs_slots_sets_slot:
  assumes "sets_slot f x dt new"
    and "\<And>s::shipment. \<And>st. map_option status (map_of (documents s) dt) = Some st \<Longrightarrow> status (new s) = spec_slot st ev"
    and "\<And>s::shipment. s \<in> set ss \<Longrightarrow> sid s = x \<Longrightarrow> map_of (documents s) dt \<noteq> None"
  shows "abs_slots (map f ss) = spec_apply (abs_slots ss) x dt ev"
proof (rule ext)
  fix p :: "js_string \<times> DocumentType"
  obtain y dt' where p: "p = (y, dt')" by (cases p)
  show "abs_slots (map f ss) p = spec_apply (abs_slots ss) x dt ev p"
  proof (cases "find_shipment ss y")
    case None
    then have "slot_of (map f ss) y dt' = None" by (simp add: slot_of_sets_slot [OF assms(1)])
    moreover from None have "abs_slots ss (y, dt') = None" by (simp add: abs_slots_def slot_of_def)
    ultimately show ?thesis using p
      by (auto simp: abs_slots_def spec_apply_def split: option.splits)
  next
    case (Some s)
    then have y: "sid s = y" by (auto simp: find_shipment_def dest: find_Some_iff [THEN iffD1])
    from Some have lhs: "abs_slots (map f ss) (y, dt') =
        (if y = x \<and> dt' = dt then Some (status (new s)) else map_option status (map_of (documents s) dt'))"
      by (simp add: abs_slots_def slot_of_sets_slot [OF assms(1)])
    from Some have rhs: "abs_slots ss (y, dt') = map_option status (map_of (documents s) dt')"
      by (simp add: abs_slots_def slot_of_def)
    show ?thesis
    proof (cases "y = x \<and> dt' = dt")
      case True
      from Some have "s \<in> set ss" by (auto simp: find_shipment_def dest: find_Some_iff [THEN iffD1] nth_mem)
      with True y have "map_of (documents s) dt \<noteq> None" using assms(3) [of s] by simp
      then obtain z where z: "map_of (documents s) dt = Some z" by blast
      then have "status (new s) = spec_slot (status z) ev" using assms(2) by simp
      with True lhs rhs z p show ?thesis by (simp add: spec_apply_def)
    next
      case False
      with lhs rhs p show ?thesis by (auto simp: spec_apply_def split: option.splits)
    qed
qed
qed


lemma slots_wf_map_of: "slots_wf s \<Longrightarrow> map_of (documents s) dt \<noteq> None"
proof -
  assume "slots_wf s"
  then have "dt \<in> fst ` set (documents s)"
    by (metis UNIV_I set_DOCUMENT_TYPES set_map slots_wf_def obj_keys_def)
  then show ?thesis by (simp add: map_of_eq_None_iff)
qed


lemma slots_wf_sets_slot: "sets_slot f x dt new \<Longrightarrow> slots_wf s \<Longrightarrow> slots_wf (f s)"
  by (cases "sid s = x") (auto simp: sets_slot_def slots_wf_def obj_keys_obj_set_mem)


lemma shipments_wf_sets_slot:
  assumes f: "sets_slot f x dt new" and new: "\<And>s. uploaded_wf (new s)" and wf: "shipments_wf ss"
  shows "shipments_wf (map f ss)"
proof -
  have "distinct (map sid (map f ss))"
    using wf by (simp only: map_sid_sets_slot [OF f] shipments_wf_def)
  moreover have "list_all slots_wf (map f ss)"
    using wf slots_wf_sets_slot [OF f] by (simp add: shipments_wf_def list_all_iff)
  moreover have keep: "list_all uploaded_wf (obj_values (documents (f s)))"
    if "list_all uploaded_wf (obj_values (documents s))" for s
  proof (cases "sid s = x")
    case True
    with f have "documents (f s) = obj_set (documents s) dt (new s)" by (simp add: sets_slot_def)
    with that new set_obj_values_obj_set [of "documents s" dt "new s"] show ?thesis
      by (auto simp: list_all_iff)
  next
    case False
    with f that show ?thesis by (simp add: sets_slot_def)
  qed
  moreover have "list_all (\<lambda>s. list_all uploaded_wf (obj_values (documents s))) (map f ss)"
    using wf keep by (auto simp: shipments_wf_def list_all_iff [of _ "map f ss"] list_all_iff [of _ ss])
  ultimately show ?thesis by (simp add: shipments_wf_def)
qed


lemma status_spread_status [simp]: "status (spread_status d st) = st"
  by (simp add: spread_status_def split: option.splits)


lemma uploaded_wf_spread_status: "st \<noteq> UPLOADED \<Longrightarrow> uploaded_wf (spread_status d st)"
  by (simp add: uploaded_wf_def)


lemma uploaded_wf_uploaded_slot: "uploaded_wf (uploaded_slot invoice file date r)"
  by (simp add: uploaded_wf_def uploaded_slot_def)


lemma status_uploaded_slot [simp]: "status (uploaded_slot invoice file date r) = UPLOADED"
  by (simp add: uploaded_slot_def)


lemma shipments_wf_markProcessing: "shipments_wf ss \<Longrightarrow> shipments_wf (map (markProcessing x dt) ss)"
  by (rule shipments_wf_sets_slot [OF sets_slot_markProcessing]) (simp_all add: uploaded_wf_spread_status)


lemma shipments_wf_markError: "shipments_wf ss \<Longrightarrow> shipments_wf (map (markError x dt) ss)"
  by (rule shipments_wf_sets_slot [OF sets_slot_markError]) (simp_all add: uploaded_wf_spread_status)


lemma shipments_wf_applySuccess: "shipments_wf ss \<Longrightarrow> shipments_wf (map (applySuccess x dt file date r) ss)"
  by (rule shipments_wf_sets_slot [OF sets_slot_applySuccess]) (simp_all add: uploaded_wf_uploaded_slot)


lemma shipments_wf_slot: "shipments_wf ss \<Longrightarrow> s \<in> set ss \<Longrightarrow> map_of (documents s) dt \<noteq> None"
  by (auto simp: shipments_wf_def list_all_iff dest: slots_wf_map_of)


lemma abs_markProcessing:
  "shipments_wf ss \<Longrightarrow> abs_slots (map (markProcessing x dt) ss) = spec_apply (abs_slots ss) x dt Begin"
  by (rule abs_slots_sets_slot [OF sets_slot_markProcessing]) (simp_all add: shipments_wf_slot)


lemma abs_markError:
  "shipments_wf ss \<Longrightarrow> abs_slots (map (markError x dt) ss) = spec_apply (abs_slots ss) x dt Fail"
  by (rule abs_slots_sets_slot [OF sets_slot_markError]) (simp_all add: shipments_wf_slot)


lemma abs_applySuccess:
  "shipments_wf ss \<Longrightarrow> abs_slots (map (applySuccess x dt file date r) ss) = spec_apply (abs_slots ss) x dt Succeed"
  by (rule abs_slots_sets_slot [OF sets_slot_applySuccess]) (simp_all add: shipments_wf_slot)


lemma shipments_uploadStart [simp]:
  "shipments (uploadStart x dt st) = map (markProcessing x dt) (shipments st)"
  by (simp add: uploadStart_def)


lemma shipments_uploadSettle:
  "shipments (uploadSettle clk file x dt c outcome st) =
     (case outcome of Resolved r \<Rightarrow> map (applySuccess x dt file (clock_slotDate clk) r) (shipments st)
      | Rejected _ \<Rightarrow> map (markError x dt) (shipments st))"
  by (simp add: uploadSettle_def uploadSucceeded_def uploadFailed_def handleCloseModal_def
      split: analysis_outcome.splits)


lemma isAnalyzing_uploadSettle [simp]: "\<not> isAnalyzing (uploadSettle clk file x dt c outcome st)"
  by (simp add: uploadSettle_def)


lemma shipments_wf_uploadSettle:
  "shipments_wf (shipments st) \<Longrightarrow> shipments_wf (shipments (uploadSettle clk file x dt c outcome st))"
  by (simp add: shipments_uploadSettle shipments_wf_applySuccess shipments_wf_markError
      split: analysis_outcome.splits)


lemma abs_uploadSettle:
  "shipments_wf (shipments st) \<Longrightarrow>
   abs_slots (shipments (uploadSettle clk file x dt c outcome st)) =
     spec_apply (abs_slots (shipments st)) x dt (outcome_event outcome)"
  by (simp add: shipments_uploadSettle abs_applySuccess abs_markError split: analysis_outcome.splits)


text \<open>
  C2. Refinement: on well-formed shipments, the per-slot status map of the
  state after \<open>handleFileUpload\<close> is the abstract slot machine's \<open>Begin\<close>
  step followed by \<open>Succeed\<close> or \<open>Fail\<close> (by the analyzer's outcome) on the
  target slot; every other slot keeps its status, and an unknown shipment id
  leaves the map unchanged.
\<close>

theorem handleFileUpload_refines:
  assumes "shipments_wf (shipments st)"
  shows "abs_slots (shipments (handleFileUpload analyze clk file x dt c st)) =
    spec_apply (spec_apply (abs_slots (shipments st)) x dt Begin) x dt
      (outcome_event (analyze (fileContent file dt x) dt))"
proof -
  let ?st1 = "uploadStart x dt st"
  have wf1: "shipments_wf (shipments ?st1)"
    using assms by (simp add: shipments_wf_markProcessing)
  have "abs_slots (shipments ?st1) = spec_apply (abs_slots (shipments st)) x dt Begin"
    using assms by (simp add: abs_markProcessing)
  with abs_uploadSettle [OF wf1] show ?thesis
    by (simp only: handleFileUpload_def)
qed

lemma abs_slots_present:
  "shipments_wf ss \<Longrightarrow> x \<in> sid ` set ss \<Longrightarrow> \<exists>st. abs_slots ss (x, dt) = Some st"
proof -
  assume wf: "shipments_wf ss" and x: "x \<in> sid ` set ss"
  then have "find_shipment ss x \<noteq> None" by (auto simp: find_shipment_def find_None_iff)
  then obtain s where s: "find_shipment ss x = Some s" by blast
  then have "s \<in> set ss" by (auto simp: find_shipment_def dest: find_Some_iff [THEN iffD1] nth_mem)
  with wf have "map_of (documents s) dt \<noteq> None" by (rule shipments_wf_slot)
  with s show ?thesis by (auto simp: abs_slots_def slot_of_def)
qed


lemma isAnalyzing_handleFileUpload [simp]: "\<not> isAnalyzing (handleFileUpload analyze clk file x dt c st)"
  unfolding handleFileUpload_def by (rule isAnalyzing_uploadSettle)


text \<open>
  C1. Completion of an upload attempt: when the target shipment exists, after
  \<open>handleFileUpload\<close> has run to the end the target slot is \<open>UPLOADED\<close> if the
  analyzer resolved and \<open>ERROR\<close> if it rejected, never left \<open>PROCESSING\<close>, and the
  in-progress flag \<open>isAnalyzing\<close> is cleared.
\<close>

theorem handleFileUpload_terminal:
  assumes "shipments_wf (shipments st)" and "x \<in> sid ` set (shipments st)"
  shows "abs_slots (shipments (handleFileUpload analyze clk file x dt c st)) (x, dt) =
      Some (case analyze (fileContent file dt x) dt of Resolved _ \<Rightarrow> UPLOADED | Rejected _ \<Rightarrow> ERROR)
    \<and> \<not> isAnalyzing (handleFileUpload analyze clk file x dt c st)"
proof -
  obtain st0 where st0: "abs_slots (shipments st) (x, dt) = Some st0"
    using abs_slots_present [OF assms] by blast
  let ?o = "analyze (fileContent file dt x) dt"
  let ?st1 = "uploadStart x dt st"
  have wf1: "shipments_wf (shipments ?st1)"
    using assms(1) by (simp add: shipments_wf_markProcessing)
  have "abs_slots (shipments ?st1) (x, dt) = Some PROCESSING"
    using assms(1) st0 by (simp add: abs_markProcessing spec_apply_def)
  then have "abs_slots (shipments (handleFileUpload analyze clk file x dt c st)) (x, dt) =
      Some (spec_slot PROCESSING (outcome_event ?o))"
    unfolding handleFileUpload_def abs_uploadSettle [OF wf1] spec_apply_def by simp
  moreover have "spec_slot PROCESSING (outcome_event ?o) =
      (case ?o of Resolved _ \<Rightarrow> UPLOADED | Rejected _ \<Rightarrow> ERROR)"
    by (cases ?o) simp_all
  ultimately show ?thesis by simp
qed

section \<open>Summary lemmas\<close>

lemma length_filter_sum: "int (length (filter P xs)) = sum_list (map (\<lambda>x. if P x then 1 else 0) xs)"
  by (induction xs) simp_all


lemma sum_list_map_mset: "sum_list (map g xs) = sum_mset (image_mset g (mset xs))"
  by (simp add: sum_mset_sum_list [symmetric])


lemma uploadedDocs_sum: "uploadedDocs (analyticsSummary ss ds) = int (sum_list (map uploaded_in ss))"
  by (induction ss) (simp_all add: analyticsSummary_def Let_def uploaded_in_def)


lemma foldl_add_sum: "foldl (\<lambda>acc x. acc + f x) a xs = a + sum_list (map f xs)"
  by (induction xs arbitrary: a) (simp_all add: add.assoc)


lemma totalValue_sum: "totalValue (analyticsSummary ss ds) = sum_list (map amount_or_zero ds)"
  by (simp add: analyticsSummary_def Let_def foldl_add_sum)


lemma totalDocs_eq: "totalDocs (analyticsSummary ss ds) = 6 * int (length ss)"
  by (simp add: analyticsSummary_def Let_def)


lemma missingDocs_eq:
  "missingDocs (analyticsSummary ss ds) = totalDocs (analyticsSummary ss ds) - uploadedDocs (analyticsSummary ss ds)"
  by (simp add: analyticsSummary_def Let_def)


lemma length_values_slots_wf: "slots_wf s \<Longrightarrow> length (obj_values (documents s)) = 6"
  by (metis length_DOCUMENT_TYPES length_map obj_keys_def obj_values_def slots_wf_def)


lemma uploaded_in_le: "slots_wf s \<Longrightarrow> uploaded_in s \<le> 6"
  by (metis length_filter_le length_values_slots_wf uploaded_in_def)


lemma sum_uploaded_in_le: "list_all slots_wf ss \<Longrightarrow> sum_list (map uploaded_in ss) \<le> 6 * length ss"
  by (induction ss) (auto dest: uploaded_in_le)


text \<open>
  C5. Summary bounds: for well-formed shipments the dashboard's
  \<open>totalDocs\<close> is six per shipment, \<open>0 \<le> uploadedDocs \<le> totalDocs\<close>, and
  \<open>missingDocs = totalDocs - uploadedDocs\<close> is never negative.
\<close>

theorem analyticsSummary_bounds:
  assumes "shipments_wf ss"
  shows "totalDocs (analyticsSummary ss ds) = 6 * int (length ss)
    \<and> 0 \<le> uploadedDocs (analyticsSummary ss ds)
    \<and> uploadedDocs (analyticsSummary ss ds) \<le> totalDocs (analyticsSummary ss ds)
    \<and> missingDocs (analyticsSummary ss ds) = totalDocs (analyticsSummary ss ds) - uploadedDocs (analyticsSummary ss ds)
    \<and> 0 \<le> missingDocs (analyticsSummary ss ds)"
proof -
  from assms have "sum_list (map uploaded_in ss) \<le> 6 * length ss"
    by (simp add: shipments_wf_def sum_uploaded_in_le)
  then have "uploadedDocs (analyticsSummary ss ds) \<le> totalDocs (analyticsSummary ss ds)"
    by (simp add: uploadedDocs_sum totalDocs_eq)
  then show ?thesis by (simp add: uploadedDocs_sum totalDocs_eq missingDocs_eq)
qed


lemma uploaded_in_obj_set:
  assumes "distinct (obj_keys (documents s))" and "map_of (documents s) dt = Some u"
  shows "int (uploaded_in (s\<lparr>documents := obj_set (documents s) dt v\<rparr>)) =
    int (uploaded_in s) - (if status u = UPLOADED then 1 else 0) + (if status v = UPLOADED then 1 else 0)"
proof -
  let ?g = "\<lambda>d::doc_slot. if status d = UPLOADED then 1 else (0::int)"
  have mem: "u \<in># mset (obj_values (documents s))"
    using assms(2) by (force simp: obj_values_def dest: map_of_SomeD)
  have "int (uploaded_in (s\<lparr>documents := obj_set (documents s) dt v\<rparr>)) =
      sum_mset (image_mset ?g (mset (obj_values (documents s)) - {#u#} + {#v#}))"
    by (simp add: uploaded_in_def length_filter_sum sum_list_map_mset obj_values_obj_set_mem [OF assms])
  also have "\<dots> = sum_mset (image_mset ?g (mset (obj_values (documents s)))) - ?g u + ?g v"
    using multi_member_split [OF mem] by auto
  also have "\<dots> = int (uploaded_in s) - ?g u + ?g v"
    by (simp add: uploaded_in_def length_filter_sum sum_list_map_mset)
  finally show ?thesis .
qed


lemma map_sets_slot_other: "sets_slot f x dt new \<Longrightarrow> x \<notin> sid ` set ss \<Longrightarrow> map f ss = ss"
  by (induction ss) (auto simp: sets_slot_def)


lemma uploaded_in_sets_slot:
  assumes f: "sets_slot f x dt new" and "sid s = x"
    and "distinct (obj_keys (documents s))" and "map_of (documents s) dt = Some u"
  shows "int (uploaded_in (f s)) =
    int (uploaded_in s) - (if status u = UPLOADED then 1 else 0) + (if status (new s) = UPLOADED then 1 else 0)"
proof -
  from f assms(2) have "documents (f s) = documents (s\<lparr>documents := obj_set (documents s) dt (new s)\<rparr>)"
    by (simp add: sets_slot_def)
  then have "uploaded_in (f s) = uploaded_in (s\<lparr>documents := obj_set (documents s) dt (new s)\<rparr>)"
    by (simp add: uploaded_in_def)
  with uploaded_in_obj_set [OF assms(3,4)] show ?thesis by simp
qed


lemma sum_uploaded_sets_slot:
  assumes f: "sets_slot f x dt new" and "distinct (map sid ss)" and "find_shipment ss x = Some s0"
    and "distinct (obj_keys (documents s0))" and "map_of (documents s0) dt = Some u"
  shows "int (sum_list (map uploaded_in (map f ss))) = int (sum_list (map uploaded_in ss))
    - (if status u = UPLOADED then 1 else 0) + (if status (new s0) = UPLOADED then 1 else 0)"
  using assms(2,3)
proof (induction ss)
  case Nil
  then show ?case by (simp add: find_shipment_def)
next
  case (Cons s ss)
  show ?case
  proof (cases "sid s = x")
    case True
    with Cons.prems have s0: "s0 = s" and other: "x \<notin> sid ` set ss"
      by (auto simp: find_shipment_def)
    from other have "map f ss = ss" by (rule map_sets_slot_other [OF f])
    with uploaded_in_sets_slot [OF f True, of u] assms(4,5) s0 show ?thesis by simp
  next
    case False
    with f have "f s = s" by (simp add: sets_slot_def)
    moreover from False Cons.prems have "find_shipment ss x = Some s0" and "distinct (map sid ss)"
      by (simp_all add: find_shipment_def)
    ultimately show ?thesis using Cons.IH by simp
  qed
qed


lemma handleFileUpload_Resolved:
  "analyze (fileContent file dt x) dt = Resolved r \<Longrightarrow>
   handleFileUpload analyze clk file x dt c st =
     (uploadSucceeded clk file x dt c r (uploadStart x dt st))\<lparr>isAnalyzing := False\<rparr>"
  by (simp add: handleFileUpload_def uploadSettle_def)


lemma handleFileUpload_Rejected:
  "analyze (fileContent file dt x) dt = Rejected e \<Longrightarrow>
   handleFileUpload analyze clk file x dt c st =
     (uploadFailed x dt (uploadStart x dt st))\<lparr>isAnalyzing := False\<rparr>"
  by (simp add: handleFileUpload_def uploadSettle_def)


lemma wf_find_slot:
  assumes "shipments_wf ss" and "find_shipment ss x = Some s0"
  shows "distinct (obj_keys (documents s0)) \<and> map_of (documents s0) dt \<noteq> None"
proof -
  from assms(2) have "s0 \<in> set ss"
    by (auto simp: find_shipment_def dest: find_Some_iff [THEN iffD1] nth_mem)
  with assms(1) have "map_of (documents s0) dt \<noteq> None" by (rule shipments_wf_slot)
  moreover from \<open>s0 \<in> set ss\<close> assms(1) have "distinct (obj_keys (documents s0))"
    by (auto simp: shipments_wf_def list_all_iff slots_wf_def)
  ultimately show ?thesis by simp
qed


lemma find_shipment_sets_slot:
  "sets_slot f x dt new \<Longrightarrow> find_shipment (map f ss) y = map_option f (find_shipment ss y)"
  by (simp add: find_shipment_def find_map_sid sets_slot_def)


lemma uploadedDocs_markProcessing:
  assumes "shipments_wf ss" and "find_shipment ss x = Some s0" and "map_of (documents s0) dt = Some u"
  shows "uploadedDocs (analyticsSummary (map (markProcessing x dt) ss) ds) =
    uploadedDocs (analyticsSummary ss ds') - (if status u = UPLOADED then 1 else 0)"
proof -
  have "distinct (map sid ss)" using assms(1) by (simp add: shipments_wf_def)
  from sum_uploaded_sets_slot [OF sets_slot_markProcessing this assms(2) _ assms(3)]
    wf_find_slot [OF assms(1,2)]
  show ?thesis by (simp add: uploadedDocs_sum)
qed


lemma slot_after_markProcessing:
  assumes "shipments_wf ss" and "find_shipment ss x = Some s0" and "map_of (documents s0) dt = Some u"
  shows "find_shipment (map (markProcessing x dt) ss) x = Some (markProcessing x dt s0)
    \<and> map_of (documents (markProcessing x dt s0)) dt = Some (u\<lparr>status := PROCESSING\<rparr>)
    \<and> shipments_wf (map (markProcessing x dt) ss)"
proof -
  from assms(2) have "sid s0 = x" by (auto simp: find_shipment_def dest: find_Some_iff [THEN iffD1])
  with assms show ?thesis
    by (simp add: find_shipment_sets_slot [OF sets_slot_markProcessing] markProcessing_def
        map_of_obj_set spread_status_def shipments_wf_markProcessing)
qed


lemma uploadedDocs_applySuccess:
  assumes "shipments_wf ss" and "find_shipment ss x = Some s0" and "map_of (documents s0) dt = Some u"
  shows "uploadedDocs (analyticsSummary (map (applySuccess x dt file date r) ss) ds) =
    uploadedDocs (analyticsSummary ss ds') - (if status u = UPLOADED then 1 else 0) + 1"
proof -
  have "distinct (map sid ss)" using assms(1) by (simp add: shipments_wf_def)
  from sum_uploaded_sets_slot [OF sets_slot_applySuccess this assms(2) _ assms(3)]
    wf_find_slot [OF assms(1,2)]
  show ?thesis by (simp add: uploadedDocs_sum)
qed


lemma amount_or_zero_analyzed_row [simp]:
  "amount_or_zero (analyzed_row x r) = (case totalAmount r of None \<Rightarrow> 0 | Some a \<Rightarrow> a)"
  by (simp add: amount_or_zero_def analyzed_row_def)


text \<open>
  C3. A successful upload to an existing slot leaves \<open>totalDocs\<close> unchanged,
  raises \<open>uploadedDocs\<close> by one unless the slot was already uploaded, raises
  \<open>totalValue\<close> by the result's amount, prepends exactly one \<open>Success\<close> log
  entry, closes the dialog and clears the error message.
\<close>

theorem upload_success_effect:
  assumes wf: "shipments_wf (shipments st)" and s0: "find_shipment (shipments st) x = Some s0"
    and u: "map_of (documents s0) dt = Some u"
    and ok: "analyze (fileContent file dt x) dt = Resolved r"
  shows "totalDocs (analyticsSummary (shipments (handleFileUpload analyze clk file x dt c st))
                      (analyzedData (handleFileUpload analyze clk file x dt c st)))
           = totalDocs (analyticsSummary (shipments st) (analyzedData st))
    \<and> uploadedDocs (analyticsSummary (shipments (handleFileUpload analyze clk file x dt c st))
                      (analyzedData (handleFileUpload analyze clk file x dt c st)))
           = uploadedDocs (analyticsSummary (shipments st) (analyzedData st))
             + (if status u = UPLOADED then 0 else 1)
    \<and> totalValue (analyticsSummary (shipments (handleFileUpload analyze clk file x dt c st))
                      (analyzedData (handleFileUpload analyze clk file x dt c st)))
           = totalValue (analyticsSummary (shipments st) (analyzedData st))
             + (case totalAmount r of None \<Rightarrow> 0 | Some a \<Rightarrow> a)
    \<and> uploadLogs (handleFileUpload analyze clk file x dt c st) = newLog clk file x dt c r # uploadLogs st
    \<and> \<not> isOpen (modalState (handleFileUpload analyze clk file x dt c st))
    \<and> error (handleFileUpload analyze clk file x dt c st) = None"
proof -
  let ?ss1 = "map (markProcessing x dt) (shipments st)"
  let ?st' = "handleFileUpload analyze clk file x dt c st"
  from slot_after_markProcessing [OF wf s0 u] have
    f1: "find_shipment ?ss1 x = Some (markProcessing x dt s0)"
    and u1: "map_of (documents (markProcessing x dt s0)) dt = Some (u\<lparr>status := PROCESSING\<rparr>)"
    and wf1: "shipments_wf ?ss1" by simp_all
  have ships: "shipments ?st' = map (applySuccess x dt file (clock_slotDate clk) r) ?ss1"
    and datas: "analyzedData ?st' = analyzedData st @ [analyzed_row x r]"
    and logs: "uploadLogs ?st' = newLog clk file x dt c r # uploadLogs st"
    and modal: "\<not> isOpen (modalState ?st')" and err: "error ?st' = None"
    by (simp_all add: handleFileUpload_Resolved [where analyze = analyze and dt = dt and x = x, OF ok] uploadSucceeded_def handleCloseModal_def
        uploadStart_def closed_modal_def)
  have "uploadedDocs (analyticsSummary (shipments ?st') (analyzedData ?st')) =
      uploadedDocs (analyticsSummary ?ss1 []) + 1"
    using uploadedDocs_applySuccess [OF wf1 f1 u1] by (simp add: ships)
  also have "\<dots> = uploadedDocs (analyticsSummary (shipments st) (analyzedData st))
      - (if status u = UPLOADED then 1 else 0) + 1"
    using uploadedDocs_markProcessing [OF wf s0 u] by simp
  finally have up: "uploadedDocs (analyticsSummary (shipments ?st') (analyzedData ?st')) =
      uploadedDocs (analyticsSummary (shipments st) (analyzedData st)) + (if status u = UPLOADED then 0 else 1)"
    by simp
  show ?thesis using up ships datas logs modal err
    by (simp add: totalDocs_eq totalValue_sum)
qed


lemma uploadedDocs_markError:
  assumes "shipments_wf ss" and "find_shipment ss x = Some s0" and "map_of (documents s0) dt = Some u"
  shows "uploadedDocs (analyticsSummary (map (markError x dt) ss) ds) =
    uploadedDocs (analyticsSummary ss ds') - (if status u = UPLOADED then 1 else 0)"
proof -
  have "distinct (map sid ss)" using assms(1) by (simp add: shipments_wf_def)
  from sum_uploaded_sets_slot [OF sets_slot_markError this assms(2) _ assms(3)]
    wf_find_slot [OF assms(1,2)]
  show ?thesis by (simp add: uploadedDocs_sum)
qed


text \<open>
  C4. A rejected analysis sets the slot to \<open>ERROR\<close> keeping the slot's other
  fields, adds no log entry and no analyzed-data row, sets the user-visible error
  message, keeps the dialog as it was, and lowers \<open>uploadedDocs\<close> only when the
  slot had been uploaded before.
\<close>

theorem upload_failure_effect:
  assumes wf: "shipments_wf (shipments st)" and s0: "find_shipment (shipments st) x = Some s0"
    and u: "map_of (documents s0) dt = Some u"
    and fail: "analyze (fileContent file dt x) dt = Rejected e"
  shows "uploadedDocs (analyticsSummary (shipments (handleFileUpload analyze clk file x dt c st))
                      (analyzedData (handleFileUpload analyze clk file x dt c st)))
           = uploadedDocs (analyticsSummary (shipments st) (analyzedData st))
             - (if status u = UPLOADED then 1 else 0)
    \<and> totalValue (analyticsSummary (shipments (handleFileUpload analyze clk file x dt c st))
                      (analyzedData (handleFileUpload analyze clk file x dt c st)))
           = totalValue (analyticsSummary (shipments st) (analyzedData st))
    \<and> uploadLogs (handleFileUpload analyze clk file x dt c st) = uploadLogs st
    \<and> error (handleFileUpload analyze clk file x dt c st) = Some upload_error_msg
    \<and> modalState (handleFileUpload analyze clk file x dt c st) = modalState st
    \<and> (\<exists>s'. find_shipment (shipments (handleFileUpload analyze clk file x dt c st)) x = Some s'
          \<and> map_of (documents s') dt = Some (u\<lparr>status := ERROR\<rparr>))"
proof -
  let ?ss1 = "map (markProcessing x dt) (shipments st)"
  let ?st' = "handleFileUpload analyze clk file x dt c st"
  from slot_after_markProcessing [OF wf s0 u] have
    f1: "find_shipment ?ss1 x = Some (markProcessing x dt s0)"
    and u1: "map_of (documents (markProcessing x dt s0)) dt = Some (u\<lparr>status := PROCESSING\<rparr>)"
    and wf1: "shipments_wf ?ss1" by simp_all
  have ships: "shipments ?st' = map (markError x dt) ?ss1"
    and rest: "analyzedData ?st' = analyzedData st" "uploadLogs ?st' = uploadLogs st"
      "error ?st' = Some upload_error_msg" "modalState ?st' = modalState st"
    by (simp_all add: handleFileUpload_Rejected [where analyze = analyze and dt = dt and x = x, OF fail]
        uploadFailed_def uploadStart_def)
  have "uploadedDocs (analyticsSummary (shipments ?st') (analyzedData ?st')) =
      uploadedDocs (analyticsSummary ?ss1 [])"
    using uploadedDocs_markError [OF wf1 f1 u1] by (simp add: ships)
  also have "\<dots> = uploadedDocs (analyticsSummary (shipments st) (analyzedData st))
      - (if status u = UPLOADED then 1 else 0)"
    using uploadedDocs_markProcessing [OF wf s0 u] by simp
  finally have up: "uploadedDocs (analyticsSummary (shipments ?st') (analyzedData ?st')) =
      uploadedDocs (analyticsSummary (shipments st) (analyzedData st)) - (if status u = UPLOADED then 1 else 0)" .
  from f1 have "sid (markProcessing x dt s0) = x"
    by (auto simp: find_shipment_def dest: find_Some_iff [THEN iffD1])
  with u1 have val: "map_of (documents (markError x dt (markProcessing x dt s0))) dt = Some (u\<lparr>status := ERROR\<rparr>)"
    by (simp add: markError_def map_of_obj_set spread_status_def)
  have "find_shipment (shipments ?st') x = Some (markError x dt (markProcessing x dt s0))"
    unfolding ships find_shipment_sets_slot [OF sets_slot_markError] f1 by simp
  with val have slot: "\<exists>s'. find_shipment (shipments ?st') x = Some s'
      \<and> map_of (documents s') dt = Some (u\<lparr>status := ERROR\<rparr>)" by blast
  show ?thesis using up rest slot by (auto simp: totalValue_sum)
qed

lemma shipments_wf_INITIAL: "shipments_wf INITIAL_SHIPMENTS"
  by (simp add: shipments_wf_def INITIAL_SHIPMENTS_def slots_wf_def uploaded_wf_def obj_keys_def
      obj_values_def DOCUMENT_TYPES_def)

lemma shipments_initial_state [simp]: "shipments initial_state = INITIAL_SHIPMENTS"
  and analyzedData_initial_state [simp]: "analyzedData initial_state = []"
  and uploadLogs_initial_state [simp]: "uploadLogs initial_state = []"
  by (simp_all add: initial_state_def)

section \<open>Witnesses\<close>

lemma summary_INITIAL:
  "uploadedDocs (analyticsSummary INITIAL_SHIPMENTS ds) = 5"
  "totalDocs (analyticsSummary INITIAL_SHIPMENTS ds) = 30"
  "totalValue (analyticsSummary INITIAL_SHIPMENTS []) = 0"
  by (simp_all add: analyticsSummary_def INITIAL_SHIPMENTS_def obj_values_def DOCUMENT_TYPES_def)

lemma find_shipment_INITIAL:
  "find_shipment INITIAL_SHIPMENTS ''BSTSE002509010-1'' = Some (INITIAL_SHIPMENTS ! 0)"
  "find_shipment INITIAL_SHIPMENTS ''MV0205020250510-02'' = Some (INITIAL_SHIPMENTS ! 1)"
  by (simp_all add: find_shipment_def INITIAL_SHIPMENTS_def)

theorem handleFileUpload_terminal_witness:
  "shipments_wf (shipments initial_state) \<and> ''MV0205020250510-02'' \<in> sid ` set (shipments initial_state) \<and>
   abs_slots (shipments (handleFileUpload (\<lambda>_ _. Rejected gemini_error)
      \<lparr>clock_slotDate = ''d'', clock_now_ms = 1000, clock_logDate = ''d''\<rparr>
      \<lparr>file_name = ''a.pdf'', file_type = ''application/pdf'', file_size = 10\<rparr>
      ''MV0205020250510-02'' INVOICE None initial_state)) (''MV0205020250510-02'', INVOICE) = Some ERROR"
proof -
  have wf: "shipments_wf (shipments initial_state)" by (simp add: shipments_wf_INITIAL)
  have mem: "''MV0205020250510-02'' \<in> sid ` set (shipments initial_state)"
    by (simp add: INITIAL_SHIPMENTS_def)
  from handleFileUpload_terminal [OF wf mem, of "\<lambda>_ _. Rejected gemini_error"
      "\<lparr>clock_slotDate = ''d'', clock_now_ms = 1000, clock_logDate = ''d''\<rparr>"
      "\<lparr>file_name = ''a.pdf'', file_type = ''application/pdf'', file_size = 10\<rparr>" INVOICE None]
  show ?thesis using wf mem by simp
qed

theorem handleFileUpload_refines_witness:
  "shipments_wf (shipments initial_state) \<and>
   abs_slots (shipments (handleFileUpload (analyzeDocumentContent None \<lparr>mock_now = 1000, rand_amount = 0,
        rand_quantity = 0, rand_sku1 = 0, rand_sku2 = 0, rand_sku3 = 0\<rparr> (\<lambda>_. None))
      \<lparr>clock_slotDate = ''d'', clock_now_ms = 1000, clock_logDate = ''d''\<rparr>
      \<lparr>file_name = ''a.pdf'', file_type = ''application/pdf'', file_size = 10\<rparr>
      ''MV0205020250510-02'' INVOICE None initial_state)) =
    spec_apply (spec_apply (abs_slots (shipments initial_state)) ''MV0205020250510-02'' INVOICE Begin)
      ''MV0205020250510-02'' INVOICE
      (outcome_event (analyzeDocumentContent None \<lparr>mock_now = 1000, rand_amount = 0,
        rand_quantity = 0, rand_sku1 = 0, rand_sku2 = 0, rand_sku3 = 0\<rparr> (\<lambda>_. None)
        (fileContent \<lparr>file_name = ''a.pdf'', file_type = ''application/pdf'', file_size = 10\<rparr> INVOICE
          ''MV0205020250510-02'') INVOICE))"
proof -
  have wf: "shipments_wf (shipments initial_state)" by (simp add: shipments_wf_INITIAL)
  show ?thesis using wf handleFileUpload_refines [OF wf] by (rule conjI)
qed

theorem upload_success_effect_witness:
  "let st' = handleFileUpload (\<lambda>_ _. Resolved \<lparr>res_invoiceNumber = Some ''INV-1'', totalAmount = Some 1000,
                 quantity = Some 5, skus = Some [''A1''], res_analysisSummary = Some ''ok''\<rparr>)
               \<lparr>clock_slotDate = ''d'', clock_now_ms = 1000, clock_logDate = ''d''\<rparr>
               \<lparr>file_name = ''a.pdf'', file_type = ''application/pdf'', file_size = 10\<rparr>
               ''MV0205020250510-02'' INVOICE (Some '''') initial_state
   in totalDocs (analyticsSummary (shipments st') (analyzedData st')) = 30
    \<and> uploadedDocs (analyticsSummary (shipments st') (analyzedData st')) = 6
    \<and> totalValue (analyticsSummary (shipments st') (analyzedData st')) = 1000
    \<and> length (uploadLogs st') = 1"
proof -
  have wf: "shipments_wf (shipments initial_state)" by (simp add: shipments_wf_INITIAL)
  have s0: "find_shipment (shipments initial_state) ''MV0205020250510-02'' = Some (INITIAL_SHIPMENTS ! 1)"
    by (simp add: find_shipment_INITIAL)
  have u: "map_of (documents (INITIAL_SHIPMENTS ! 1)) INVOICE = Some (status_only MISSING)"
    by (simp add: INITIAL_SHIPMENTS_def)
  from upload_success_effect [where analyze = "\<lambda>_ _. Resolved \<lparr>res_invoiceNumber = Some ''INV-1'',
      totalAmount = Some 1000, quantity = Some 5, skus = Some [''A1''], res_analysisSummary = Some ''ok''\<rparr>",
      OF wf s0 u refl]
  show ?thesis by (simp add: summary_INITIAL)
qed

theorem upload_failure_effect_witness:
  "let st' = handleFileUpload (\<lambda>_ _. Rejected gemini_error)
               \<lparr>clock_slotDate = ''d'', clock_now_ms = 1000, clock_logDate = ''d''\<rparr>
               \<lparr>file_name = ''b.pdf'', file_type = ''application/pdf'', file_size = 10\<rparr>
               ''BSTSE002509010-1'' INVOICE (Some '''') initial_state
   in uploadedDocs (analyticsSummary (shipments st') (analyzedData st')) = 4
    \<and> uploadLogs st' = []
    \<and> error st' = Some upload_error_msg
    \<and> (\<exists>s'. find_shipment (shipments st') ''BSTSE002509010-1'' = Some s'
          \<and> map_of (documents s') INVOICE =
              Some ((seed_uploaded ''CIPL_BSTSE002509010.pdf'' ''2024-10-23'' ''Yujin'')\<lparr>status := ERROR\<rparr>))"
proof -
  have wf: "shipments_wf (shipments initial_state)" by (simp add: shipments_wf_INITIAL)
  have s0: "find_shipment (shipments initial_state) ''BSTSE002509010-1'' = Some (INITIAL_SHIPMENTS ! 0)"
    by (simp add: find_shipment_INITIAL)
  have u: "map_of (documents (INITIAL_SHIPMENTS ! 0)) INVOICE =
      Some (seed_uploaded ''CIPL_BSTSE002509010.pdf'' ''2024-10-23'' ''Yujin'')"
    by (simp add: INITIAL_SHIPMENTS_def)
  from upload_failure_effect [where analyze = "\<lambda>_ _. Rejected gemini_error", OF wf s0 u refl]
  show ?thesis by (simp add: summary_INITIAL)
qed

theorem analyticsSummary_bounds_witness:
  "shipments_wf INITIAL_SHIPMENTS
   \<and> uploadedDocs (analyticsSummary INITIAL_SHIPMENTS []) \<le> totalDocs (analyticsSummary INITIAL_SHIPMENTS [])
   \<and> missingDocs (analyticsSummary INITIAL_SHIPMENTS []) = 25"
  using shipments_wf_INITIAL analyticsSummary_bounds [OF shipments_wf_INITIAL, of "[]"]
  by (simp add: summary_INITIAL)

end
