(* ===== verification/Modal.thy ===== *)
theory Modal
  imports Lifecycle
begin

text \<open>
  \<open>src/components/FileUploadModal.tsx\<close>: the upload dialog's local state
  (its five \<open>useState\<close> hooks, record \<open>modal_local\<close>), the effect that
  resets it from the props whenever the dialog is (re)opened, its event handlers,
  the enabling conditions of its two buttons, and \<open>handleSubmit\<close>, which hands
  an \<open>upload_request\<close> to the \<open>onFileUpload\<close> prop (\<open>handleFileUpload\<close> of
  \<open>App\<close>). The dialog's props are read from the \<open>App\<close> state:
  \<open>initialFile\<close>, \<open>shipmentId\<close> and \<open>docType\<close> from \<open>modalState\<close>.
  The document-type select yields the enum's string value; the
  \<open>as DocumentType\<close> cast is \<open>DocumentType_of_value\<close>, whose \<open>None\<close>
  branch no select option reaches.
\<close>

record modal_local =
  m_dragActive :: bool
  m_file :: "file_info option"
  selectedShipment :: js_string
  selectedDocType :: js_string
  m_comments :: js_string

record upload_request =
  req_file :: file_info
  req_shipmentId :: js_string
  req_docType :: DocumentType
  req_comments :: "js_string option"

datatype modal_event =
    MDrag js_string
  | MDrop "file_info list"
  | MChange "file_info list"
  | MClearFile
  | MSelectShipment js_string
  | MSelectDocType js_string
  | MComments js_string

section \<open>State, reset effect and handlers\<close>

definition or_empty :: "js_string option \<Rightarrow> js_string" where
  "or_empty s = (case s of None \<Rightarrow> [] | Some x \<Rightarrow> x)"

definition doc_type_or_empty :: "DocumentType option \<Rightarrow> js_string" where
  "doc_type_or_empty d = (case d of None \<Rightarrow> [] | Some t \<Rightarrow> DocumentType_value t)"

definition modal_mount :: "modal_state \<Rightarrow> modal_local" where
  "modal_mount props =
     \<lparr>m_dragActive = False, m_file = modal_file props,
      selectedShipment = or_empty (modal_shipmentId props),
      selectedDocType = doc_type_or_empty (modal_docType props), m_comments = []\<rparr>"

definition modal_reset :: "modal_state \<Rightarrow> modal_local \<Rightarrow> modal_local" where
  "modal_reset props m =
     m\<lparr>m_file := modal_file props, selectedShipment := or_empty (modal_shipmentId props),
       selectedDocType := doc_type_or_empty (modal_docType props), m_comments := []\<rparr>"

definition modal_handleDrag :: "js_string \<Rightarrow> modal_local \<Rightarrow> modal_local" where
  "modal_handleDrag evType m =
     (if evType = ''dragenter'' \<or> evType = ''dragover'' then m\<lparr>m_dragActive := True\<rparr>
      else if evType = ''dragleave'' then m\<lparr>m_dragActive := False\<rparr>
      else m)"

definition modal_handleDrop :: "file_info list \<Rightarrow> modal_local \<Rightarrow> modal_local" where
  "modal_handleDrop files m =
     (let m' = m\<lparr>m_dragActive := False\<rparr> in
      case files of [] \<Rightarrow> m' | f # _ \<Rightarrow> m'\<lparr>m_file := Some f\<rparr>)"

definition modal_handleChange :: "file_info list \<Rightarrow> modal_local \<Rightarrow> modal_local" where
  "modal_handleChange files m = (case files of [] \<Rightarrow> m | f # _ \<Rightarrow> m\<lparr>m_file := Some f\<rparr>)"

fun modal_event_step :: "modal_event \<Rightarrow> modal_local \<Rightarrow> modal_local" where
  "modal_event_step (MDrag ty) m = modal_handleDrag ty m"
| "modal_event_step (MDrop fs) m = modal_handleDrop fs m"
| "modal_event_step (MChange fs) m = modal_handleChange fs m"
| "modal_event_step MClearFile m = m\<lparr>m_file := None\<rparr>"
| "modal_event_step (MSelectShipment v) m = m\<lparr>selectedShipment := v\<rparr>"
| "modal_event_step (MSelectDocType v) m = m\<lparr>selectedDocType := v\<rparr>"
| "modal_event_step (MComments v) m = m\<lparr>m_comments := v\<rparr>"

definition handleSubmit :: "modal_local \<Rightarrow> upload_request option" where
  "handleSubmit m =
     (case m_file m of
        None \<Rightarrow> None
      | Some f \<Rightarrow>
          if js_truthy_str (selectedShipment m) \<and> js_truthy_str (selectedDocType m)
          then (case DocumentType_of_value (selectedDocType m) of
                  None \<Rightarrow> None
                | Some d \<Rightarrow> Some \<lparr>req_file = f, req_shipmentId = selectedShipment m, req_docType = d,
                                  req_comments = Some (m_comments m)\<rparr>)
          else None)"

definition submit_disabled :: "modal_local \<Rightarrow> bool \<Rightarrow> bool" where
  "submit_disabled m isAnalyzing' \<longleftrightarrow>
     m_file m = None \<or> \<not> js_truthy_str (selectedShipment m) \<or> \<not> js_truthy_str (selectedDocType m)
     \<or> isAnalyzing'"

definition cancel_disabled :: "bool \<Rightarrow> bool" where
  "cancel_disabled isAnalyzing' \<longleftrightarrow> isAnalyzing'"

definition handleCancel :: "modal_local \<Rightarrow> app_state \<Rightarrow> modal_local \<times> app_state" where
  "handleCancel m st = (m\<lparr>m_file := None\<rparr>, handleCloseModal st)"

text \<open>A select can only produce the value of one of its options.\<close>

definition shipment_option :: "shipment list \<Rightarrow> js_string \<Rightarrow> bool" where
  "shipment_option ss v \<longleftrightarrow> v = [] \<or> v \<in> set (map sid ss)"

definition doc_type_option :: "js_string \<Rightarrow> bool" where
  "doc_type_option v \<longleftrightarrow> v = [] \<or> v \<in> set (map DocumentType_value DOCUMENT_TYPES)"

section \<open>Lemmas\<close>

lemma DocumentType_of_value_value [simp]: "DocumentType_of_value (DocumentType_value d) = Some d"
proof -
  have "find (\<lambda>e. DocumentType_value e = DocumentType_value d) all_DocumentType = Some d"
    by (cases d) (simp_all add: all_DocumentType_def)
  then show ?thesis by (simp add: DocumentType_of_value_def)
qed

lemma DocumentType_of_value_Some: "DocumentType_of_value s = Some d \<Longrightarrow> DocumentType_value d = s"
  by (auto simp: DocumentType_of_value_def find_Some_iff)

lemma doc_type_option_valid:
  "doc_type_option v \<Longrightarrow> v \<noteq> [] \<Longrightarrow> \<exists>d. DocumentType_of_value v = Some d \<and> DocumentType_value d = v"
  by (auto simp: doc_type_option_def)

end
