(* ===== verification/Session.thy ===== *)
theory Session
  imports Modal
begin

text \<open>
  The running application as a state machine. A session state holds the
  \<open>App\<close> state, the dialog's local state (meaningful while the dialog is open)
  and the list of uploads whose analyzer promise has not settled yet; the
  configured API key (\<open>process.env.API_KEY\<close>, read once at module load) is part
  of it. \<open>session_step\<close> has one rule per event the browser can deliver:
  opening the dialog from the header, drag events and a drop on the page, the
  dialog's own events, Cancel and Submit (each only when its button is enabled),
  and the settling of an in-flight analysis with any clock and random readings and
  any behaviour of the Gemini API. Which event comes next is not determined, so the steps are a
  relation; interleavings of user events with a pending analysis are all runs of it.
\<close>

record session =
  app :: app_state
  modal :: modal_local
  inflight :: "upload_request list"
  api_key :: "js_string option"

definition req_target :: "upload_request \<Rightarrow> js_string \<times> DocumentType" where
  "req_target r = (req_shipmentId r, req_docType r)"

text \<open>
  The dialog is mounted when \<open>modalState.isOpen\<close> becomes true (its \<open>useState\<close>
  initialisers run) and its reset effect runs when the props change while it is open.
\<close>

definition dialog_after :: "app_state \<Rightarrow> app_state \<Rightarrow> modal_local \<Rightarrow> modal_local" where
  "dialog_after st st' m =
     (if isOpen (modalState st) then modal_reset (modalState st') m else modal_mount (modalState st'))"

text \<open>
  The dialog's controls that can deliver an event: the drop zone and its file
  input are rendered only while no file is chosen, the clear button only while
  one is, a select only while it is not disabled by a preset prop, and it offers
  only its options.
\<close>

definition modal_event_enabled :: "session \<Rightarrow> modal_event \<Rightarrow> bool" where
  "modal_event_enabled s e =
     (case e of
        MDrag _ \<Rightarrow> m_file (modal s) = None
      | MDrop _ \<Rightarrow> m_file (modal s) = None
      | MChange _ \<Rightarrow> m_file (modal s) = None
      | MClearFile \<Rightarrow> m_file (modal s) \<noteq> None
      | MSelectShipment v \<Rightarrow> shipment_option (shipments (app s)) v
                             \<and> \<not> js_truthy_opt_str (modal_shipmentId (modalState (app s)))
      | MSelectDocType v \<Rightarrow> doc_type_option v \<and> modal_docType (modalState (app s)) = None
      | MComments _ \<Rightarrow> True)"

inductive session_step :: "session \<Rightarrow> session \<Rightarrow> bool" where
  header_open:
    "\<not> isOpen (modalState (app s)) \<Longrightarrow>
     session_step s (s\<lparr>app := handleOpenModal None None None (app s),
                      modal := dialog_after (app s) (handleOpenModal None None None (app s)) (modal s)\<rparr>)"
| page_drag:
    "ty = ''dragenter'' \<or> dragActive (app s) \<Longrightarrow> session_step s (s\<lparr>app := handleDrag ty (app s)\<rparr>)"
| page_drop:
    "dragActive (app s) \<Longrightarrow>
     session_step s (s\<lparr>app := handleDrop fs (app s),
                      modal := (if fs = [] then modal s
                                else dialog_after (app s) (handleDrop fs (app s)) (modal s))\<rparr>)"
| dialog_event:
    "isOpen (modalState (app s)) \<Longrightarrow> modal_event_enabled s e \<Longrightarrow>
     session_step s (s\<lparr>modal := modal_event_step e (modal s)\<rparr>)"
| dialog_cancel:
    "isOpen (modalState (app s)) \<Longrightarrow> \<not> cancel_disabled (isAnalyzing (app s)) \<Longrightarrow>
     session_step s (s\<lparr>modal := fst (handleCancel (modal s) (app s)),
                      app := snd (handleCancel (modal s) (app s))\<rparr>)"
| dialog_submit:
    "isOpen (modalState (app s)) \<Longrightarrow> \<not> submit_disabled (modal s) (isAnalyzing (app s)) \<Longrightarrow>
     handleSubmit (modal s) = Some r \<Longrightarrow>
     session_step s (s\<lparr>app := uploadStart (req_shipmentId r) (req_docType r) (app s),
                      inflight := inflight s @ [r]\<rparr>)"
| analysis_settles:
    "r \<in> set (inflight s) \<Longrightarrow>
     session_step s (s\<lparr>app := uploadSettle clk (req_file r) (req_shipmentId r) (req_docType r)
                              (req_comments r)
                              (analyzeDocumentContent (api_key s) env gemini
                                 (fileContent (req_file r) (req_docType r) (req_shipmentId r))
                                 (req_docType r))
                              (app s),
                      inflight := remove1 r (inflight s)\<rparr>)"

definition session_init :: "js_string option \<Rightarrow> session" where
  "session_init key = \<lparr>app = initial_state, modal = modal_mount closed_modal, inflight = [], api_key = key\<rparr>"

inductive reachable :: "session \<Rightarrow> bool" where
  init: "reachable (session_init key)"
| step: "reachable s \<Longrightarrow> session_step s t \<Longrightarrow> reachable t"

definition no_processing :: "shipment list \<Rightarrow> bool" where
  "no_processing ss \<longleftrightarrow> (\<forall>p. abs_slots ss p \<noteq> Some PROCESSING)"

definition session_inv :: "session \<Rightarrow> bool" where
  "session_inv s \<longleftrightarrow>
     shipments_wf (shipments (app s))
     \<and> length (inflight s) \<le> 1
     \<and> (isAnalyzing (app s) \<longleftrightarrow> inflight s \<noteq> [])
     \<and> (\<forall>p. abs_slots (shipments (app s)) p = Some PROCESSING \<longleftrightarrow> p \<in> req_target ` set (inflight s))
     \<and> (\<forall>r \<in> set (inflight s). req_shipmentId r \<in> sid ` set (shipments (app s)))
     \<and> modal_shipmentId (modalState (app s)) = None \<and> modal_docType (modalState (app s)) = None
     \<and> shipment_option (shipments (app s)) (selectedShipment (modal s))
     \<and> doc_type_option (selectedDocType (modal s))"

text \<open>
  A concrete run for the witnesses: the header's upload button opens the dialog,
  the user picks a file, the first seed shipment and the invoice type, and submits.
\<close>

definition demo_file :: file_info where
  "demo_file = \<lparr>file_name = ''invoice.pdf'', file_type = ''application/pdf'', file_size = 1024\<rparr>"

definition demo_request :: upload_request where
  "demo_request = \<lparr>req_file = demo_file, req_shipmentId = ''MV0205020250510-02'', req_docType = INVOICE,
     req_comments = Some []\<rparr>"

definition demo_inflight :: session where
  "demo_inflight =
     \<lparr>app = uploadStart ''MV0205020250510-02'' INVOICE (handleOpenModal None None None initial_state),
      modal = \<lparr>m_dragActive = False, m_file = Some demo_file, selectedShipment = ''MV0205020250510-02'',
               selectedDocType = DocumentType_value INVOICE, m_comments = []\<rparr>,
      inflight = [demo_request], api_key = None\<rparr>"

definition some_clock :: upload_clock where
  "some_clock = \<lparr>clock_slotDate = ''2025-01-01'', clock_now_ms = 0, clock_logDate = ''2025-01-01''\<rparr>"

definition some_env :: mock_env where
  "some_env = \<lparr>mock_now = 0, rand_amount = 0, rand_quantity = 0, rand_sku1 = 0, rand_sku2 = 0, rand_sku3 = 0\<rparr>"

section \<open>Frame lemmas of the handlers\<close>

lemma handleOpenModal_fields [simp]:
  "shipments (handleOpenModal a b f st) = shipments st"
  "isAnalyzing (handleOpenModal a b f st) = isAnalyzing st"
  "modalState (handleOpenModal a b f st) =
     \<lparr>isOpen = True, modal_shipmentId = a, modal_docType = b, modal_file = f\<rparr>"
  by (simp_all add: handleOpenModal_def)

lemma handleCloseModal_fields [simp]:
  "shipments (handleCloseModal st) = shipments st"
  "isAnalyzing (handleCloseModal st) = isAnalyzing st"
  "modalState (handleCloseModal st) = closed_modal"
  by (simp_all add: handleCloseModal_def)

lemma closed_modal_fields [simp]:
  "isOpen closed_modal = False" "modal_shipmentId closed_modal = None" "modal_docType closed_modal = None"
  by (simp_all add: closed_modal_def)

lemma handleDrag_fields [simp]:
  "shipments (handleDrag ty st) = shipments st"
  "isAnalyzing (handleDrag ty st) = isAnalyzing st"
  "modalState (handleDrag ty st) = modalState st"
  by (simp_all add: handleDrag_def)

lemma handleDrop_fields [simp]:
  "shipments (handleDrop fs st) = shipments st"
  "isAnalyzing (handleDrop fs st) = isAnalyzing st"
  "modalState (handleDrop [] st) = modalState st"
  by (simp_all add: handleDrop_def Let_def split: list.splits)

lemma handleDrop_open: "fs \<noteq> [] \<Longrightarrow> modal_shipmentId (modalState (handleDrop fs st)) = None
    \<and> modal_docType (modalState (handleDrop fs st)) = None"
  by (auto simp: handleDrop_def Let_def neq_Nil_conv)

lemma uploadStart_fields [simp]:
  "isAnalyzing (uploadStart x dt st) = True"
  "modalState (uploadStart x dt st) = modalState st"
  by (simp_all add: uploadStart_def)

lemma uploadSettle_modal:
  "modalState (uploadSettle clk f x dt c oc st) = modalState st
   \<or> modalState (uploadSettle clk f x dt c oc st) = closed_modal"
  by (simp add: uploadSettle_def uploadSucceeded_def uploadFailed_def handleCloseModal_def
      split: analysis_outcome.splits)

lemma sid_handler_updates [simp]:
  "sid (markProcessing x dt s) = sid s" "sid (markError x dt s) = sid s"
  "sid (applySuccess x dt f d r s) = sid s"
  using sets_slot_markProcessing sets_slot_markError sets_slot_applySuccess
  by (simp_all add: sets_slot_def)

lemma map_sid_uploadStart [simp]: "map sid (shipments (uploadStart x dt st)) = map sid (shipments st)"
  by simp

lemma map_sid_uploadSettle [simp]:
  "map sid (shipments (uploadSettle clk f x dt c oc st)) = map sid (shipments st)"
  by (simp add: shipments_uploadSettle split: analysis_outcome.splits)

lemma set_sid_eq: "map sid xs = map sid ys \<Longrightarrow> sid ` set xs = sid ` set ys"
  by (metis list.set_map)

lemma shipment_option_eq: "map sid xs = map sid ys \<Longrightarrow> shipment_option xs v = shipment_option ys v"
  by (simp add: shipment_option_def)

lemma dialog_after_fields:
  assumes "modal_shipmentId (modalState st') = None" and "modal_docType (modalState st') = None"
  shows "selectedShipment (dialog_after st st' m) = [] \<and> selectedDocType (dialog_after st st' m) = []"
  using assms by (simp add: dialog_after_def modal_reset_def modal_mount_def or_empty_def doc_type_or_empty_def)

lemma handleSubmit_Some:
  "handleSubmit m = Some r \<Longrightarrow>
   m_file m = Some (req_file r) \<and> req_shipmentId r = selectedShipment m \<and> selectedShipment m \<noteq> []
   \<and> DocumentType_value (req_docType r) = selectedDocType m \<and> req_comments r = Some (m_comments m)"
  by (auto simp: handleSubmit_def js_truthy_str_def split: option.splits if_splits
      dest: DocumentType_of_value_Some)

section \<open>The session invariant\<close>

lemma slot_of_mem: "slot_of ss x dt = Some d \<Longrightarrow> \<exists>s \<in> set ss. d \<in> set (obj_values (documents s))"
proof -
  assume h: "slot_of ss x dt = Some d"
  then obtain s where s: "find_shipment ss x = Some s" and d: "map_of (documents s) dt = Some d"
    by (auto simp: slot_of_def split: option.splits)
  from s have "s \<in> set ss" by (auto simp: find_shipment_def dest: find_Some_iff [THEN iffD1] nth_mem)
  moreover from d have "d \<in> set (obj_values (documents s))"
    by (force simp: obj_values_def dest: map_of_SomeD)
  ultimately show ?thesis by blast
qed

lemma no_processing_INITIAL: "abs_slots INITIAL_SHIPMENTS p \<noteq> Some PROCESSING"
proof -
  have "\<forall>s \<in> set INITIAL_SHIPMENTS. \<forall>d \<in> set (obj_values (documents s)). status d \<noteq> PROCESSING"
    by (simp add: INITIAL_SHIPMENTS_def obj_values_def)
  then show ?thesis by (cases p) (auto simp: abs_slots_def dest: slot_of_mem)
qed

lemma session_inv_init: "session_inv (session_init key)"
  by (simp add: session_inv_def session_init_def shipments_wf_INITIAL no_processing_INITIAL
      initial_state_def modal_mount_def or_empty_def doc_type_or_empty_def shipment_option_def
      doc_type_option_def)

lemma modal_event_step_options:
  assumes "modal_event_enabled s e" and "shipment_option (shipments (app s)) (selectedShipment m)"
    and "doc_type_option (selectedDocType m)"
  shows "shipment_option (shipments (app s)) (selectedShipment (modal_event_step e m))
    \<and> doc_type_option (selectedDocType (modal_event_step e m))"
  using assms
  by (cases e) (simp_all add: modal_event_enabled_def modal_handleDrag_def modal_handleDrop_def
      modal_handleChange_def Let_def split: list.splits)

lemma doc_type_option_value: "doc_type_option (DocumentType_value d)"
  by (simp add: doc_type_option_def)

lemma inv_header_open:
  "session_inv s \<Longrightarrow>
   session_inv (s\<lparr>app := handleOpenModal None None None (app s),
                  modal := dialog_after (app s) (handleOpenModal None None None (app s)) (modal s)\<rparr>)"
  by (simp add: session_inv_def dialog_after_fields shipment_option_def doc_type_option_def)

lemma inv_page_drag: "session_inv s \<Longrightarrow> session_inv (s\<lparr>app := handleDrag ty (app s)\<rparr>)"
  by (simp add: session_inv_def)

lemma inv_page_drop:
  "session_inv s \<Longrightarrow>
   session_inv (s\<lparr>app := handleDrop fs (app s),
                  modal := (if fs = [] then modal s else dialog_after (app s) (handleDrop fs (app s)) (modal s))\<rparr>)"
  by (cases "fs = []")
     (simp_all add: session_inv_def handleDrop_open dialog_after_fields shipment_option_def doc_type_option_def)

lemma inv_dialog_event:
  "session_inv s \<Longrightarrow> modal_event_enabled s e \<Longrightarrow> session_inv (s\<lparr>modal := modal_event_step e (modal s)\<rparr>)"
  using modal_event_step_options [of s e "modal s"] by (simp add: session_inv_def)

lemma inv_cancel:
  "session_inv s \<Longrightarrow>
   session_inv (s\<lparr>modal := fst (handleCancel (modal s) (app s)), app := snd (handleCancel (modal s) (app s))\<rparr>)"
  by (simp add: session_inv_def handleCancel_def)

lemma inv_submit:
  assumes inv: "session_inv s" and en: "\<not> submit_disabled (modal s) (isAnalyzing (app s))"
    and sub: "handleSubmit (modal s) = Some r"
  shows "session_inv (s\<lparr>app := uploadStart (req_shipmentId r) (req_docType r) (app s),
                         inflight := inflight s @ [r]\<rparr>)"
proof -
  let ?ss = "shipments (app s)" and ?x = "req_shipmentId r" and ?dt = "req_docType r"
  from en inv have idle: "inflight s = []" by (simp add: submit_disabled_def session_inv_def)
  from inv have wf: "shipments_wf ?ss" by (simp add: session_inv_def)
  from inv have all: "\<forall>p. abs_slots ?ss p = Some PROCESSING \<longleftrightarrow> p \<in> req_target ` set (inflight s)"
    unfolding session_inv_def by blast
  have none: "abs_slots ?ss p \<noteq> Some PROCESSING" for p
    using all [rule_format, of p] idle by simp
  from sub have "?x = selectedShipment (modal s)" and "?x \<noteq> []" by (simp_all add: handleSubmit_Some)
  with inv have x: "?x \<in> sid ` set ?ss" by (simp add: session_inv_def shipment_option_def)
  then obtain st0 where "abs_slots ?ss (?x, ?dt) = Some st0" using abs_slots_present [OF wf] by blast
  then have abs': "abs_slots (map (markProcessing ?x ?dt) ?ss) = (abs_slots ?ss)((?x, ?dt) \<mapsto> PROCESSING)"
    using abs_markProcessing [OF wf] by (simp add: spec_apply_def)
  have procs: "abs_slots (map (markProcessing ?x ?dt) ?ss) p = Some PROCESSING \<longleftrightarrow> p \<in> req_target ` set [r]"
    for p using none [of p] by (auto simp: abs' req_target_def)
  have "map sid (shipments (uploadStart ?x ?dt (app s))) = map sid ?ss" by simp
  then have opts: "shipment_option (shipments (uploadStart ?x ?dt (app s))) v = shipment_option ?ss v"
    and sids: "sid ` set (shipments (uploadStart ?x ?dt (app s))) = sid ` set ?ss" for v
    by (rule shipment_option_eq, rule set_sid_eq)
  from inv have m: "modal_shipmentId (modalState (app s)) = None" "modal_docType (modalState (app s)) = None"
    "shipment_option ?ss (selectedShipment (modal s))" "doc_type_option (selectedDocType (modal s))"
    unfolding session_inv_def by blast+
  show ?thesis unfolding session_inv_def
    using wf idle procs opts sids x m by (simp add: shipments_wf_markProcessing)
qed

lemma settle_status:
  "spec_slot st (outcome_event oc) \<noteq> PROCESSING"
  by (cases oc) simp_all

lemma inv_settle:
  assumes inv: "session_inv s" and r: "r \<in> set (inflight s)"
  shows "session_inv (s\<lparr>app := uploadSettle clk (req_file r) (req_shipmentId r) (req_docType r)
                                   (req_comments r) oc (app s),
                         inflight := remove1 r (inflight s)\<rparr>)"
proof -
  let ?ss = "shipments (app s)" and ?x = "req_shipmentId r" and ?dt = "req_docType r"
  let ?st' = "uploadSettle clk (req_file r) ?x ?dt (req_comments r) oc (app s)"
  from inv have len: "length (inflight s) \<le> 1" unfolding session_inv_def by blast
  with r have one: "inflight s = [r]" by (cases "inflight s") auto
  from inv have wf: "shipments_wf ?ss" unfolding session_inv_def by blast
  from inv have all: "\<forall>p. abs_slots ?ss p = Some PROCESSING \<longleftrightarrow> p \<in> req_target ` set (inflight s)"
    unfolding session_inv_def by blast
  have proc: "abs_slots ?ss p = Some PROCESSING \<longleftrightarrow> p = (?x, ?dt)" for p
    using all [rule_format, of p] one by (simp add: req_target_def)
  have abs': "abs_slots (shipments ?st') = spec_apply (abs_slots ?ss) ?x ?dt (outcome_event oc)"
    by (rule abs_uploadSettle [OF wf])
  have noproc: "abs_slots (shipments ?st') p \<noteq> Some PROCESSING" for p
    using proc [of p] proc [of "(?x, ?dt)"] settle_status [of PROCESSING oc]
    by (auto simp: abs' spec_apply_def split: option.splits)
  have "map sid (shipments ?st') = map sid ?ss" by simp
  then have opts: "shipment_option (shipments ?st') v = shipment_option ?ss v" for v
    by (rule shipment_option_eq)
  from inv have m: "modal_shipmentId (modalState (app s)) = None" "modal_docType (modalState (app s)) = None"
    "shipment_option ?ss (selectedShipment (modal s))" "doc_type_option (selectedDocType (modal s))"
    unfolding session_inv_def by blast+
  have m': "modal_shipmentId (modalState ?st') = None \<and> modal_docType (modalState ?st') = None"
    using uploadSettle_modal [of clk "req_file r" ?x ?dt "req_comments r" oc "app s"] m(1,2) by auto
  show ?thesis unfolding session_inv_def
    using shipments_wf_uploadSettle [OF wf] noproc opts m m' one by simp
qed

lemma session_step_inv: "session_step s t \<Longrightarrow> session_inv s \<Longrightarrow> session_inv t"
proof (induction rule: session_step.induct)
  case (header_open s)
  from header_open.prems show ?case by (rule inv_header_open)
next
  case (page_drag s ty)
  from page_drag.prems show ?case by (rule inv_page_drag)
next
  case (page_drop s fs)
  from page_drop.prems show ?case by (rule inv_page_drop)
next
  case (dialog_event s e)
  from dialog_event.prems dialog_event.hyps(2) show ?case by (rule inv_dialog_event)
next
  case (dialog_cancel s)
  from dialog_cancel.prems show ?case by (rule inv_cancel)
next
  case (dialog_submit s r)
  from dialog_submit.prems dialog_submit.hyps(2,3) show ?case by (rule inv_submit)
next
  case (analysis_settles r s clk env gemini)
  from analysis_settles.prems analysis_settles.hyps show ?case by (rule inv_settle)
qed

lemma reachable_inv: "reachable s \<Longrightarrow> session_inv s"
  by (induction rule: reachable.induct) (simp_all add: session_inv_init session_step_inv)

lemma handleDrop_isOpen:
  "isOpen (modalState (handleDrop fs st)) \<longleftrightarrow> fs \<noteq> [] \<or> isOpen (modalState st)"
  by (cases fs) (simp_all add: handleDrop_def)

lemma session_step_analyzing_open:
  "session_step s t \<Longrightarrow> (isAnalyzing (app s) \<longrightarrow> isOpen (modalState (app s)))
   \<Longrightarrow> isAnalyzing (app t) \<longrightarrow> isOpen (modalState (app t))"
  by (induction rule: session_step.induct)
     (auto simp: handleDrop_isOpen handleCancel_def cancel_disabled_def)

lemma session_inv_inflight_one: "session_inv s \<Longrightarrow> r \<in> set (inflight s) \<Longrightarrow> inflight s = [r]"
  unfolding session_inv_def by (cases "inflight s") auto

lemma session_inv_idle: "session_inv s \<Longrightarrow> inflight s = [] \<Longrightarrow>
    \<not> isAnalyzing (app s) \<and> no_processing (shipments (app s))"
  unfolding session_inv_def no_processing_def by simp

lemma reachable_demo_inflight: "reachable demo_inflight"
proof -
  define s0 where "s0 = session_init None"
  define s1 where "s1 = s0\<lparr>app := handleOpenModal None None None (app s0),
    modal := dialog_after (app s0) (handleOpenModal None None None (app s0)) (modal s0)\<rparr>"
  define s2 where "s2 = s1\<lparr>modal := modal_event_step (MChange [demo_file]) (modal s1)\<rparr>"
  define s3 where "s3 = s2\<lparr>modal := modal_event_step (MSelectShipment ''MV0205020250510-02'') (modal s2)\<rparr>"
  define s4 where "s4 = s3\<lparr>modal := modal_event_step (MSelectDocType (DocumentType_value INVOICE)) (modal s3)\<rparr>"
  define s5 where "s5 = s4\<lparr>app := uploadStart (req_shipmentId demo_request) (req_docType demo_request) (app s4),
    inflight := inflight s4 @ [demo_request]\<rparr>"
  have a0: "app s0 = initial_state" "modal s0 = modal_mount closed_modal" "inflight s0 = []"
    "api_key s0 = None" by (simp_all add: s0_def session_init_def)
  have m4: "modal s4 = \<lparr>m_dragActive = False, m_file = Some demo_file, selectedShipment = ''MV0205020250510-02'',
      selectedDocType = DocumentType_value INVOICE, m_comments = []\<rparr>"
    by (simp add: s4_def s3_def s2_def s1_def a0 dialog_after_def initial_state_def modal_mount_def
        modal_handleChange_def or_empty_def doc_type_or_empty_def)
  have app4: "app s4 = handleOpenModal None None None initial_state"
    by (simp add: s4_def s3_def s2_def s1_def a0)
  have "reachable s0" unfolding s0_def by (rule reachable.init)
  moreover have "session_step s0 s1" unfolding s1_def
    by (rule header_open) (simp add: a0 initial_state_def)
  ultimately have "reachable s1" by (rule reachable.step)
  moreover have "session_step s1 s2" unfolding s2_def
    by (rule dialog_event)
       (simp_all add: s1_def a0 modal_event_enabled_def dialog_after_def initial_state_def modal_mount_def)
  ultimately have "reachable s2" by (rule reachable.step)
  moreover have "session_step s2 s3" unfolding s3_def
    by (rule dialog_event)
       (simp_all add: s2_def s1_def a0 modal_event_enabled_def shipment_option_def initial_state_def
        INITIAL_SHIPMENTS_def)
  ultimately have "reachable s3" by (rule reachable.step)
  moreover have "session_step s3 s4" unfolding s4_def
    using doc_type_option_value [of INVOICE]
    by (intro dialog_event) (simp_all add: s3_def s2_def s1_def a0 modal_event_enabled_def)
  ultimately have "reachable s4" by (rule reachable.step)
  moreover have "session_step s4 s5" unfolding s5_def
  proof (rule dialog_submit)
    show "isOpen (modalState (app s4))" by (simp add: app4)
    show "\<not> submit_disabled (modal s4) (isAnalyzing (app s4))"
      by (simp add: m4 app4 submit_disabled_def js_truthy_str_def initial_state_def)
    show "handleSubmit (modal s4) = Some demo_request"
      using DocumentType_of_value_value [of INVOICE] by (simp add: m4 handleSubmit_def js_truthy_str_def demo_request_def)
  qed
  ultimately have "reachable s5" by (rule reachable.step)
  moreover have i4: "inflight s4 = []" "api_key s4 = None"
    by (simp_all add: s4_def s3_def s2_def s1_def a0)
  have "s5 = demo_inflight"
    by (rule session.equality) (simp_all add: s5_def m4 app4 i4 demo_inflight_def demo_request_def)
  ultimately show ?thesis by simp
qed

section \<open>Properties of reachable sessions\<close>

text \<open>
  C6. In every state the running application can reach, the shipments are well
  formed: distinct ids, exactly the six document types as slot keys in display
  order, and every uploaded slot carries its name, date, uploader and link.
\<close>

theorem reachable_shipments_wf: "reachable s \<Longrightarrow> shipments_wf (shipments (app s))"
  using reachable_inv unfolding session_inv_def by blast

text \<open>
  C7. The \<open>isAnalyzing\<close> gate works: at most one analysis is in flight at any
  time, and \<open>isAnalyzing\<close> is set exactly while one is.
\<close>

theorem reachable_single_flight:
  "reachable s \<Longrightarrow> length (inflight s) \<le> 1 \<and> (isAnalyzing (app s) \<longleftrightarrow> inflight s \<noteq> [])"
  using reachable_inv unfolding session_inv_def by blast

text \<open>
  C8. A slot shows Processing exactly when the upload to that (shipment, document
  type) slot is in flight: no slot is left Processing after its analysis settled,
  and an in-flight upload's slot is Processing.
\<close>

theorem reachable_processing_iff_inflight:
  "reachable s \<Longrightarrow>
   abs_slots (shipments (app s)) p = Some PROCESSING \<longleftrightarrow> p \<in> req_target ` set (inflight s)"
  using reachable_inv unfolding session_inv_def by blast

text \<open>
  C9. While an analysis runs the upload dialog stays open: its progress message
  and the disabled buttons are on screen until the analysis settles.
\<close>

theorem reachable_analyzing_open: "reachable s \<Longrightarrow> isAnalyzing (app s) \<Longrightarrow> isOpen (modalState (app s))"
proof (induction rule: reachable.induct)
  case (init key)
  then show ?case by (simp add: session_init_def initial_state_def)
next
  case (step s t)
  then show ?case using session_step_analyzing_open by blast
qed

section \<open>Witnesses\<close>

theorem reachable_shipments_wf_witness: "shipments_wf (shipments (app demo_inflight))"
  using reachable_shipments_wf [OF reachable_demo_inflight] .

theorem reachable_single_flight_witness:
  "length (inflight demo_inflight) \<le> 1 \<and> isAnalyzing (app demo_inflight)"
  using reachable_single_flight [OF reachable_demo_inflight] by (simp add: demo_inflight_def)

theorem reachable_processing_iff_inflight_witness:
  "abs_slots (shipments (app demo_inflight)) (''MV0205020250510-02'', INVOICE) = Some PROCESSING"
  using reachable_processing_iff_inflight [OF reachable_demo_inflight, of "(''MV0205020250510-02'', INVOICE)"]
  by (simp add: demo_inflight_def demo_request_def req_target_def)

theorem reachable_analyzing_open_witness: "isOpen (modalState (app demo_inflight))"
  using reachable_analyzing_open [OF reachable_demo_inflight] by (simp add: demo_inflight_def)

end
