(* ===== verification/Views.thy ===== *)
theory Views
  imports Session
begin

text \<open>
  The components that render the state: the completion rate of
  \<open>src/components/AnalyticsOverview.tsx\<close>, the column headers of
  \<open>src/components/Dashboard.tsx\<close>, the row of cells of
  \<open>src/components/ShipmentRow.tsx\<close>, the status indicator of
  \<open>src/components/DocumentStatusCell.tsx\<close> and the invoice-number lookup of
  \<open>src/components/UploadLogs.tsx\<close>. Markup, CSS classes and icons are
  reduced to the data they show: an indicator is its icon, text colour class,
  label and optional tooltip.
\<close>

section \<open>AnalyticsOverview: the completion rate\<close>

text \<open>
  \<open>toFixed(1)\<close> picks the nearest tenth, the larger one on a tie; the shown
  string is read back as the number it denotes.
\<close>

definition to_fixed1 :: "rat \<Rightarrow> rat" where
  "to_fixed1 x = of_int \<lfloor>x * 10 + 1 / 2\<rfloor> / 10"

definition completionPercentage :: "summary \<Rightarrow> rat" where
  "completionPercentage sm =
     (if totalDocs sm > 0 then to_fixed1 (of_int (uploadedDocs sm) / of_int (totalDocs sm) * 100) else 0)"

section \<open>Dashboard and ShipmentRow: the status grid\<close>

text \<open>
  \<open>String.prototype.trim\<close> removes leading and trailing white space; the
  strings of the model are byte strings, so the ASCII white-space characters are
  the ones that can occur.
\<close>

definition js_space :: "char \<Rightarrow> bool" where
  "js_space c \<longleftrightarrow> of_char c = (32::nat) \<or> (9 \<le> (of_char c :: nat) \<and> (of_char c :: nat) \<le> 13)"

definition js_trim :: "js_string \<Rightarrow> js_string" where
  "js_trim s = rev (dropWhile js_space (rev (dropWhile js_space s)))"

definition column_label :: "js_string \<Rightarrow> js_string" where
  "column_label v = js_trim (takeWhile (\<lambda>c. c \<noteq> CHR ''('') v)"

definition dashboard_headers :: "js_string list" where
  "dashboard_headers = map (\<lambda>d. column_label (DocumentType_value d)) DOCUMENT_TYPES"

definition shipmentRow_cells :: "shipment \<Rightarrow> doc_slot option list" where
  "shipmentRow_cells s = map (\<lambda>dt. map_of (documents s) dt) DOCUMENT_TYPES"

section \<open>DocumentStatusCell: the status indicator\<close>

datatype status_icon = CheckCircleIcon | ExclamationCircleIcon | Spinner | XCircleIcon | DocumentDuplicateIcon

record status_indicator =
  ind_icon :: status_icon
  ind_color :: js_string
  ind_label :: js_string
  ind_tooltip :: "(js_string option \<times> js_string) option"

text \<open>
  The tooltip of an uploaded slot shows its name and analysis summary and is
  rendered only when the summary is truthy. The \<open>default\<close> branch of the
  \<open>switch\<close> returns \<open>null\<close>; no value of the enum reaches it.
\<close>

definition getStatusIndicator :: "doc_slot \<Rightarrow> status_indicator" where
  "getStatusIndicator d =
     (case status d of
        UPLOADED \<Rightarrow> \<lparr>ind_icon = CheckCircleIcon, ind_color = ''text-green-600'',
                     ind_label = DocumentStatus_value (status d),
                     ind_tooltip = (if js_truthy_opt_str (analysisSummary d)
                                    then Some (name d, the (analysisSummary d)) else None)\<rparr>
      | MISSING \<Rightarrow> \<lparr>ind_icon = ExclamationCircleIcon, ind_color = ''text-gray-400'',
                    ind_label = DocumentStatus_value (status d), ind_tooltip = None\<rparr>
      | PROCESSING \<Rightarrow> \<lparr>ind_icon = Spinner, ind_color = ''text-blue-500'',
                       ind_label = ''Processing'', ind_tooltip = None\<rparr>
      | ERROR \<Rightarrow> \<lparr>ind_icon = XCircleIcon, ind_color = ''text-red-500'',
                  ind_label = ''Failed'', ind_tooltip = None\<rparr>
      | DUPLICATE \<Rightarrow> \<lparr>ind_icon = DocumentDuplicateIcon, ind_color = ''text-yellow-500'',
                      ind_label = DocumentStatus_value (status d), ind_tooltip = None\<rparr>)"

section \<open>UploadLogs: the invoice number of a log row\<close>

definition getInvoiceNumber :: "shipment list \<Rightarrow> js_string \<Rightarrow> js_string" where
  "getInvoiceNumber ss shipmentId =
     (case find (\<lambda>s. sid s = shipmentId) ss of
        None \<Rightarrow> shipmentId
      | Some s \<Rightarrow> if js_truthy_str (invoiceNumber s) then invoiceNumber s else shipmentId)"

text \<open>
  A row of the activity list: its React key, the status icon, the file name, the
  invoice label, the document type and the timestamp with the uploader
  (\<open>toLocaleString\<close> of the timestamp is not modelled: the row keeps the ISO
  string). An empty log renders the ``No recent activity'' placeholder.
\<close>

record log_row =
  row_key :: js_string
  row_icon :: status_icon
  row_fileName :: js_string
  row_invoice :: js_string
  row_docType :: js_string
  row_timestamp :: js_string
  row_uploader :: js_string

datatype log_view = NoRecentActivity | ActivityRows "log_row list"

definition logRow :: "shipment list \<Rightarrow> upload_log_entry \<Rightarrow> log_row" where
  "logRow ss l =
     \<lparr>row_key = log_id l,
      row_icon = (if analysisStatus l = Success then CheckCircleIcon else XCircleIcon),
      row_fileName = fileName l, row_invoice = getInvoiceNumber ss (log_shipmentId l),
      row_docType = DocumentType_value (documentType l), row_timestamp = uploadTimestamp l,
      row_uploader = log_uploader l\<rparr>"

definition uploadLogs_view :: "shipment list \<Rightarrow> upload_log_entry list \<Rightarrow> log_view" where
  "uploadLogs_view ss logs = (if length logs = 0 then NoRecentActivity else ActivityRows (map (logRow ss) logs))"

section \<open>Invariants of the rendered state\<close>

definition logs_ok :: "app_state \<Rightarrow> bool" where
  "logs_ok st \<longleftrightarrow> (\<forall>l \<in> set (uploadLogs st). log_shipmentId l \<in> sid ` set (shipments st))"

text \<open>The demo run of \<open>Session\<close> after its analysis settled (no API key: the mock answers).\<close>

definition demo_settled :: session where
  "demo_settled =
     demo_inflight\<lparr>app := uploadSettle some_clock demo_file ''MV0205020250510-02'' INVOICE (Some [])
                      (analyzeDocumentContent None some_env (\<lambda>_. None)
                         (fileContent demo_file INVOICE ''MV0205020250510-02'') INVOICE)
                      (app demo_inflight),
                  inflight := []\<rparr>"

section \<open>Lemmas\<close>

lemma to_fixed1_mono: "x \<le> y \<Longrightarrow> to_fixed1 x \<le> to_fixed1 y"
  unfolding to_fixed1_def by (simp add: divide_right_mono floor_mono)

lemma to_fixed1_of_int [simp]: "to_fixed1 (of_int k) = of_int k"
proof -
  have "\<lfloor>(of_int k :: rat) * 10 + 1 / 2\<rfloor> = k * 10" by linarith
  then show ?thesis by (simp add: to_fixed1_def)
qed

lemma to_fixed1_below:
  assumes "x * 10 + 1 / 2 < 1000"
  shows "to_fixed1 x < 100"
proof -
  have "\<lfloor>x * 10 + 1 / 2\<rfloor> < 1000" using assms by linarith
  then have "\<lfloor>x * 10 + 1 / 2\<rfloor> \<le> 999" by simp
  then have "(of_int \<lfloor>x * 10 + 1 / 2\<rfloor> :: rat) \<le> 999" by linarith
  then show ?thesis by (simp add: to_fixed1_def)
qed

lemma to_fixed1_0 [simp]: "to_fixed1 0 = 0"
  using to_fixed1_of_int [of 0] by simp

lemma to_fixed1_100 [simp]: "to_fixed1 100 = 100"
  using to_fixed1_of_int [of 100] by simp

lemma ratio_gap:
  assumes "0 < t" and "t < 2000" and "u \<le> t - 1"
  shows "(of_int u / of_int t :: rat) * 100 * 10 + 1 / 2 < 1000"
proof -
  have t: "(0::rat) < of_int t" using assms(1) by simp
  have "(of_int u :: rat) * 2000 + of_int t < of_int t * 2000"
  proof -
    have "(of_int u :: rat) \<le> of_int t - 1" using assms(3) by linarith
    moreover have "(of_int t :: rat) < 2000" using assms(2) by linarith
    ultimately show ?thesis by linarith
  qed
  then show ?thesis using t by (simp add: field_simps)
qed

lemma ratio_le:
  assumes "0 < t" and "0 \<le> u" and "u \<le> t"
  shows "0 \<le> (of_int u / of_int t :: rat) * 100 \<and> (of_int u / of_int t :: rat) * 100 \<le> 100"
proof -
  have "(of_int u :: rat) \<le> of_int t" using assms(3) by simp
  then have le1: "(of_int u / of_int t :: rat) \<le> 1" using assms(1) by (simp add: divide_le_eq_1)
  have ge0: "(0::rat) \<le> of_int u / of_int t" using assms(1,2) by simp
  show ?thesis using mult_right_mono [OF le1, of 100] mult_nonneg_nonneg [OF ge0, of 100] by simp
qed

lemma map_map_of_keys:
  "distinct (map fst xs) \<Longrightarrow> map (map_of xs) (map fst xs) = map (\<lambda>p. Some (snd p)) xs"
proof (induction xs)
  case Nil
  then show ?case by simp
next
  case (Cons p xs)
  then have "map (map_of (p # xs)) (map fst xs) = map (map_of xs) (map fst xs)"
    by (cases p) auto
  with Cons show ?case by (cases p) simp
qed

lemma summary_counts:
  assumes "shipments_wf ss"
  shows "0 \<le> uploadedDocs (analyticsSummary ss ds)
    \<and> uploadedDocs (analyticsSummary ss ds) \<le> totalDocs (analyticsSummary ss ds)
    \<and> totalDocs (analyticsSummary ss ds) = 6 * int (length ss)"
proof -
  from assms have "sum_list (map uploaded_in ss) \<le> 6 * length ss"
    by (simp add: shipments_wf_def sum_uploaded_in_le)
  then show ?thesis by (simp add: uploadedDocs_sum totalDocs_eq)
qed

lemma uploadLogs_handlers [simp]:
  "uploadLogs (handleOpenModal a b f st) = uploadLogs st"
  "uploadLogs (handleCloseModal st) = uploadLogs st"
  "uploadLogs (handleDrag ty st) = uploadLogs st"
  "uploadLogs (handleDrop fs st) = uploadLogs st"
  "uploadLogs (uploadStart x dt st) = uploadLogs st"
  by (simp_all add: handleOpenModal_def handleCloseModal_def handleDrag_def handleDrop_def Let_def
      uploadStart_def split: list.splits)

lemma uploadLogs_uploadSettle:
  "uploadLogs (uploadSettle clk f x dt c oc st) =
     (case oc of Resolved r \<Rightarrow> newLog clk f x dt c r # uploadLogs st | Rejected _ \<Rightarrow> uploadLogs st)"
  by (simp add: uploadSettle_def uploadSucceeded_def uploadFailed_def handleCloseModal_def
      split: analysis_outcome.splits)

lemma session_step_map_sid:
  "session_step s t \<Longrightarrow> map sid (shipments (app t)) = map sid (shipments (app s))"
  by (induction rule: session_step.induct) (simp_all add: handleCancel_def)

lemma session_step_logs_ok:
  "session_step s t \<Longrightarrow> session_inv s \<Longrightarrow> logs_ok (app s) \<Longrightarrow> logs_ok (app t)"
proof (induction rule: session_step.induct)
  case (analysis_settles r s clk env gemini)
  let ?x = "req_shipmentId r"
  from analysis_settles.hyps analysis_settles.prems(1) have x: "?x \<in> sid ` set (shipments (app s))"
    unfolding session_inv_def by blast
  let ?st' = "uploadSettle clk (req_file r) ?x (req_docType r) (req_comments r)
     (analyzeDocumentContent (api_key s) env gemini (fileContent (req_file r) (req_docType r) ?x) (req_docType r))
     (app s)"
  have ids: "sid ` set (shipments ?st') = sid ` set (shipments (app s))"
    by (rule set_sid_eq) simp
  have "log_shipmentId l \<in> sid ` set (shipments (app s))" if "l \<in> set (uploadLogs ?st')" for l
    using that x analysis_settles.prems(2)
    by (auto simp: uploadLogs_uploadSettle logs_ok_def newLog_def split: analysis_outcome.splits)
  then show ?case by (simp add: logs_ok_def ids)
qed (simp_all add: logs_ok_def handleCancel_def image_image)

lemma session_step_logs_success:
  "session_step s t \<Longrightarrow> \<forall>l \<in> set (uploadLogs (app s)). analysisStatus l = Success
   \<Longrightarrow> \<forall>l \<in> set (uploadLogs (app t)). analysisStatus l = Success"
  by (induction rule: session_step.induct)
     (auto simp: uploadLogs_uploadSettle newLog_def handleCancel_def split: analysis_outcome.splits)

lemma reachable_logs_success: "reachable s \<Longrightarrow> \<forall>l \<in> set (uploadLogs (app s)). analysisStatus l = Success"
proof (induction rule: reachable.induct)
  case (init key)
  then show ?case by (simp add: session_init_def initial_state_def)
next
  case (step s t)
  then show ?case using session_step_logs_success by blast
qed

lemma reachable_logs_ok: "reachable s \<Longrightarrow> logs_ok (app s)"
proof (induction rule: reachable.induct)
  case (init key)
  then show ?case by (simp add: logs_ok_def session_init_def initial_state_def)
next
  case (step s t)
  then show ?case using session_step_logs_ok reachable_inv by blast
qed

lemma find_sid_distinct:
  "distinct (map sid ss) \<Longrightarrow> sh \<in> set ss \<Longrightarrow> find (\<lambda>s. sid s = sid sh) ss = Some sh"
  by (induction ss) (auto simp: image_iff)

lemma session_inv_distinct: "session_inv s \<Longrightarrow> distinct (map sid (shipments (app s)))"
  unfolding session_inv_def shipments_wf_def by blast

lemma icon_Spinner_iff: "ind_icon (getStatusIndicator d) = Spinner \<longleftrightarrow> status d = PROCESSING"
  by (cases "status d") (simp_all add: getStatusIndicator_def)

lemma demo_settled_eq:
  "demo_inflight\<lparr>app := uploadSettle some_clock (req_file demo_request) (req_shipmentId demo_request)
        (req_docType demo_request) (req_comments demo_request)
        (analyzeDocumentContent (api_key demo_inflight) some_env (\<lambda>_. None)
           (fileContent (req_file demo_request) (req_docType demo_request) (req_shipmentId demo_request))
           (req_docType demo_request))
        (app demo_inflight),
      inflight := remove1 demo_request (inflight demo_inflight)\<rparr> = demo_settled"
  unfolding demo_settled_def by (simp add: demo_request_def demo_inflight_def)

lemma reachable_demo_settled: "reachable demo_settled"
proof -
  have "session_step demo_inflight
     (demo_inflight\<lparr>app := uploadSettle some_clock (req_file demo_request) (req_shipmentId demo_request)
        (req_docType demo_request) (req_comments demo_request)
        (analyzeDocumentContent (api_key demo_inflight) some_env (\<lambda>_. None)
           (fileContent (req_file demo_request) (req_docType demo_request) (req_shipmentId demo_request))
           (req_docType demo_request))
        (app demo_inflight),
      inflight := remove1 demo_request (inflight demo_inflight)\<rparr>)"
    by (rule analysis_settles) (simp add: demo_inflight_def)
  then show ?thesis using reachable.step [OF reachable_demo_inflight] by (simp only: demo_settled_eq)
qed

section \<open>Properties of the views\<close>

text \<open>
  C10. For well-formed shipments the completion rate shown by
  \<open>AnalyticsOverview\<close> lies between 0 and 100, so the progress bar's width
  never exceeds its track.
\<close>

theorem completion_bounds:
  assumes "shipments_wf ss"
  shows "0 \<le> completionPercentage (analyticsSummary ss ds)
         \<and> completionPercentage (analyticsSummary ss ds) \<le> 100"
proof (cases "totalDocs (analyticsSummary ss ds) > 0")
  case True
  let ?u = "uploadedDocs (analyticsSummary ss ds)" and ?t = "totalDocs (analyticsSummary ss ds)"
  have "0 \<le> ?u" "?u \<le> ?t" using summary_counts [OF assms, of ds] by blast+
  with True have "0 \<le> (of_int ?u / of_int ?t :: rat) * 100" "(of_int ?u / of_int ?t :: rat) * 100 \<le> 100"
    using ratio_le by blast+
  then have "to_fixed1 0 \<le> to_fixed1 ((of_int ?u / of_int ?t :: rat) * 100)"
    "to_fixed1 ((of_int ?u / of_int ?t :: rat) * 100) \<le> to_fixed1 100"
    by (simp_all only: to_fixed1_mono)
  with True show ?thesis by (simp add: completionPercentage_def)
next
  case False
  then show ?thesis by (simp add: completionPercentage_def)
qed

text \<open>
  C11. With between 1 and 333 shipments (fewer than 2000 slots, so that one
  missing slot moves the rate below 99.95) the completion rate reads 100 exactly
  when no document is missing.
\<close>

theorem completion_full_iff:
  assumes "shipments_wf ss" and "0 < length ss" and "length ss \<le> 333"
  shows "completionPercentage (analyticsSummary ss ds) = 100 \<longleftrightarrow> missingDocs (analyticsSummary ss ds) = 0"
proof -
  let ?u = "uploadedDocs (analyticsSummary ss ds)" and ?t = "totalDocs (analyticsSummary ss ds)"
  note c = summary_counts [OF assms(1), of ds]
  have u: "0 \<le> ?u" "?u \<le> ?t" using c by blast+
  have t: "0 < ?t" "?t < 2000" using c assms(2,3) by simp_all
  show ?thesis
  proof
    assume full: "completionPercentage (analyticsSummary ss ds) = 100"
    show "missingDocs (analyticsSummary ss ds) = 0"
    proof (rule ccontr)
      assume "missingDocs (analyticsSummary ss ds) \<noteq> 0"
      then have "?u \<le> ?t - 1" using u by (simp add: missingDocs_eq)
      then have "to_fixed1 ((of_int ?u / of_int ?t :: rat) * 100) < 100"
        using t by (intro to_fixed1_below ratio_gap)
      with full t show False by (simp add: completionPercentage_def)
    qed
  next
    assume "missingDocs (analyticsSummary ss ds) = 0"
    then have "?u = ?t" by (simp add: missingDocs_eq)
    with t show "completionPercentage (analyticsSummary ss ds) = 100" by (simp add: completionPercentage_def)
  qed
qed

text \<open>
  C12. For well-formed shipments every row of the status grid has one defined
  cell per column header, and the cells are the shipment's slots in order; no
  \<open>DocumentStatusCell\<close> receives \<open>undefined\<close> (which would make
  \<open>document.status\<close> throw).
\<close>

theorem shipmentRow_cells_exact:
  assumes "shipments_wf ss" and "s \<in> set ss"
  shows "shipmentRow_cells s = map Some (obj_values (documents s))
         \<and> length (shipmentRow_cells s) = length dashboard_headers"
proof -
  from assms have "slots_wf s" by (simp add: shipments_wf_def list_all_iff)
  then have keys: "map fst (documents s) = DOCUMENT_TYPES" by (simp add: slots_wf_def obj_keys_def)
  then have "distinct (map fst (documents s))" by simp
  then have "map (map_of (documents s)) (map fst (documents s)) = map (\<lambda>p. Some (snd p)) (documents s)"
    by (rule map_map_of_keys)
  then have "shipmentRow_cells s = map Some (obj_values (documents s))"
    by (simp add: shipmentRow_cells_def obj_values_def keys [symmetric])
  moreover have "length (shipmentRow_cells s) = length dashboard_headers"
    by (simp add: dashboard_headers_def shipmentRow_cells_def)
  ultimately show ?thesis by blast
qed

text \<open>
  C13. In every reachable state a cell of the status grid shows the spinner
  exactly when the upload to its shipment and document type is in flight: no
  spinner is left behind by a settled analysis.
\<close>

theorem reachable_spinner_iff_inflight:
  assumes "reachable s" and "sh \<in> set (shipments (app s))" and "map_of (documents sh) dt = Some d"
  shows "ind_icon (getStatusIndicator d) = Spinner \<longleftrightarrow> (sid sh, dt) \<in> req_target ` set (inflight s)"
proof -
  have inv: "session_inv s" using assms(1) by (rule reachable_inv)
  then have "distinct (map sid (shipments (app s)))" by (rule session_inv_distinct)
  then have "find_shipment (shipments (app s)) (sid sh) = Some sh"
    unfolding find_shipment_def using assms(2) by (rule find_sid_distinct)
  then have "abs_slots (shipments (app s)) (sid sh, dt) = Some (status d)"
    using assms(3) by (simp add: abs_slots_def slot_of_def)
  moreover from inv have "\<forall>p. abs_slots (shipments (app s)) p = Some PROCESSING \<longleftrightarrow> p \<in> req_target ` set (inflight s)"
    unfolding session_inv_def by blast
  then have "abs_slots (shipments (app s)) (sid sh, dt) = Some PROCESSING
      \<longleftrightarrow> (sid sh, dt) \<in> req_target ` set (inflight s)" by (rule spec)
  ultimately show ?thesis by (simp add: icon_Spinner_iff)
qed

text \<open>
  C14. In every reachable state each row of the activity log names a shipment
  that exists, and \<open>getInvoiceNumber\<close> shows that shipment's current invoice
  number (its id only when the invoice number is empty).
\<close>

theorem reachable_log_invoice:
  assumes "reachable s" and "l \<in> set (uploadLogs (app s))"
  shows "\<exists>sh \<in> set (shipments (app s)). sid sh = log_shipmentId l
           \<and> getInvoiceNumber (shipments (app s)) (log_shipmentId l)
               = (if invoiceNumber sh = [] then sid sh else invoiceNumber sh)"
proof -
  from reachable_logs_ok [OF assms(1)] assms(2) have "log_shipmentId l \<in> sid ` set (shipments (app s))"
    unfolding logs_ok_def by (rule bspec)
  then obtain sh where sh: "sh \<in> set (shipments (app s))" and x: "sid sh = log_shipmentId l"
    by (auto simp: image_iff)
  have "distinct (map sid (shipments (app s)))"
    using reachable_inv [OF assms(1)] by (rule session_inv_distinct)
  from find_sid_distinct [OF this sh] have "find (\<lambda>s. sid s = log_shipmentId l) (shipments (app s)) = Some sh"
    by (simp only: x)
  then have g: "getInvoiceNumber (shipments (app s)) (log_shipmentId l)
          = (if invoiceNumber sh = [] then sid sh else invoiceNumber sh)"
    using x by (simp add: getInvoiceNumber_def js_truthy_str_def)
  show ?thesis using sh x g by (intro bexI [where x = sh] conjI)
qed

text \<open>
  C15. No event adds, removes or reorders shipments: in every reachable state the
  grid's rows are the seed shipments in their order, so the dashboard always
  counts 30 required documents.
\<close>

theorem reachable_rows_stable:
  assumes "reachable s"
  shows "map sid (shipments (app s)) = map sid INITIAL_SHIPMENTS
         \<and> totalDocs (analyticsSummary (shipments (app s)) ds) = 30"
proof -
  from assms have ids: "map sid (shipments (app s)) = map sid INITIAL_SHIPMENTS"
  proof (induction rule: reachable.induct)
    case (init key)
    then show ?case by (simp add: session_init_def initial_state_def)
  next
    case (step s t)
    show ?case using session_step_map_sid [OF step.hyps(2)] step.IH by (rule trans)
  qed
  have "length (shipments (app s)) = length (map sid INITIAL_SHIPMENTS)"
    using arg_cong [OF ids, of length] by (simp only: length_map)
  also have "\<dots> = 5" by (simp add: INITIAL_SHIPMENTS_def)
  finally show ?thesis using ids by (simp add: totalDocs_eq)
qed

text \<open>
  C23. Failed analyses are never logged, so in every reachable state the activity
  list is either the empty placeholder or one row per log entry, newest first, and
  every row shows the success icon: the failure icon of \<open>UploadLogs\<close> is never
  rendered.
\<close>

theorem reachable_log_rows_success:
  assumes "reachable s"
  shows "uploadLogs_view (shipments (app s)) (uploadLogs (app s)) = NoRecentActivity
         \<or> (\<exists>rows. uploadLogs_view (shipments (app s)) (uploadLogs (app s)) = ActivityRows rows
              \<and> map row_key rows = map log_id (uploadLogs (app s))
              \<and> (\<forall>row \<in> set rows. row_icon row = CheckCircleIcon))"
proof (cases "uploadLogs (app s) = []")
  case True
  then show ?thesis by (simp add: uploadLogs_view_def)
next
  case False
  have "\<forall>l \<in> set (uploadLogs (app s)). analysisStatus l = Success" using assms by (rule reachable_logs_success)
  with False show ?thesis by (auto simp: uploadLogs_view_def logRow_def)
qed

section \<open>Witnesses\<close>

theorem completion_bounds_witness:
  "0 \<le> completionPercentage (analyticsSummary INITIAL_SHIPMENTS [])
   \<and> completionPercentage (analyticsSummary INITIAL_SHIPMENTS []) \<le> 100"
  using completion_bounds [OF shipments_wf_INITIAL] .

theorem completion_full_iff_witness:
  "completionPercentage (analyticsSummary INITIAL_SHIPMENTS []) \<noteq> 100"
proof -
  have "0 < length INITIAL_SHIPMENTS" "length INITIAL_SHIPMENTS \<le> 333"
    by (simp_all add: INITIAL_SHIPMENTS_def)
  from completion_full_iff [OF shipments_wf_INITIAL this, of "[]"] show ?thesis
    by (simp add: summary_INITIAL missingDocs_eq)
qed

theorem shipmentRow_cells_exact_witness:
  "shipmentRow_cells (INITIAL_SHIPMENTS ! 0) = map Some (obj_values (documents (INITIAL_SHIPMENTS ! 0)))
   \<and> length (shipmentRow_cells (INITIAL_SHIPMENTS ! 0)) = length dashboard_headers"
proof -
  have "INITIAL_SHIPMENTS ! 0 \<in> set INITIAL_SHIPMENTS" by (rule nth_mem) (simp add: INITIAL_SHIPMENTS_def)
  then show ?thesis by (rule shipmentRow_cells_exact [OF shipments_wf_INITIAL])
qed

theorem reachable_spinner_iff_inflight_witness:
  "\<exists>d. map_of (documents (markProcessing ''MV0205020250510-02'' INVOICE (INITIAL_SHIPMENTS ! 1))) INVOICE = Some d
       \<and> ind_icon (getStatusIndicator d) = Spinner"
proof -
  let ?x = "''MV0205020250510-02''"
  let ?sh = "markProcessing ?x INVOICE (INITIAL_SHIPMENTS ! 1)"
  have "INITIAL_SHIPMENTS ! 1 \<in> set INITIAL_SHIPMENTS" by (rule nth_mem) (simp add: INITIAL_SHIPMENTS_def)
  then have in_map: "?sh \<in> set (map (markProcessing ?x INVOICE) INITIAL_SHIPMENTS)" by simp
  have ships: "shipments (app demo_inflight) = map (markProcessing ?x INVOICE) INITIAL_SHIPMENTS"
    by (simp add: demo_inflight_def initial_state_def)
  have mem: "?sh \<in> set (shipments (app demo_inflight))" using in_map by (simp only: ships)
  have "shipments_wf (map (markProcessing ?x INVOICE) INITIAL_SHIPMENTS)"
    by (rule shipments_wf_markProcessing [OF shipments_wf_INITIAL])
  then have "slots_wf ?sh" using in_map unfolding shipments_wf_def list_all_iff by blast
  then obtain d where d: "map_of (documents ?sh) INVOICE = Some d" using slots_wf_map_of by blast
  have "(sid ?sh, INVOICE) \<in> req_target ` set (inflight demo_inflight)"
    by (simp add: demo_inflight_def demo_request_def req_target_def INITIAL_SHIPMENTS_def)
  with reachable_spinner_iff_inflight [OF reachable_demo_inflight mem d] d show ?thesis by blast
qed

theorem reachable_log_invoice_witness:
  "\<exists>sh \<in> set (shipments (app demo_settled)). sid sh = ''MV0205020250510-02''
     \<and> getInvoiceNumber (shipments (app demo_settled)) ''MV0205020250510-02''
         = (if invoiceNumber sh = [] then sid sh else invoiceNumber sh)"
proof -
  let ?c = "fileContent demo_file INVOICE ''MV0205020250510-02''"
  obtain r where r: "mockGeminiService some_env ?c INVOICE = Resolved r"
    by (simp add: mockGeminiService_def Let_def)
  have "analyzeDocumentContent None some_env (\<lambda>_. None) ?c INVOICE = Resolved r"
    by (simp add: analyzeDocumentContent_def r)
  then have logs: "uploadLogs (app demo_settled) =
      newLog some_clock demo_file ''MV0205020250510-02'' INVOICE (Some []) r # uploadLogs (app demo_inflight)"
    by (simp add: demo_settled_def uploadLogs_uploadSettle)
  then have "hd (uploadLogs (app demo_settled)) \<in> set (uploadLogs (app demo_settled))"
    and x: "log_shipmentId (hd (uploadLogs (app demo_settled))) = ''MV0205020250510-02''"
    by (simp_all add: newLog_def)
  from reachable_log_invoice [OF reachable_demo_settled this(1)] show ?thesis by (simp only: x)
qed

theorem reachable_rows_stable_witness:
  "map sid (shipments (app demo_settled)) = map sid INITIAL_SHIPMENTS
   \<and> totalDocs (analyticsSummary (shipments (app demo_settled)) []) = 30"
  using reachable_rows_stable [OF reachable_demo_settled] .

theorem reachable_log_rows_success_witness:
  "\<exists>rows. uploadLogs_view (shipments (app demo_settled)) (uploadLogs (app demo_settled)) = ActivityRows rows
      \<and> map row_key rows = map log_id (uploadLogs (app demo_settled))
      \<and> (\<forall>row \<in> set rows. row_icon row = CheckCircleIcon)"
proof -
  have "uploadLogs (app demo_settled) \<noteq> []"
    by (simp add: demo_settled_def uploadLogs_uploadSettle analyzeDocumentContent_def mockGeminiService_def Let_def)
  then have "uploadLogs_view (shipments (app demo_settled)) (uploadLogs (app demo_settled)) \<noteq> NoRecentActivity"
    by (simp add: uploadLogs_view_def)
  with reachable_log_rows_success [OF reachable_demo_settled] show ?thesis by blast
qed

end
