(* ===== verification/Integration.thy ===== *)
theory Integration
  imports Views
begin

text \<open>
  Properties that span the analyzer service (\<open>src/services/geminiService.ts\<close>),
  the upload workflow of \<open>src/App.tsx\<close> and the running session: the
  encoding of log ids, the behaviour of a session without an API key, and the
  links written by a successful upload, and where the error message can be seen.
  Its only definition is the predicate \<open>error_shown\<close>; it composes those of \<open>Analyzer\<close>, \<open>Lifecycle\<close> and \<open>Session\<close>.
\<close>

section \<open>Where the error message is shown\<close>

definition error_shown :: "app_state \<Rightarrow> bool" where
  "error_shown st \<longleftrightarrow> (isAnalyzing st \<longrightarrow> isOpen (modalState st) \<and> error st = None)
     \<and> (error st \<noteq> None \<longrightarrow> isOpen (modalState st))"

section \<open>Lemmas\<close>

lemma analyzeDocumentContent_no_key:
  "\<not> js_truthy_opt_str key \<Longrightarrow> \<exists>r. analyzeDocumentContent key env gemini content docType = Resolved r"
  by (simp add: analyzeDocumentContent_def mockGeminiService_def Let_def)

lemma shipments_handleFileUpload_Resolved:
  "analyze (fileContent file dt x) dt = Resolved r \<Longrightarrow>
   shipments (handleFileUpload analyze clk file x dt c st)
     = map (applySuccess x dt file (clock_slotDate clk) r) (map (markProcessing x dt) (shipments st))"
  by (simp add: handleFileUpload_Resolved uploadSucceeded_def handleCloseModal_def)

lemma uploadLogs_handleFileUpload_Resolved:
  "analyze (fileContent file dt x) dt = Resolved r \<Longrightarrow>
   uploadLogs (handleFileUpload analyze clk file x dt c st) = newLog clk file x dt c r # uploadLogs st"
  by (simp add: handleFileUpload_Resolved uploadSucceeded_def handleCloseModal_def uploadStart_def)

lemma find_after_success:
  assumes "find_shipment ss x = Some s0"
  shows "find_shipment (map (applySuccess x dt file d r) (map (markProcessing x dt) ss)) x
           = Some (applySuccess x dt file d r (markProcessing x dt s0))"
proof -
  have "find_shipment (map (markProcessing x dt) ss) x = Some (markProcessing x dt s0)"
    using assms by (simp only: find_shipment_sets_slot [OF sets_slot_markProcessing] option.map)
  then show ?thesis by (simp only: find_shipment_sets_slot [OF sets_slot_applySuccess] option.map)
qed

lemma applySuccess_markProcessing:
  assumes "sid s0 = x" and "res_invoiceNumber r = Some n" and "n \<noteq> []"
  shows "invoiceNumber (applySuccess x dt file d r (markProcessing x dt s0)) = n
    \<and> map_of (documents (applySuccess x dt file d r (markProcessing x dt s0))) dt
        = Some (uploaded_slot (invoiceNumber s0) file d r)"
  using assms by (simp add: applySuccess_def markProcessing_def Let_def js_truthy_str_def map_of_obj_set)

lemma error_handler_fields [simp]:
  "error (handleOpenModal a b f st) = error st"
  "error (handleDrag ty st) = error st"
  "error (handleDrop fs st) = error st"
  "error (uploadStart x dt st) = None"
  by (simp_all add: handleOpenModal_def handleDrag_def handleDrop_def Let_def uploadStart_def
      split: list.splits)

lemma uploadSettle_error_shown:
  "isOpen (modalState st) \<Longrightarrow> error_shown (uploadSettle clk f x dt c oc st)"
  by (simp add: error_shown_def uploadSettle_def uploadSucceeded_def uploadFailed_def handleCloseModal_def
      split: analysis_outcome.splits)

lemma session_step_error_shown:
  "session_step s t \<Longrightarrow> session_inv s \<Longrightarrow> error_shown (app s) \<Longrightarrow> error_shown (app t)"
proof (induction rule: session_step.induct)
  case (analysis_settles r s clk env gemini)
  from analysis_settles.hyps analysis_settles.prems(1) have "isAnalyzing (app s)"
    unfolding session_inv_def by auto
  with analysis_settles.prems(2) have "isOpen (modalState (app s))" by (simp add: error_shown_def)
  then show ?case by (simp add: uploadSettle_error_shown)
next
  case (dialog_cancel s)
  then show ?case by (simp add: error_shown_def handleCancel_def handleCloseModal_def cancel_disabled_def)
next
  case (header_open s)
  then show ?case by (simp add: error_shown_def)
next
  case (page_drop s fs)
  then show ?case by (simp add: error_shown_def handleDrop_isOpen)
qed (simp_all add: error_shown_def)

lemma reachable_error_shown_inv: "reachable s \<Longrightarrow> error_shown (app s)"
proof (induction rule: reachable.induct)
  case (init key)
  then show ?case by (simp add: error_shown_def session_init_def initial_state_def)
next
  case (step s t)
  then show ?case using session_step_error_shown reachable_inv by blast
qed

section \<open>Properties across the service, the workflow and the session\<close>

text \<open>
  C20. Without an API key every pending upload of a reachable session settles
  successfully: the settling step ends with the target slot Uploaded, the dialog
  closed and a Success entry on top of the activity log.
\<close>

theorem reachable_no_key_settle_uploaded:
  assumes "reachable s" and "api_key s = None" and "r \<in> set (inflight s)"
  shows "let a' = uploadSettle clk (req_file r) (req_shipmentId r) (req_docType r) (req_comments r)
                   (analyzeDocumentContent (api_key s) env gemini
                      (fileContent (req_file r) (req_docType r) (req_shipmentId r)) (req_docType r))
                   (app s)
         in session_step s (s\<lparr>app := a', inflight := remove1 r (inflight s)\<rparr>)
            \<and> abs_slots (shipments a') (req_target r) = Some UPLOADED
            \<and> \<not> isOpen (modalState a')
            \<and> analysisStatus (hd (uploadLogs a')) = Success"
proof -
  let ?x = "req_shipmentId r" and ?dt = "req_docType r"
  let ?oc = "analyzeDocumentContent (api_key s) env gemini (fileContent (req_file r) ?dt ?x) ?dt"
  let ?a = "uploadSettle clk (req_file r) ?x ?dt (req_comments r) ?oc (app s)"
  have inv: "session_inv s" using assms(1) by (rule reachable_inv)
  then have wf: "shipments_wf (shipments (app s))" unfolding session_inv_def by blast
  from inv have "\<forall>p. abs_slots (shipments (app s)) p = Some PROCESSING \<longleftrightarrow> p \<in> req_target ` set (inflight s)"
    unfolding session_inv_def by blast
  then have proc: "abs_slots (shipments (app s)) (?x, ?dt) = Some PROCESSING"
    using assms(3) by (auto simp: req_target_def)
  have "\<exists>res. ?oc = Resolved res" by (rule analyzeDocumentContent_no_key) (simp add: assms(2))
  then obtain res where res: "?oc = Resolved res" by blast
  have step: "session_step s (s\<lparr>app := ?a, inflight := remove1 r (inflight s)\<rparr>)"
    using assms(3) by (rule analysis_settles)
  have "abs_slots (shipments ?a) (?x, ?dt) = Some UPLOADED"
    using abs_uploadSettle [OF wf, of clk "req_file r" ?x ?dt "req_comments r" ?oc] proc res
    by (simp add: spec_apply_def)
  moreover have "\<not> isOpen (modalState ?a)" "analysisStatus (hd (uploadLogs ?a)) = Success"
    by (simp_all add: res uploadSettle_def uploadSucceeded_def uploadLogs_uploadSettle newLog_def)
  ultimately show ?thesis using step by (simp add: req_target_def Let_def)
qed

text \<open>
  C21. A successful analysis that reports a non-empty invoice number replaces the
  shipment's invoice number, but the new slot's link is built from the invoice
  number the shipment had before, and the log entry's link from the shipment id:
  after the update the three no longer agree.
\<close>

theorem upload_success_links:
  assumes s0: "find_shipment (shipments st) x = Some s0"
    and ok: "analyze (fileContent f dt x) dt = Resolved r"
    and n: "res_invoiceNumber r = Some n" and ne: "n \<noteq> []"
  shows "\<exists>s1. find_shipment (shipments (handleFileUpload analyze clk f x dt c st)) x = Some s1
      \<and> invoiceNumber s1 = n
      \<and> map_option driveLink (map_of (documents s1) dt)
            = Some (Some (''https://mock-drive.com/'' @ invoiceNumber s0 @ ''/'' @ file_name f))
      \<and> log_driveLink (hd (uploadLogs (handleFileUpload analyze clk f x dt c st)))
            = ''https://mock-drive.com/'' @ x @ ''/'' @ file_name f"
proof -
  let ?s1 = "applySuccess x dt f (clock_slotDate clk) r (markProcessing x dt s0)"
  have sid: "sid s0 = x" using s0 by (auto simp: find_shipment_def find_Some_iff)
  have f: "find_shipment (shipments (handleFileUpload analyze clk f x dt c st)) x = Some ?s1"
    using find_after_success [OF s0] by (simp add: shipments_handleFileUpload_Resolved [where analyze = analyze, OF ok])
  have s1: "invoiceNumber ?s1 = n \<and> map_of (documents ?s1) dt = Some (uploaded_slot (invoiceNumber s0) f (clock_slotDate clk) r)"
    by (rule applySuccess_markProcessing [OF sid n ne])
  have "log_driveLink (hd (uploadLogs (handleFileUpload analyze clk f x dt c st)))
          = ''https://mock-drive.com/'' @ x @ ''/'' @ file_name f"
    by (simp add: uploadLogs_handleFileUpload_Resolved [where analyze = analyze, OF ok] newLog_def)
  with f s1 show ?thesis by (simp add: uploaded_slot_def)
qed

text \<open>
  C22. The error message is only ever present while the upload dialog, the one
  place that displays it, is open, and it is cleared while an analysis runs:
  no stale error is shown next to a pending upload and none is left hidden.
\<close>

theorem reachable_error_visible:
  assumes "reachable s"
  shows "(error (app s) \<noteq> None \<longrightarrow> isOpen (modalState (app s)))
         \<and> (isAnalyzing (app s) \<longrightarrow> error (app s) = None)"
  using reachable_error_shown_inv [OF assms] by (simp add: error_shown_def)

section \<open>Witnesses\<close>

theorem reachable_no_key_settle_uploaded_witness:
  "let a' = uploadSettle some_clock demo_file ''MV0205020250510-02'' INVOICE (Some [])
              (analyzeDocumentContent None some_env (\<lambda>_. None)
                 (fileContent demo_file INVOICE ''MV0205020250510-02'') INVOICE)
              (app demo_inflight)
   in abs_slots (shipments a') (''MV0205020250510-02'', INVOICE) = Some UPLOADED \<and> \<not> isOpen (modalState a')"
proof -
  have r: "demo_request \<in> set (inflight demo_inflight)" and k: "api_key demo_inflight = None"
    by (simp_all add: demo_inflight_def)
  from reachable_no_key_settle_uploaded [OF reachable_demo_inflight k r, of some_clock some_env "\<lambda>_. None"]
  show ?thesis by (simp add: Let_def k demo_request_def req_target_def)
qed

theorem upload_success_links_witness:
  "\<exists>s1. find_shipment (shipments (handleFileUpload (\<lambda>_ _. Resolved \<lparr>res_invoiceNumber = Some ''INV-1'',
            totalAmount = Some 1000, quantity = Some 5, skus = Some [''A1''], res_analysisSummary = Some ''ok''\<rparr>)
          some_clock demo_file ''MV0205020250510-02'' INVOICE None initial_state)) ''MV0205020250510-02'' = Some s1
     \<and> invoiceNumber s1 = ''INV-1''
     \<and> map_option driveLink (map_of (documents s1) INVOICE)
          = Some (Some (''https://mock-drive.com/'' @ invoiceNumber (INITIAL_SHIPMENTS ! 1) @ ''/invoice.pdf''))
     \<and> log_driveLink (hd (uploadLogs (handleFileUpload (\<lambda>_ _. Resolved \<lparr>res_invoiceNumber = Some ''INV-1'',
            totalAmount = Some 1000, quantity = Some 5, skus = Some [''A1''], res_analysisSummary = Some ''ok''\<rparr>)
          some_clock demo_file ''MV0205020250510-02'' INVOICE None initial_state)))
          = ''https://mock-drive.com/MV0205020250510-02/invoice.pdf''"
proof -
  have s0: "find_shipment (shipments initial_state) ''MV0205020250510-02'' = Some (INITIAL_SHIPMENTS ! 1)"
    by (simp add: initial_state_def find_shipment_INITIAL)
  from upload_success_links [OF s0, where analyze = "\<lambda>_ _. Resolved \<lparr>res_invoiceNumber = Some ''INV-1'',
      totalAmount = Some 1000, quantity = Some 5, skus = Some [''A1''], res_analysisSummary = Some ''ok''\<rparr>",
      where f = demo_file and dt = INVOICE and c = None and clk = some_clock, OF refl, of "''INV-1''"]
  show ?thesis by (simp add: demo_file_def)
qed

theorem reachable_error_visible_witness:
  "isAnalyzing (app demo_inflight) \<and> error (app demo_inflight) = None"
proof -
  have "isAnalyzing (app demo_inflight)" by (simp add: demo_inflight_def)
  with reachable_error_visible [OF reachable_demo_inflight] show ?thesis by simp
qed

end
