(* ===== verification/Overview.thy ===== *)
theory Overview
  imports Views
begin

text \<open>
  \<open>src/components/AnalyticsOverview.tsx\<close>: the three \<open>StatCard\<close>s and the
  completion card, as the text they show. The total value is rendered by
  \<open>new Intl.NumberFormat().format(totalValue)\<close>; the library is not part of the
  repository and its output depends on the browser's locale, so it is modelled
  for the \<open>en-US\<close> locale with the default options: thousands grouped by
  commas, at most three fraction digits rounded half away from zero, no trailing
  zeros. The completion rate is \<open>toFixed(1)\<close> of a number in [0, 100], or the
  number \<open>0\<close> when there are no documents. \<open>parse_number\<close> reads such a text
  back; it is the specification side of the round trips, not code.
\<close>

section \<open>Number formatting\<close>

definition pad3 :: "nat \<Rightarrow> js_string" where
  "pad3 b = [digit_char (b div 100 mod 10), digit_char (b div 10 mod 10), digit_char (b mod 10)]"

function (domintros) group_thousands :: "nat \<Rightarrow> js_string" where
  "group_thousands n =
     (if n < 1000 then show_nat n else group_thousands (n div 1000) @ '','' @ pad3 (n mod 1000))"
  by pat_completeness auto
termination by (relation "measure id") auto

definition strip_trailing_zeros :: "js_string \<Rightarrow> js_string" where
  "strip_trailing_zeros s = rev (dropWhile (\<lambda>c. c = CHR ''0'') (rev s))"

definition round_half_expand :: "rat \<Rightarrow> int" where
  "round_half_expand x = (if 0 \<le> x then \<lfloor>x + 1 / 2\<rfloor> else - \<lfloor>- x + 1 / 2\<rfloor>)"

definition intl_number_format :: "rat \<Rightarrow> js_string" where
  "intl_number_format x =
     (let r = round_half_expand (x * 1000); a = nat \<bar>r\<bar>; ip = a div 1000; fp = a mod 1000
      in (if r < 0 then ''-'' else []) @ group_thousands ip
         @ (if fp = 0 then [] else ''.'' @ strip_trailing_zeros (pad3 fp)))"

definition show_int :: "int \<Rightarrow> js_string" where
  "show_int k = (if k < 0 then ''-'' @ show_nat (nat (- k)) else show_nat (nat k))"

text \<open>\<open>toFixed(1)\<close> of a non-negative number: the rounded tenths, one decimal always shown.\<close>

definition to_fixed1_text :: "rat \<Rightarrow> js_string" where
  "to_fixed1_text x = (let t = nat \<lfloor>x * 10 + 1 / 2\<rfloor> in show_nat (t div 10) @ ''.'' @ [digit_char (t mod 10)])"

section \<open>The cards\<close>

text \<open>\<open>StatCard\<close> (lines 13--29) shows its title, its value and its description;
  the icon passed as children is markup.\<close>

record stat_card =
  card_title :: js_string
  card_value :: js_string
  card_description :: js_string

definition overview_cards :: "summary \<Rightarrow> stat_card list" where
  "overview_cards sm =
     [\<lparr>card_title = ''Total Shipment Value'', card_value = ''$'' @ intl_number_format (totalValue sm),
       card_description = ''From analyzed documents''\<rparr>,
      \<lparr>card_title = ''Documents Uploaded'', card_value = show_int (uploadedDocs sm),
       card_description = ''All time''\<rparr>,
      \<lparr>card_title = ''Documents Missing'', card_value = show_int (missingDocs sm),
       card_description = ''Needs attention''\<rparr>]"

definition completion_label :: "summary \<Rightarrow> js_string" where
  "completion_label sm =
     (if totalDocs sm > 0 then to_fixed1_text (of_int (uploadedDocs sm) / of_int (totalDocs sm) * 100)
      else ''0'') @ ''%''"

text \<open>The completion card (lines 48--57): the rate, the document count, and the width
  of the progress bar, which is the same text as the rate.\<close>

record completion_card =
  cc_title :: js_string
  cc_rate :: js_string
  cc_total :: js_string
  cc_bar_width :: js_string

definition completion_card_of :: "summary \<Rightarrow> completion_card" where
  "completion_card_of sm =
     \<lparr>cc_title = ''Completion Rate'', cc_rate = completion_label sm,
      cc_total = ''of '' @ show_int (totalDocs sm) @ '' total docs'', cc_bar_width = completion_label sm\<rparr>"

text \<open>The whole component: the heading, the three cards and the completion card.\<close>

definition analytics_overview :: "summary \<Rightarrow> js_string \<times> stat_card list \<times> completion_card" where
  "analytics_overview sm = (''Dashboard Overview'', overview_cards sm, completion_card_of sm)"

text \<open>\<open>App\<close> mounts the component on its memoised summary (\<open>src/App.tsx\<close>, line 151).\<close>

definition app_overview :: "app_state \<Rightarrow> js_string \<times> stat_card list \<times> completion_card" where
  "app_overview st = analytics_overview (analyticsSummary (shipments st) (analyzedData st))"

section \<open>Reading a number back\<close>

definition parse_frac :: "js_string \<Rightarrow> rat" where
  "parse_frac fs = of_nat (parse_nat fs) / 10 ^ length fs"

definition parse_number :: "js_string \<Rightarrow> rat" where
  "parse_number s =
     (let ip = takeWhile (\<lambda>c. c \<noteq> CHR ''.'') s; rest = dropWhile (\<lambda>c. c \<noteq> CHR ''.'') s
      in of_nat (parse_nat (filter (\<lambda>c. c \<noteq> CHR '','') ip))
         + (case rest of [] \<Rightarrow> 0 | _ # fs \<Rightarrow> parse_frac fs))"

section \<open>Lemmas\<close>

lemma mod1000_digits:
  "(n::nat) mod 1000 div 100 mod 10 = n div 100 mod 10" "n mod 1000 div 10 mod 10 = n div 10 mod 10"
  "n mod 1000 mod 10 = n mod 10"
proof -
  have e1: "n mod 1000 = 100 * (n div 100 mod 10) + n mod 100" using mod_mult2_eq [of n 100 10] by simp
  show "n mod 1000 div 100 mod 10 = n div 100 mod 10" by (simp add: e1)
  have e2: "n mod 1000 = 10 * (n div 10 mod 100) + n mod 10" using mod_mult2_eq [of n 10 100] by simp
  show "n mod 1000 div 10 mod 10 = n div 10 mod 10" by (simp add: e2 mod_mod_cancel)
  show "n mod 1000 mod 10 = n mod 10" by (simp add: mod_mod_cancel)
qed

lemma show_nat_split3:
  assumes "1000 \<le> n"
  shows "show_nat n = show_nat (n div 1000) @ pad3 (n mod 1000)"
proof -
  have a: "show_nat n = show_nat (n div 10) @ [digit_char (n mod 10)]"
    using assms by (subst show_nat.simps) simp
  have b: "show_nat (n div 10) = show_nat (n div 100) @ [digit_char (n div 10 mod 10)]"
    using assms by (subst show_nat.simps) (simp add: div_mult2_eq [symmetric])
  have c: "show_nat (n div 100) = show_nat (n div 1000) @ [digit_char (n div 100 mod 10)]"
    using assms by (subst show_nat.simps) (simp add: div_mult2_eq [symmetric])
  show ?thesis using a b c by (simp add: pad3_def mod1000_digits)
qed

lemma of_char_digit_char: "d < 10 \<Longrightarrow> (of_char (digit_char d) :: nat) = 48 + d"
  by (simp add: digit_char_def of_char_of)

lemma is_digit_digit_char: "d < 10 \<Longrightarrow> 48 \<le> (of_char (digit_char d) :: nat) \<and> (of_char (digit_char d) :: nat) \<le> 57"
  by (simp add: of_char_digit_char)

lemma digit_not_sep:
  assumes "48 \<le> (of_char c :: nat)"
  shows "c \<noteq> CHR '','' \<and> c \<noteq> CHR ''.'' \<and> c \<noteq> CHR ''-''"
  using assms by auto

lemma show_nat_no_sep:
  assumes "c \<in> set (show_nat n)"
  shows "c \<noteq> CHR '','' \<and> c \<noteq> CHR ''.'' \<and> c \<noteq> CHR ''-''"
proof -
  obtain d where d: "d < 10" "c = digit_char d" using set_show_nat_digits [OF assms] by blast
  then have "48 \<le> (of_char c :: nat)" using is_digit_digit_char by blast
  then show ?thesis by (rule digit_not_sep)
qed

lemma pad3_no_sep:
  assumes "c \<in> set (pad3 b)"
  shows "c \<noteq> CHR '','' \<and> c \<noteq> CHR ''.'' \<and> c \<noteq> CHR ''-''"
proof -
  from assms have "48 \<le> (of_char c :: nat)"
    by (auto simp: pad3_def of_char_digit_char)
  then show ?thesis by (rule digit_not_sep)
qed

declare group_thousands.simps [simp del]

lemma group_thousands_no_dot: "c \<in> set (group_thousands n) \<Longrightarrow> c \<noteq> CHR ''.''"
proof (induction n rule: group_thousands.induct)
  case (1 n)
  then show ?case
    by (cases "n < 1000") (auto simp: group_thousands.simps [of n] dest: show_nat_no_sep pad3_no_sep)
qed

lemma filter_group_thousands: "filter (\<lambda>c. c \<noteq> CHR '','') (group_thousands n) = show_nat n"
proof (induction n rule: group_thousands.induct)
  case (1 n)
  show ?case
  proof (cases "n < 1000")
    case True
    have "filter (\<lambda>c. c \<noteq> CHR '','') (show_nat n) = show_nat n"
      by (rule filter_True) (auto dest: show_nat_no_sep)
    with True show ?thesis by (simp add: group_thousands.simps [of n])
  next
    case False
    have "filter (\<lambda>c. c \<noteq> CHR '','') (pad3 (n mod 1000)) = pad3 (n mod 1000)"
      by (rule filter_True) (auto dest: pad3_no_sep)
    with False "1.IH" show ?thesis by (simp add: group_thousands.simps [of n] show_nat_split3)
  qed
qed

lemma parse_frac_snoc0: "parse_frac (s @ [CHR ''0'']) = parse_frac s"
  by (simp add: parse_frac_def digit_val_def)

lemma parse_frac_replicate0: "parse_frac (s @ replicate k (CHR ''0'')) = parse_frac s"
proof (induction k)
  case 0
  then show ?case by simp
next
  case (Suc k)
  have "s @ replicate (Suc k) (CHR ''0'') = (s @ replicate k (CHR ''0'')) @ [CHR ''0'']"
    by (simp add: replicate_append_same [symmetric])
  with Suc show ?case by (simp only: parse_frac_snoc0)
qed

lemma strip_trailing_zeros_eq:
  "s = strip_trailing_zeros s @ replicate (length (takeWhile (\<lambda>c. c = CHR ''0'') (rev s))) (CHR ''0'')"
proof -
  let ?P = "\<lambda>c. c = CHR ''0''"
  have "rev s = takeWhile ?P (rev s) @ dropWhile ?P (rev s)" by simp
  moreover have "takeWhile ?P (rev s) = replicate (length (takeWhile ?P (rev s))) (CHR ''0'')"
    by (rule replicate_eqI) (auto dest: set_takeWhileD)
  ultimately have "rev (rev s) = rev (replicate (length (takeWhile ?P (rev s))) (CHR ''0'') @ dropWhile ?P (rev s))"
    by simp
  then have "s = rev (dropWhile ?P (rev s)) @ rev (replicate (length (takeWhile ?P (rev s))) (CHR ''0''))"
    by simp
  then show ?thesis by (simp add: strip_trailing_zeros_def)
qed

lemma parse_frac_strip: "parse_frac (strip_trailing_zeros s) = parse_frac s"
proof -
  from strip_trailing_zeros_eq [of s]
  have "parse_frac s = parse_frac (strip_trailing_zeros s
      @ replicate (length (takeWhile (\<lambda>c. c = CHR ''0'') (rev s))) (CHR ''0''))"
    by (rule arg_cong)
  then show ?thesis by (simp only: parse_frac_replicate0)
qed

lemma parse_nat_pad3:
  assumes "b < 1000"
  shows "parse_nat (pad3 b) = b"
proof -
  have h: "b div 100 < 10" using assms by simp
  have e: "b mod 100 = 10 * (b div 10 mod 10) + b mod 10" using mod_mult2_eq [of b 10 10] by simp
  have "parse_nat (pad3 b) = 100 * (b div 100) + 10 * (b div 10 mod 10) + b mod 10"
    using h by (simp add: pad3_def parse_nat_def)
  also have "\<dots> = 100 * (b div 100) + b mod 100" by (simp add: e)
  also have "\<dots> = b" by simp
  finally show ?thesis .
qed

lemma parse_number_group:
  "parse_number (group_thousands ip) = of_nat ip"
  "parse_number (group_thousands ip @ CHR ''.'' # fs) = of_nat ip + parse_frac fs"
proof -
  have nd: "\<forall>c \<in> set (group_thousands ip). c \<noteq> CHR ''.''" using group_thousands_no_dot by blast
  then have t: "takeWhile (\<lambda>c. c \<noteq> CHR ''.'') (group_thousands ip) = group_thousands ip"
    and d: "dropWhile (\<lambda>c. c \<noteq> CHR ''.'') (group_thousands ip) = []"
    by (simp_all add: takeWhile_eq_all_conv dropWhile_eq_Nil_conv)
  from nd have t2: "takeWhile (\<lambda>c. c \<noteq> CHR ''.'') (group_thousands ip @ CHR ''.'' # fs) = group_thousands ip"
    and d2: "dropWhile (\<lambda>c. c \<noteq> CHR ''.'') (group_thousands ip @ CHR ''.'' # fs) = CHR ''.'' # fs"
    by (simp_all add: takeWhile_append2 dropWhile_append2)
  show "parse_number (group_thousands ip) = of_nat ip"
    by (simp add: parse_number_def t d filter_group_thousands)
  show "parse_number (group_thousands ip @ CHR ''.'' # fs) = of_nat ip + parse_frac fs"
    by (simp add: parse_number_def t2 d2 filter_group_thousands)
qed

lemma parse_frac_pad3: "b < 1000 \<Longrightarrow> parse_frac (pad3 b) = of_nat b / 1000"
  by (simp add: parse_frac_def parse_nat_pad3) (simp add: pad3_def)

text \<open>A check of the \<open>en-US\<close> model of \<open>Intl.NumberFormat\<close> (a library, not code of
  the repository): for a non-negative amount with at most three decimals the text reads
  back as the amount.\<close>

lemma intl_number_format_roundtrip:
  assumes "0 \<le> x" and "x * 1000 \<in> \<int>"
  shows "parse_number (intl_number_format x) = x"
proof -
  from assms(2) obtain k where k: "x * 1000 = of_int k" by (auto elim: Ints_cases)
  with assms(1) have k0: "0 \<le> k" by (metis mult_nonneg_nonneg of_int_0_le_iff zero_le_numeral)
  have r: "round_half_expand (x * 1000) = k"
  proof -
    have "\<lfloor>(of_int k :: rat) + 1 / 2\<rfloor> = k" by linarith
    with k k0 show ?thesis by (simp add: round_half_expand_def)
  qed
  let ?a = "nat k"
  have a: "(of_nat ?a :: rat) = x * 1000" using k k0 by simp
  have split: "(of_nat ?a :: rat) = of_nat (?a div 1000) * 1000 + of_nat (?a mod 1000)"
    by (metis div_mult_mod_eq of_nat_add of_nat_mult of_nat_numeral)
  show ?thesis
  proof (cases "?a mod 1000 = 0")
    case True
    then have "parse_number (intl_number_format x) = of_nat (?a div 1000)"
      using k0 by (simp add: intl_number_format_def r Let_def parse_number_group)
    with True split a show ?thesis by simp
  next
    case False
    then have "parse_number (intl_number_format x) = of_nat (?a div 1000) + of_nat (?a mod 1000) / 1000"
      using k0 by (simp add: intl_number_format_def r Let_def parse_number_group parse_frac_strip parse_frac_pad3)
    with split a show ?thesis by (simp add: field_simps)
  qed
qed

lemma parse_number_digits:
  assumes "\<forall>c \<in> set g. c \<noteq> CHR ''.'' \<and> c \<noteq> CHR '',''"
  shows "parse_number (g @ CHR ''.'' # fs) = of_nat (parse_nat g) + parse_frac fs"
    and "parse_number g = of_nat (parse_nat g)"
proof -
  have f: "filter (\<lambda>c. c \<noteq> CHR '','') g = g" using assms by (simp add: filter_id_conv)
  from assms show "parse_number (g @ CHR ''.'' # fs) = of_nat (parse_nat g) + parse_frac fs"
    by (simp add: parse_number_def takeWhile_append2 dropWhile_append2 f)
  have tw: "takeWhile (\<lambda>c. c \<noteq> CHR ''.'') g = g" using assms by (simp add: takeWhile_eq_all_conv)
  have dw: "dropWhile (\<lambda>c. c \<noteq> CHR ''.'') g = []" using assms by (simp add: dropWhile_eq_Nil_conv)
  show "parse_number g = of_nat (parse_nat g)"
    by (simp add: parse_number_def tw dw f)
qed

lemma to_fixed1_text_roundtrip:
  assumes "0 \<le> x"
  shows "parse_number (to_fixed1_text x) = to_fixed1 x"
proof -
  let ?k = "\<lfloor>x * 10 + 1 / 2\<rfloor>"
  let ?t = "nat ?k"
  have k0: "0 \<le> ?k" using assms by linarith
  have nd: "\<forall>c \<in> set (show_nat (?t div 10)). c \<noteq> CHR ''.'' \<and> c \<noteq> CHR '',''"
    using show_nat_no_sep by blast
  have d: "parse_frac [digit_char (?t mod 10)] = of_nat (?t mod 10) / 10"
    by (simp add: parse_frac_def parse_nat_def)
  have "parse_number (to_fixed1_text x) = of_nat (?t div 10) + of_nat (?t mod 10) / 10"
    unfolding to_fixed1_text_def Let_def using parse_number_digits(1) [OF nd] d by simp
  also have "\<dots> = of_nat ?t / 10"
  proof -
    have "?t = ?t div 10 * 10 + ?t mod 10" by simp
    then have "(of_nat ?t :: rat) = of_nat (?t div 10) * 10 + of_nat (?t mod 10)"
      by (metis of_nat_add of_nat_mult of_nat_numeral)
    then show ?thesis by simp
  qed
  also have "\<dots> = to_fixed1 x" using k0 by (simp add: to_fixed1_def)
  finally show ?thesis .
qed


lemma parse_number_zero: "parse_number ''0'' = 0"
  by (simp add: parse_number_def parse_nat_def digit_val_def)

lemma show_int_nonneg: "0 \<le> k \<Longrightarrow> show_int k = show_nat (nat k)"
  by (simp add: show_int_def)

lemma no_minus_show_nat: "CHR ''-'' \<notin> set (show_nat n)"
  using show_nat_no_sep by blast

lemma overview_counts:
  assumes "shipments_wf ss"
  shows "card_value (overview_cards (analyticsSummary ss ds) ! 1) = show_nat (nat (uploadedDocs (analyticsSummary ss ds)))
    \<and> card_value (overview_cards (analyticsSummary ss ds) ! 2) = show_nat (nat (missingDocs (analyticsSummary ss ds)))
    \<and> uploadedDocs (analyticsSummary ss ds) + missingDocs (analyticsSummary ss ds) = 6 * int (length ss)
    \<and> 0 \<le> uploadedDocs (analyticsSummary ss ds) \<and> 0 \<le> missingDocs (analyticsSummary ss ds)"
proof -
  note c = summary_counts [OF assms, of ds]
  have m: "missingDocs (analyticsSummary ss ds) = totalDocs (analyticsSummary ss ds) - uploadedDocs (analyticsSummary ss ds)"
    by (rule missingDocs_eq)
  have u0: "0 \<le> uploadedDocs (analyticsSummary ss ds)" and m0: "0 \<le> missingDocs (analyticsSummary ss ds)"
    using c m by simp_all
  show ?thesis
    using c m show_int_nonneg [OF u0] show_int_nonneg [OF m0] by (simp add: overview_cards_def)
qed

lemma completion_label_roundtrip:
  assumes "0 \<le> uploadedDocs sm"
  shows "completion_label sm = butlast (completion_label sm) @ ''%''
    \<and> parse_number (butlast (completion_label sm)) = Views.completionPercentage sm"
proof (cases "totalDocs sm > 0")
  case True
  let ?x = "of_int (uploadedDocs sm) / of_int (totalDocs sm) * 100 :: rat"
  have x0: "0 \<le> ?x" using True assms by simp
  have l: "completion_label sm = to_fixed1_text ?x @ ''%''" using True by (simp add: completion_label_def)
  have c: "completionPercentage sm = to_fixed1 ?x" using True by (simp add: completionPercentage_def)
  show ?thesis unfolding l c using to_fixed1_text_roundtrip [OF x0] by simp
next
  case False
  have l: "completion_label sm = ''0%''" using False by (simp add: completion_label_def)
  have c: "completionPercentage sm = 0" using False by (simp add: completionPercentage_def)
  show ?thesis unfolding l c using parse_number_zero by simp
qed

end
