(* ===== verification/Dialog.thy ===== *)
theory Dialog
  imports Integration Overview
begin

text \<open>
  What the upload dialog of \<open>src/components/FileUploadModal.tsx\<close> shows, and how
  \<open>App\<close> mounts it (\<open>src/App.tsx\<close>, lines 161--189). \<open>modal_props\<close> are the
  component's props (the two callbacks \<open>onClose\<close> and \<open>onFileUpload\<close> are the
  \<open>dialog_cancel\<close> and \<open>dialog_submit\<close> rules of \<open>session_step\<close>);
  \<open>modal_render\<close> is the component's render, \<open>None\<close> for its early
  \<open>return null\<close>, a \<open>modal_view\<close> of the texts and control states otherwise.
  \<open>app_dialog\<close> and \<open>drop_overlay\<close> are the two conditional parts of
  \<open>App\<close>'s own render. The theorems relate what the dialog shows to the session:
  while an analysis runs the dialog shows the progress banner and locks both buttons,
  and the submit button is enabled exactly when a click hands a request to
  \<open>handleFileUpload\<close>.
\<close>

section \<open>Props and render\<close>

record modal_props =
  p_isOpen :: bool
  p_shipmentId :: "js_string option"
  p_docType :: "DocumentType option"
  p_initialFile :: "file_info option"
  p_isAnalyzing :: bool
  p_error :: "js_string option"
  p_shipments :: "shipment list"

definition modal_props_of :: "app_state \<Rightarrow> modal_props" where
  "modal_props_of st =
     \<lparr>p_isOpen = isOpen (modalState st), p_shipmentId = modal_shipmentId (modalState st),
      p_docType = modal_docType (modalState st), p_initialFile = modal_file (modalState st),
      p_isAnalyzing = isAnalyzing st, p_error = error st, p_shipments = shipments st\<rparr>"

text \<open>\<open>toFixed(2)\<close> of a non-negative number: the rounded hundredths, two decimals
  always shown.\<close>

definition to_fixed2_text :: "rat \<Rightarrow> js_string" where
  "to_fixed2_text x =
     (let t = nat \<lfloor>x * 100 + 1 / 2\<rfloor>
      in show_nat (t div 100) @ ''.'' @ [digit_char (t div 10 mod 10), digit_char (t mod 10)])"

definition file_size_text :: "file_info \<Rightarrow> js_string" where
  "file_size_text f = to_fixed2_text (of_nat (file_size f) / 1024) @ '' KB''"

text \<open>The left half of the dialog: the drop zone (with its highlighted border while a
  drag is over it) while no file is chosen, the file's name and size otherwise.\<close>

datatype file_panel = DropZone bool | FileCard js_string js_string

record modal_view =
  mv_title :: js_string
  mv_file_panel :: file_panel
  mv_shipment :: js_string
  mv_shipment_disabled :: bool
  mv_shipment_options :: "(js_string \<times> js_string) list"
  mv_docType :: js_string
  mv_docType_disabled :: bool
  mv_docType_options :: "(js_string \<times> js_string) list"
  mv_comments :: js_string
  mv_analyzing_banner :: "js_string option"
  mv_error_banner :: "js_string option"
  mv_submit_label :: js_string
  mv_submit_disabled :: bool
  mv_cancel_disabled :: bool

definition modal_render :: "modal_props \<Rightarrow> modal_local \<Rightarrow> modal_view option" where
  "modal_render p m =
     (if \<not> p_isOpen p then None
      else Some
       \<lparr>mv_title = ''Upload Document'',
        mv_file_panel = (case m_file m of None \<Rightarrow> DropZone (m_dragActive m)
                         | Some f \<Rightarrow> FileCard (file_name f) (file_size_text f)),
        mv_shipment = selectedShipment m,
        mv_shipment_disabled = js_truthy_opt_str (p_shipmentId p),
        mv_shipment_options = ([], ''Select a shipment'') # map (\<lambda>s. (sid s, invoiceNumber s)) (p_shipments p),
        mv_docType = selectedDocType m,
        mv_docType_disabled = js_truthy_str (doc_type_or_empty (p_docType p)),
        mv_docType_options = ([], ''Select a document type'')
                             # map (\<lambda>d. (DocumentType_value d, DocumentType_value d)) DOCUMENT_TYPES,
        mv_comments = m_comments m,
        mv_analyzing_banner = (if p_isAnalyzing p then Some ''Analyzing document with AI... Please wait.'' else None),
        mv_error_banner = (if js_truthy_opt_str (p_error p) then Some (''Error: '' @ the (p_error p)) else None),
        mv_submit_label = (if p_isAnalyzing p then ''Analyzing...'' else ''Upload & Analyze''),
        mv_submit_disabled = submit_disabled m (p_isAnalyzing p),
        mv_cancel_disabled = cancel_disabled (p_isAnalyzing p)\<rparr>)"

text \<open>\<open>{modalState.isOpen && <FileUploadModal .../>}\<close> and the page's drop overlay
  \<open>{dragActive && ...}\<close>.\<close>

definition app_dialog :: "session \<Rightarrow> modal_view option" where
  "app_dialog s =
     (if isOpen (modalState (app s)) then modal_render (modal_props_of (app s)) (modal s) else None)"

definition drop_overlay :: "app_state \<Rightarrow> js_string option" where
  "drop_overlay st = (if dragActive st then Some ''Drop file to upload'' else None)"

section \<open>Lemmas\<close>

lemma app_dialog_Some:
  "isOpen (modalState (app s)) \<Longrightarrow> app_dialog s = modal_render (modal_props_of (app s)) (modal s)"
  by (simp add: app_dialog_def)

lemma app_dialog_None: "\<not> isOpen (modalState (app s)) \<Longrightarrow> app_dialog s = None"
  by (simp add: app_dialog_def)

lemma modal_render_fields:
  assumes "modal_render p m = Some v"
  shows "p_isOpen p"
    and "mv_analyzing_banner v = (if p_isAnalyzing p then Some ''Analyzing document with AI... Please wait.'' else None)"
    and "mv_submit_label v = (if p_isAnalyzing p then ''Analyzing...'' else ''Upload & Analyze'')"
    and "mv_submit_disabled v = submit_disabled m (p_isAnalyzing p)"
    and "mv_cancel_disabled v = cancel_disabled (p_isAnalyzing p)"
    and "mv_error_banner v = (if js_truthy_opt_str (p_error p) then Some (''Error: '' @ the (p_error p)) else None)"
  using assms by (auto simp: modal_render_def split: if_splits)

lemma handleSubmit_enabled:
  assumes "doc_type_option (selectedDocType m)"
  shows "(\<exists>r. handleSubmit m = Some r) \<longleftrightarrow> \<not> submit_disabled m False"
proof (cases "m_file m")
  case None
  then show ?thesis by (simp add: handleSubmit_def submit_disabled_def)
next
  case (Some f)
  show ?thesis
  proof (cases "js_truthy_str (selectedShipment m) \<and> js_truthy_str (selectedDocType m)")
    case True
    then have "selectedDocType m \<noteq> []" by (simp add: js_truthy_str_def)
    then obtain d where "DocumentType_of_value (selectedDocType m) = Some d"
      using doc_type_option_valid [OF assms] by blast
    with Some True show ?thesis by (simp add: handleSubmit_def submit_disabled_def)
  next
    case False
    with Some show ?thesis by (auto simp: handleSubmit_def submit_disabled_def)
  qed
qed

section \<open>Properties of the dialog\<close>

text \<open>C25. While an analysis is in flight the dialog is on screen with the
  ``Analyzing document with AI...'' banner, the submit button reads ``Analyzing...'',
  both buttons are disabled, and no error banner is shown.\<close>

theorem reachable_dialog_while_analyzing:
  assumes "reachable s" and "inflight s \<noteq> []"
  shows "\<exists>v. app_dialog s = Some v
    \<and> mv_analyzing_banner v = Some ''Analyzing document with AI... Please wait.''
    \<and> mv_submit_label v = ''Analyzing...'' \<and> mv_submit_disabled v \<and> mv_cancel_disabled v
    \<and> mv_error_banner v = None"
proof -
  have an: "isAnalyzing (app s)"
    using reachable_inv [OF assms(1)] assms(2) unfolding session_inv_def by blast
  have sh: "error_shown (app s)" by (rule reachable_error_shown_inv [OF assms(1)])
  then have op: "isOpen (modalState (app s))" and er: "error (app s) = None"
    using an unfolding error_shown_def by blast+
  show ?thesis
    using an op er
    by (simp add: app_dialog_def modal_render_def modal_props_of_def submit_disabled_def
        cancel_disabled_def js_truthy_opt_str_def)
qed

theorem reachable_dialog_while_analyzing_witness:
  "\<exists>v. app_dialog demo_inflight = Some v
    \<and> mv_analyzing_banner v = Some ''Analyzing document with AI... Please wait.''
    \<and> mv_submit_label v = ''Analyzing...'' \<and> mv_submit_disabled v \<and> mv_cancel_disabled v
    \<and> mv_error_banner v = None"
  by (rule reachable_dialog_while_analyzing [OF reachable_demo_inflight]) (simp add: demo_inflight_def)

text \<open>C26. In every reachable state the dialog's ``Upload \& Analyze'' button is
  enabled exactly when no analysis is in flight and a click on it makes
  \<open>handleSubmit\<close> call \<open>onFileUpload\<close>: an enabled button never does nothing,
  because the document-type select only ever holds a value the \<open>as DocumentType\<close>
  cast accepts.\<close>

theorem reachable_submit_enabled_iff:
  assumes "reachable s" and "app_dialog s = Some v"
  shows "\<not> mv_submit_disabled v \<longleftrightarrow> inflight s = [] \<and> (\<exists>r. handleSubmit (modal s) = Some r)"
proof -
  have inv: "session_inv s" by (rule reachable_inv [OF assms(1)])
  have an: "isAnalyzing (app s) \<longleftrightarrow> inflight s \<noteq> []" using inv unfolding session_inv_def by blast
  have dt: "doc_type_option (selectedDocType (modal s))" using inv unfolding session_inv_def by blast
  have op: "isOpen (modalState (app s))" using assms(2) by (simp add: app_dialog_def split: if_splits)
  have "modal_render (modal_props_of (app s)) (modal s) = Some v"
    using assms(2) op by (simp add: app_dialog_def)
  then have "mv_submit_disabled v = submit_disabled (modal s) (isAnalyzing (app s))"
    by (simp add: modal_render_fields(4) modal_props_of_def)
  then show ?thesis
    using an handleSubmit_enabled [OF dt] by (auto simp: submit_disabled_def)
qed

theorem reachable_submit_enabled_iff_witness:
  "mv_submit_disabled (the (app_dialog demo_inflight))"
proof -
  have "app_dialog demo_inflight = Some (the (app_dialog demo_inflight))"
    by (simp add: app_dialog_def modal_render_def modal_props_of_def demo_inflight_def)
  from reachable_submit_enabled_iff [OF reachable_demo_inflight this]
  show ?thesis by (simp add: demo_inflight_def)
qed

text \<open>A check of the session model against the render: it lets the dialog deliver exactly the events of the
  controls its render shows: the clear button exists exactly while a file card is
  shown, the drop zone exactly while none is, and each select can be changed exactly
  when it is not disabled, to the value of one of its options.\<close>

lemma dialog_events_match_render:
  assumes "app_dialog s = Some v"
  shows "(modal_event_enabled s MClearFile \<longleftrightarrow> (\<exists>n z. mv_file_panel v = FileCard n z))
    \<and> (\<forall>fs. modal_event_enabled s (MDrop fs) \<longleftrightarrow> (\<exists>b. mv_file_panel v = DropZone b))
    \<and> (\<forall>x. modal_event_enabled s (MSelectShipment x) \<longleftrightarrow>
           \<not> mv_shipment_disabled v \<and> x \<in> fst ` set (mv_shipment_options v))
    \<and> (\<forall>x. modal_event_enabled s (MSelectDocType x) \<longleftrightarrow>
           \<not> mv_docType_disabled v \<and> x \<in> fst ` set (mv_docType_options v))"
proof -
  have op: "isOpen (modalState (app s))" using assms by (simp add: app_dialog_def split: if_splits)
  then have r: "modal_render (modal_props_of (app s)) (modal s) = Some v"
    using assms by (simp add: app_dialog_def)
  have fp: "mv_file_panel v = (case m_file (modal s) of None \<Rightarrow> DropZone (m_dragActive (modal s))
                         | Some f \<Rightarrow> FileCard (file_name f) (file_size_text f))"
    and sd: "mv_shipment_disabled v = js_truthy_opt_str (modal_shipmentId (modalState (app s)))"
    and so: "mv_shipment_options v = ([], ''Select a shipment'') # map (\<lambda>s. (sid s, invoiceNumber s)) (shipments (app s))"
    and dd: "mv_docType_disabled v = js_truthy_str (doc_type_or_empty (modal_docType (modalState (app s))))"
    and d_o: "mv_docType_options v = ([], ''Select a document type'')
                             # map (\<lambda>d. (DocumentType_value d, DocumentType_value d)) DOCUMENT_TYPES"
    using r by (auto simp: modal_render_def modal_props_of_def split: if_splits)
  have ddn: "js_truthy_str (doc_type_or_empty d) \<longleftrightarrow> d \<noteq> None" for d
    by (cases d) (simp_all add: doc_type_or_empty_def js_truthy_str_def)
  have f1: "fst ` set (mv_shipment_options v) = insert [] (sid ` set (shipments (app s)))"
    using so by (simp add: image_image)
  have f2: "fst ` set (mv_docType_options v) = insert [] (DocumentType_value ` set DOCUMENT_TYPES)"
    using d_o by (simp add: image_image)
  show ?thesis
    using fp sd dd ddn f1 f2
    by (cases "m_file (modal s)")
       (auto simp: modal_event_enabled_def shipment_option_def doc_type_option_def)
qed

end
