(* ===== verification/Page.thy ===== *)
theory Page
  imports Dialog
begin

text \<open>
  The whole page \<open>App\<close> renders (\<open>src/App.tsx\<close>, lines 147--191): the
  overview cards, the shipment grid of \<open>src/components/Dashboard.tsx\<close> with one
  \<open>ShipmentRow\<close> per shipment (\<open>src/components/ShipmentRow.tsx\<close>) and one
  \<open>DocumentStatusCell\<close> per document type
  (\<open>src/components/DocumentStatusCell.tsx\<close>), the activity list, the drop overlay
  and the dialog. A cell whose slot is \<open>undefined\<close> would throw on
  \<open>document.status\<close>; it is the value \<open>None\<close>. The theorems show that no cell of
  a reachable state throws, that the grid shows exactly one spinner per analysis in
  flight, and that the overview's counts and rate agree with the grid's check marks.
\<close>

section \<open>Rows, grid and page\<close>

definition documentStatusCell :: "doc_slot option \<Rightarrow> status_indicator option" where
  "documentStatusCell d = map_option getStatusIndicator d"

record shipment_row_view =
  sr_invoice :: js_string
  sr_id :: js_string
  sr_date :: js_string
  sr_origin :: js_string
  sr_destination :: js_string
  sr_carrier :: js_string
  sr_cells :: "status_indicator option list"

definition shipmentRow_view :: "shipment \<Rightarrow> shipment_row_view" where
  "shipmentRow_view s =
     \<lparr>sr_invoice = invoiceNumber s, sr_id = sid s, sr_date = shippingDate s, sr_origin = origin s,
      sr_destination = destination s, sr_carrier = carrier s,
      sr_cells = map documentStatusCell (shipmentRow_cells s)\<rparr>"

record dashboard_view =
  dv_title :: js_string
  dv_headers :: "js_string list"
  dv_rows :: "shipment_row_view list"

definition dashboard_render :: "shipment list \<Rightarrow> dashboard_view" where
  "dashboard_render ss =
     \<lparr>dv_title = ''Shipment Document Status'',
      dv_headers = [''Invoice #'', ''Date'', ''Route''] @ dashboard_headers,
      dv_rows = map shipmentRow_view ss\<rparr>"

record page_view =
  pg_overview :: "js_string \<times> stat_card list \<times> completion_card"
  pg_dashboard :: dashboard_view
  pg_logs :: log_view
  pg_overlay :: "js_string option"
  pg_dialog :: "modal_view option"

definition app_render :: "session \<Rightarrow> page_view" where
  "app_render s =
     \<lparr>pg_overview = app_overview (app s),
      pg_dashboard = dashboard_render (shipments (app s)),
      pg_logs = uploadLogs_view (shipments (app s)) (uploadLogs (app s)),
      pg_overlay = drop_overlay (app s),
      pg_dialog = app_dialog s\<rparr>"

text \<open>A cell showing the spinner (specification side).\<close>

definition spinner_cell :: "status_indicator option \<Rightarrow> bool" where
  "spinner_cell c \<longleftrightarrow> (case c of None \<Rightarrow> False | Some i \<Rightarrow> ind_icon i = Spinner)"

text \<open>A cell showing the green check mark of an uploaded document (specification side).\<close>

definition check_cell :: "status_indicator option \<Rightarrow> bool" where
  "check_cell c \<longleftrightarrow> (case c of None \<Rightarrow> False | Some i \<Rightarrow> ind_icon i = CheckCircleIcon)"

definition grid_cells :: "page_view \<Rightarrow> status_indicator option list" where
  "grid_cells pg = concat (map sr_cells (dv_rows (pg_dashboard pg)))"

section \<open>Lemmas\<close>

lemma count_concat_map:
  assumes "\<And>x y. x \<in> set xs \<Longrightarrow> y \<in> set ys \<Longrightarrow> P (f x y) = Q (g x y)"
  shows "length (filter P (concat (map (\<lambda>x. map (f x) ys) xs)))
       = length (filter Q (concat (map (\<lambda>x. map (g x) ys) xs)))"
  using assms
proof (induction xs)
  case Nil
  then show ?case by simp
next
  case (Cons a xs)
  have "length (filter P (map (f a) ys)) = length (filter Q (map (g a) ys))"
    using Cons.prems by (simp add: filter_map) (metis (no_types, lifting) comp_apply filter_cong)
  with Cons show ?case by simp
qed

lemma card_image_le1: "length xs \<le> 1 \<Longrightarrow> card (f ` set xs) = length xs"
  by (cases xs) auto

lemma abs_slots_row:
  assumes "distinct (map sid ss)" and "sh \<in> set ss"
  shows "abs_slots ss (sid sh, dt) = map_option status (map_of (documents sh) dt)"
  using find_sid_distinct [OF assms] by (simp add: abs_slots_def slot_of_def find_shipment_def)

lemma abs_slots_Some_mem:
  assumes "shipments_wf ss" and "abs_slots ss p = Some v"
  shows "p \<in> set (List.product (map sid ss) DOCUMENT_TYPES)"
proof (cases p)
  case (Pair x dt)
  then obtain sh where f: "find_shipment ss x = Some sh" and d: "map_of (documents sh) dt \<noteq> None"
    using assms(2) by (auto simp: abs_slots_def slot_of_def split: option.splits)
  from f have "sh \<in> set ss" and "sid sh = x"
    by (auto simp: find_shipment_def dest: find_Some_iff [THEN iffD1] nth_mem)
  moreover have "dt \<in> set DOCUMENT_TYPES" by (simp add: set_DOCUMENT_TYPES)
  ultimately show ?thesis using Pair by auto
qed

lemma spinner_cell_status:
  "spinner_cell (documentStatusCell d) \<longleftrightarrow> map_option status d = Some PROCESSING"
  by (cases d) (simp_all add: spinner_cell_def documentStatusCell_def icon_Spinner_iff)

lemma spinner_count:
  assumes "shipments_wf ss"
  shows "length (filter spinner_cell (concat (map (\<lambda>sh. sr_cells (shipmentRow_view sh)) ss)))
       = card {p. abs_slots ss p = Some PROCESSING}"
proof -
  have ds: "distinct (map sid ss)" using assms by (simp add: shipments_wf_def)
  let ?Q = "\<lambda>p. abs_slots ss p = Some PROCESSING"
  have "length (filter spinner_cell (concat (map (\<lambda>sh. sr_cells (shipmentRow_view sh)) ss)))
      = length (filter spinner_cell (concat (map (\<lambda>sh. map (\<lambda>dt. documentStatusCell (map_of (documents sh) dt)) DOCUMENT_TYPES) ss)))"
    by (simp add: shipmentRow_view_def shipmentRow_cells_def comp_def)
  also have "\<dots> = length (filter ?Q (concat (map (\<lambda>sh. map (\<lambda>dt. (sid sh, dt)) DOCUMENT_TYPES) ss)))"
    by (rule count_concat_map) (simp add: spinner_cell_status abs_slots_row [OF ds])
  also have "concat (map (\<lambda>sh. map (\<lambda>dt. (sid sh, dt)) DOCUMENT_TYPES) ss) = List.product (map sid ss) DOCUMENT_TYPES"
    by (simp add: product_concat_map comp_def)
  also have "length (filter ?Q (List.product (map sid ss) DOCUMENT_TYPES))
      = card (set (filter ?Q (List.product (map sid ss) DOCUMENT_TYPES)))"
    using ds by (simp add: distinct_card [symmetric] distinct_product distinct_DOCUMENT_TYPES)
  also have "set (filter ?Q (List.product (map sid ss) DOCUMENT_TYPES)) = {p. ?Q p}"
    using abs_slots_Some_mem [OF assms] by auto
  finally show ?thesis .
qed

lemma shipmentRow_view_cells:
  assumes "slots_wf sh"
  shows "None \<notin> set (sr_cells (shipmentRow_view sh)) \<and> length (sr_cells (shipmentRow_view sh)) = 6"
proof -
  have "map_of (documents sh) dt \<noteq> None" for dt by (rule slots_wf_map_of [OF assms])
  then show ?thesis
    by (auto simp: shipmentRow_view_def shipmentRow_cells_def documentStatusCell_def length_DOCUMENT_TYPES)
       (metis option.distinct(1))
qed

lemma length_filter_concat: "length (filter P (concat xss)) = sum_list (map (\<lambda>xs. length (filter P xs)) xss)"
  by (induction xss) simp_all

lemma check_cell_Some: "check_cell (Some (getStatusIndicator d)) \<longleftrightarrow> status d = UPLOADED"
  by (cases "status d") (simp_all add: check_cell_def getStatusIndicator_def)

lemma shipmentRow_view_values:
  assumes "slots_wf sh"
  shows "sr_cells (shipmentRow_view sh) = map (\<lambda>d. Some (getStatusIndicator d)) (obj_values (documents sh))"
proof -
  have keys: "map fst (documents sh) = DOCUMENT_TYPES" using assms by (simp add: slots_wf_def obj_keys_def)
  then have "map (map_of (documents sh)) (map fst (documents sh)) = map (\<lambda>p. Some (snd p)) (documents sh)"
    by (intro map_map_of_keys) simp
  then have "map (map_of (documents sh)) DOCUMENT_TYPES = map Some (obj_values (documents sh))"
    by (simp add: keys obj_values_def)
  then show ?thesis
    by (simp add: shipmentRow_view_def shipmentRow_cells_def documentStatusCell_def comp_def)
qed

lemma row_checks: "slots_wf sh \<Longrightarrow> length (filter check_cell (sr_cells (shipmentRow_view sh))) = uploaded_in sh"
  by (simp add: shipmentRow_view_values filter_map comp_def check_cell_Some uploaded_in_def)

lemma grid_counts:
  assumes "shipments_wf ss"
  shows "length (filter check_cell (concat (map (\<lambda>sh. sr_cells (shipmentRow_view sh)) ss))) = sum_list (map uploaded_in ss)"
    and "length (concat (map (\<lambda>sh. sr_cells (shipmentRow_view sh)) ss)) = 6 * length ss"
proof -
  have w: "\<forall>sh \<in> set ss. slots_wf sh" using assms by (simp add: shipments_wf_def list_all_iff)
  then have "map (\<lambda>sh. length (filter check_cell (sr_cells (shipmentRow_view sh)))) ss = map uploaded_in ss"
    by (intro map_cong) (simp_all add: row_checks)
  then show "length (filter check_cell (concat (map (\<lambda>sh. sr_cells (shipmentRow_view sh)) ss))) = sum_list (map uploaded_in ss)"
    by (simp only: length_filter_concat map_map comp_def)
  have "map (\<lambda>sh. length (sr_cells (shipmentRow_view sh))) ss = map (\<lambda>_. 6) ss"
    using w shipmentRow_view_cells by simp
  then have "sum_list (map (\<lambda>sh. length (sr_cells (shipmentRow_view sh))) ss) = sum_list (map (\<lambda>_. 6) ss)"
    by (rule arg_cong)
  also have "\<dots> = 6 * length ss" by (simp add: sum_list_triv)
  finally have "sum_list (map (\<lambda>sh. length (sr_cells (shipmentRow_view sh))) ss) = 6 * length ss" .
  then show "length (concat (map (\<lambda>sh. sr_cells (shipmentRow_view sh)) ss)) = 6 * length ss"
    by (simp add: length_concat comp_def)
qed

section \<open>Properties of the page\<close>

text \<open>C27. The shipment grid of a reachable state renders without a runtime error:
  it has one row per shipment, and every row has a defined status cell under each of
  the six document-type headers, so no \<open>DocumentStatusCell\<close> reads \<open>status\<close>
  of \<open>undefined\<close>.\<close>

theorem reachable_grid_renders:
  assumes "reachable s"
  shows "length (dv_rows (pg_dashboard (app_render s))) = length (shipments (app s))
    \<and> (\<forall>row \<in> set (dv_rows (pg_dashboard (app_render s))).
         None \<notin> set (sr_cells row) \<and> length (sr_cells row) + 3 = length (dv_headers (pg_dashboard (app_render s))))"
proof -
  have wf: "shipments_wf (shipments (app s))"
    using reachable_inv [OF assms] unfolding session_inv_def by blast
  have h: "length (dv_headers (pg_dashboard (app_render s))) = 9"
    by (simp add: app_render_def dashboard_render_def dashboard_headers_def length_DOCUMENT_TYPES)
  have "\<forall>sh \<in> set (shipments (app s)). slots_wf sh" using wf by (simp add: shipments_wf_def list_all_iff)
  then have "\<forall>row \<in> set (dv_rows (pg_dashboard (app_render s))). None \<notin> set (sr_cells row) \<and> length (sr_cells row) = 6"
    by (auto simp: app_render_def dashboard_render_def dest: shipmentRow_view_cells)
  then show ?thesis using h by (simp add: app_render_def dashboard_render_def)
qed

theorem reachable_grid_renders_witness:
  "length (dv_rows (pg_dashboard (app_render demo_inflight))) = 5
   \<and> None \<notin> set (sr_cells (dv_rows (pg_dashboard (app_render demo_inflight)) ! 0))
   \<and> length (sr_cells (dv_rows (pg_dashboard (app_render demo_inflight)) ! 0)) = 6"
proof -
  note g = reachable_grid_renders [OF reachable_demo_inflight]
  have n: "length (shipments (app demo_inflight)) = 5"
    by (simp add: demo_inflight_def initial_state_def INITIAL_SHIPMENTS_def)
  have h: "length (dv_headers (pg_dashboard (app_render demo_inflight))) = 9"
    by (simp add: app_render_def dashboard_render_def dashboard_headers_def length_DOCUMENT_TYPES)
  have l: "length (dv_rows (pg_dashboard (app_render demo_inflight))) = 5" using g n by simp
  then have "dv_rows (pg_dashboard (app_render demo_inflight)) ! 0 \<in> set (dv_rows (pg_dashboard (app_render demo_inflight)))"
    by (simp add: nth_mem)
  with g h l show ?thesis by auto
qed

text \<open>C28. The grid shows one spinner per analysis in flight and no other: in every
  reachable state the number of cells with the spinner icon is the number of pending
  uploads, which is at most one.\<close>

theorem reachable_one_spinner:
  assumes "reachable s"
  shows "length (filter spinner_cell (grid_cells (app_render s))) = length (inflight s)
    \<and> length (inflight s) \<le> 1"
proof -
  have inv: "session_inv s" by (rule reachable_inv [OF assms])
  have wf: "shipments_wf (shipments (app s))" and one: "length (inflight s) \<le> 1"
    and pr: "\<forall>p. abs_slots (shipments (app s)) p = Some PROCESSING \<longleftrightarrow> p \<in> req_target ` set (inflight s)"
    using inv unfolding session_inv_def by blast+
  have "{p. abs_slots (shipments (app s)) p = Some PROCESSING} = req_target ` set (inflight s)"
    using pr by blast
  then have "length (filter spinner_cell (grid_cells (app_render s))) = card (req_target ` set (inflight s))"
    using spinner_count [OF wf] by (simp add: grid_cells_def app_render_def dashboard_render_def comp_def)
  then show ?thesis using card_image_le1 [OF one] one by simp
qed

theorem reachable_one_spinner_witness:
  "length (filter spinner_cell (grid_cells (app_render demo_inflight))) = 1"
  using reachable_one_spinner [OF reachable_demo_inflight] by (simp add: demo_inflight_def)

text \<open>C24. The dashboard overview agrees with the grid below it, although the two
  are computed separately (\<open>analyticsSummary\<close> in \<open>App\<close>, the cells in
  \<open>ShipmentRow\<close>): in every reachable state the ``Documents Uploaded'' card shows
  the number of green check-mark cells of the grid, the ``Documents Missing'' card the
  number of the other cells, both as plain decimals, and the completion card's rate
  is \<open>toFixed(1)\<close> of the percentage of check-mark cells, followed by \<open>%\<close>.\<close>

theorem reachable_overview_matches_grid:
  assumes "reachable s"
  shows "case app_overview (app s) of (h, cards, cc) \<Rightarrow>
      parse_nat (card_value (cards ! 1)) = length (filter check_cell (grid_cells (app_render s)))
    \<and> parse_nat (card_value (cards ! 2)) = length (filter (\<lambda>c. \<not> check_cell c) (grid_cells (app_render s)))
    \<and> CHR ''-'' \<notin> set (card_value (cards ! 1) @ card_value (cards ! 2))
    \<and> cc_rate cc = butlast (cc_rate cc) @ ''%''
    \<and> parse_number (butlast (cc_rate cc))
        = to_fixed1 (of_nat (length (filter check_cell (grid_cells (app_render s))))
                     / of_nat (length (grid_cells (app_render s))) * 100)"
proof -
  let ?ss = "shipments (app s)" and ?ds = "analyzedData (app s)"
  let ?sm = "analyticsSummary ?ss ?ds"
  have wf: "shipments_wf ?ss" using reachable_inv [OF assms] unfolding session_inv_def by blast
  have g: "grid_cells (app_render s) = concat (map (\<lambda>sh. sr_cells (shipmentRow_view sh)) ?ss)"
    by (simp add: grid_cells_def app_render_def dashboard_render_def comp_def)
  let ?k = "sum_list (map uploaded_in ?ss)" and ?n = "6 * length ?ss"
  have ck: "length (filter check_cell (grid_cells (app_render s))) = ?k"
    and cn: "length (grid_cells (app_render s)) = ?n" using grid_counts [OF wf] g by simp_all
  have kn: "?k \<le> ?n" using wf by (simp add: shipments_wf_def sum_uploaded_in_le)
  have nck: "length (filter (\<lambda>c. \<not> check_cell c) (grid_cells (app_render s))) = ?n - ?k"
    using sum_length_filter_compl [of check_cell "grid_cells (app_render s)"] ck cn by simp
  note oc = overview_counts [OF wf, of ?ds]
  have u: "uploadedDocs ?sm = int ?k" by (rule uploadedDocs_sum)
  have t: "totalDocs ?sm = int ?n" by (simp add: totalDocs_eq)
  have m: "missingDocs ?sm = int (?n - ?k)" using kn by (simp add: missingDocs_eq u t of_nat_diff)
  have u0: "0 \<le> uploadedDocs ?sm" by (simp add: u)
  note cl = completion_label_roundtrip [OF u0]
  have rate: "completionPercentage ?sm = to_fixed1 (of_nat ?k / of_nat ?n * 100)"
    by (cases "?n = 0") (simp_all add: completionPercentage_def uploadedDocs_sum totalDocs_eq)
  show ?thesis
    using oc cl no_minus_show_nat ck nck cn rate
    by (simp add: app_overview_def analytics_overview_def completion_card_of_def u m)
qed

theorem reachable_overview_matches_grid_witness:
  "case app_overview (app demo_inflight) of (h, cards, cc) \<Rightarrow>
      parse_nat (card_value (cards ! 1)) = length (filter check_cell (grid_cells (app_render demo_inflight)))
    \<and> parse_nat (card_value (cards ! 2)) = length (filter (\<lambda>c. \<not> check_cell c) (grid_cells (app_render demo_inflight)))
    \<and> CHR ''-'' \<notin> set (card_value (cards ! 1) @ card_value (cards ! 2))
    \<and> cc_rate cc = butlast (cc_rate cc) @ ''%''
    \<and> parse_number (butlast (cc_rate cc))
        = to_fixed1 (of_nat (length (filter check_cell (grid_cells (app_render demo_inflight))))
                     / of_nat (length (grid_cells (app_render demo_inflight))) * 100)"
  by (rule reachable_overview_matches_grid [OF reachable_demo_inflight])

end
