(* ===== verification/Runs.thy ===== *)
theory Runs
  imports Integration
begin

text \<open>
  Runs of the session that go through a whole upload: from an idle state with the
  dialog closed, the header button, choosing a file, a shipment and a document
  type, and the submit button start an analysis (\<open>reachable_start_upload\<close>);
  its settling ends the run. Two such runs show that the activity log's ids,
  \<open>`log-${Date.now()}`\<close> (\<open>src/App.tsx\<close>, line 80), repeat when two analyses
  settle at the same clock reading.
\<close>

section \<open>Lemmas\<close>

lemma reachable_start_upload:
  assumes r: "reachable s" and idle: "inflight s = []" and closed: "\<not> isOpen (modalState (app s))"
    and x: "x \<in> sid ` set (shipments (app s))" and xn: "x \<noteq> []"
  shows "reachable (s\<lparr>app := uploadStart x dt (handleOpenModal None None None (app s)),
      modal := \<lparr>m_dragActive = False, m_file = Some f, selectedShipment = x,
                selectedDocType = DocumentType_value dt, m_comments = []\<rparr>,
      inflight := [\<lparr>req_file = f, req_shipmentId = x, req_docType = dt, req_comments = Some []\<rparr>]\<rparr>)"
proof -
  let ?req = "\<lparr>req_file = f, req_shipmentId = x, req_docType = dt, req_comments = Some []\<rparr>"
  have na: "\<not> isAnalyzing (app s)" using reachable_inv [OF r] idle unfolding session_inv_def by blast
  define s1 where "s1 = s\<lparr>app := handleOpenModal None None None (app s),
    modal := dialog_after (app s) (handleOpenModal None None None (app s)) (modal s)\<rparr>"
  define s2 where "s2 = s1\<lparr>modal := modal_event_step (MChange [f]) (modal s1)\<rparr>"
  define s3 where "s3 = s2\<lparr>modal := modal_event_step (MSelectShipment x) (modal s2)\<rparr>"
  define s4 where "s4 = s3\<lparr>modal := modal_event_step (MSelectDocType (DocumentType_value dt)) (modal s3)\<rparr>"
  have app4: "app s4 = handleOpenModal None None None (app s)"
    by (simp add: s4_def s3_def s2_def s1_def)
  have a1: "app s1 = handleOpenModal None None None (app s)" by (simp add: s1_def)
  have m1: "modal s1 = \<lparr>m_dragActive = False, m_file = None, selectedShipment = [],
      selectedDocType = [], m_comments = []\<rparr>"
    using closed by (simp add: s1_def dialog_after_def modal_mount_def or_empty_def doc_type_or_empty_def)
  have m4: "modal s4 = \<lparr>m_dragActive = False, m_file = Some f, selectedShipment = x,
      selectedDocType = DocumentType_value dt, m_comments = []\<rparr>"
    by (simp add: s4_def s3_def s2_def m1 modal_handleChange_def)
  have "session_step s s1" unfolding s1_def using closed by (rule header_open)
  with r have "reachable s1" by (rule reachable.step)
  moreover have "session_step s1 s2" unfolding s2_def
    by (rule dialog_event) (simp_all add: a1 m1 modal_event_enabled_def)
  ultimately have "reachable s2" by (rule reachable.step)
  moreover have "session_step s2 s3" unfolding s3_def
    using x by (intro dialog_event) (simp_all add: s2_def s1_def modal_event_enabled_def shipment_option_def
        js_truthy_opt_str_def)
  ultimately have "reachable s3" by (rule reachable.step)
  moreover have "session_step s3 s4" unfolding s4_def
    using doc_type_option_value [of dt]
    by (intro dialog_event) (simp_all add: s3_def s2_def s1_def modal_event_enabled_def)
  ultimately have "reachable s4" by (rule reachable.step)
  moreover have "session_step s4 (s4\<lparr>app := uploadStart (req_shipmentId ?req) (req_docType ?req) (app s4),
      inflight := inflight s4 @ [?req]\<rparr>)"
  proof (rule dialog_submit)
    show "isOpen (modalState (app s4))" by (simp add: app4)
    show "\<not> submit_disabled (modal s4) (isAnalyzing (app s4))"
      using na xn by (simp add: m4 app4 submit_disabled_def js_truthy_str_def)
    show "handleSubmit (modal s4) = Some ?req"
      using xn by (simp add: m4 handleSubmit_def js_truthy_str_def)
  qed
  ultimately have "reachable (s4\<lparr>app := uploadStart (req_shipmentId ?req) (req_docType ?req) (app s4),
      inflight := inflight s4 @ [?req]\<rparr>)" by (rule reachable.step)
  moreover have "s4\<lparr>app := uploadStart (req_shipmentId ?req) (req_docType ?req) (app s4),
      inflight := inflight s4 @ [?req]\<rparr>
    = s\<lparr>app := uploadStart x dt (handleOpenModal None None None (app s)), modal := modal s4,
      inflight := [?req]\<rparr>"
    by (simp add: s4_def s3_def s2_def s1_def idle)
  ultimately show ?thesis by (simp only: m4)
qed

lemma reachable_settle_only:
  assumes "reachable s" and "inflight s = [r]"
  shows "reachable (s\<lparr>app := uploadSettle clk (req_file r) (req_shipmentId r) (req_docType r) (req_comments r)
      (analyzeDocumentContent (api_key s) env gemini
         (fileContent (req_file r) (req_docType r) (req_shipmentId r)) (req_docType r)) (app s),
      inflight := []\<rparr>)"
proof -
  have "session_step s (s\<lparr>app := uploadSettle clk (req_file r) (req_shipmentId r) (req_docType r) (req_comments r)
      (analyzeDocumentContent (api_key s) env gemini
         (fileContent (req_file r) (req_docType r) (req_shipmentId r)) (req_docType r)) (app s),
      inflight := remove1 r (inflight s)\<rparr>)"
    by (rule analysis_settles) (simp add: assms(2))
  with assms show ?thesis by (simp add: reachable.step)
qed

lemma upload_run:
  fixes clk :: upload_clock and f :: file_info and dt :: DocumentType
  assumes r: "reachable s" and idle: "inflight s = []" and closed: "\<not> isOpen (modalState (app s))"
    and key: "\<not> js_truthy_opt_str (api_key s)"
    and x: "x \<in> sid ` set (shipments (app s))" and xn: "x \<noteq> []"
  shows "\<exists>t. reachable t \<and> inflight t = [] \<and> \<not> isOpen (modalState (app t)) \<and> api_key t = api_key s
    \<and> map sid (shipments (app t)) = map sid (shipments (app s))
    \<and> (\<exists>e. uploadLogs (app t) = e # uploadLogs (app s)
         \<and> log_id e = ''log-'' @ show_nat (clock_now_ms clk) \<and> log_shipmentId e = x)"
proof -
  let ?req = "\<lparr>req_file = f, req_shipmentId = x, req_docType = dt, req_comments = Some []\<rparr>"
  let ?s1 = "s\<lparr>app := uploadStart x dt (handleOpenModal None None None (app s)),
      modal := \<lparr>m_dragActive = False, m_file = Some f, selectedShipment = x,
                selectedDocType = DocumentType_value dt, m_comments = []\<rparr>,
      inflight := [?req]\<rparr>"
  have r1: "reachable ?s1" by (rule reachable_start_upload [OF r idle closed x xn])
  obtain res where res: "analyzeDocumentContent (api_key s) env gemini (fileContent f dt x) dt = Resolved res"
    using analyzeDocumentContent_no_key [OF key] by blast
  let ?t = "?s1\<lparr>app := uploadSettle clk f x dt (Some []) (Resolved res) (app ?s1), inflight := []\<rparr>"
  have "reachable ?t"
    using reachable_settle_only [OF r1, of ?req clk env gemini] res by simp
  moreover have "\<not> isOpen (modalState (app ?t))"
    by (simp add: uploadSettle_def uploadSucceeded_def handleCloseModal_def closed_modal_def)
  moreover have "map sid (shipments (app ?t)) = map sid (shipments (app s))" by simp
  moreover have "uploadLogs (app ?t) = newLog clk f x dt (Some []) res # uploadLogs (app s)"
    by (simp add: uploadLogs_uploadSettle)
  moreover have "log_id (newLog clk f x dt (Some []) res) = ''log-'' @ show_nat (clock_now_ms clk)"
    and "log_shipmentId (newLog clk f x dt (Some []) res) = x"
    by (simp_all add: newLog_def)
  ultimately show ?thesis by (intro exI [where x = ?t]) auto
qed

section \<open>Properties of runs\<close>

text \<open>C29. The activity log's ids are not unique: the run that opens the dialog, uploads
  a file for the first seed shipment and lets the (mock) analysis settle, done twice
  with the clock showing the same millisecond both times, reaches a state whose log
  holds two entries with the same id \<open>log-0\<close>, which \<open>UploadLogs\<close> uses as the
  React key of both rows.\<close>

theorem reachable_log_ids_collide:
  "\<exists>t. reachable t \<and> length (uploadLogs (app t)) = 2 \<and> \<not> distinct (map log_id (uploadLogs (app t)))"
proof -
  let ?s0 = "session_init None"
  let ?x = "''MV0205020250510-02''"
  have r0: "reachable ?s0" by (rule reachable.init)
  have x0: "?x \<in> sid ` set (shipments (app ?s0))"
    by (simp add: session_init_def initial_state_def INITIAL_SHIPMENTS_def)
  have k0: "\<not> js_truthy_opt_str (api_key ?s0)" by (simp add: session_init_def js_truthy_opt_str_def)
  obtain t1 where r1: "reachable t1" and i1: "inflight t1 = []" and c1: "\<not> isOpen (modalState (app t1))"
      and k1: "api_key t1 = None" and m1: "map sid (shipments (app t1)) = map sid (shipments (app ?s0))"
      and e1: "\<exists>e. uploadLogs (app t1) = e # uploadLogs (app ?s0) \<and> log_id e = ''log-'' @ show_nat 0
               \<and> log_shipmentId e = ?x"
    using upload_run [where clk = some_clock, OF r0 _ _ k0 x0]
    by (auto simp: session_init_def initial_state_def closed_modal_def some_clock_def)
  have "sid ` set (shipments (app t1)) = sid ` set (shipments (app ?s0))" using m1 by (rule set_sid_eq)
  with x0 have x1: "?x \<in> sid ` set (shipments (app t1))" by (simp only:)
  have k1': "\<not> js_truthy_opt_str (api_key t1)" by (simp add: k1 js_truthy_opt_str_def)
  obtain t2 where r2: "reachable t2"
      and e2: "\<exists>e. uploadLogs (app t2) = e # uploadLogs (app t1) \<and> log_id e = ''log-'' @ show_nat 0
               \<and> log_shipmentId e = ?x"
    using upload_run [where clk = some_clock, OF r1 i1 c1 k1' x1]
    by (auto simp: some_clock_def)
  have l0: "uploadLogs (app ?s0) = []" by (simp add: session_init_def initial_state_def)
  from e1 e2 l0 have "length (uploadLogs (app t2)) = 2 \<and> \<not> distinct (map log_id (uploadLogs (app t2)))"
    by auto
  with r2 show ?thesis by blast
qed

end
