(* ===== verification/Timed.thy ===== *)
theory Timed
  imports Runs
begin

text \<open>
  Runs with a clock. \<open>timed_reachable s n\<close> holds when the session state \<open>s\<close>
  is reached at clock reading \<open>n\<close> (milliseconds, \<open>Date.now()\<close>): time may pass
  between events (\<open>tick\<close>), events that write no log entry take no time
  (\<open>quiet\<close>), and an analysis settles at the current reading, after which the
  clock has moved on by at least one millisecond (\<open>settle\<close>). Every timed run is
  a run of \<open>session_step\<close> (\<open>timed_reachable_reachable\<close>); conversely the
  untimed runs that \<open>Runs.reachable_log_ids_collide\<close> exhibits are exactly the ones
  this assumption on the clock excludes.
\<close>

inductive timed_reachable :: "session \<Rightarrow> nat \<Rightarrow> bool" where
  init: "timed_reachable (session_init key) n"
| tick: "timed_reachable s n \<Longrightarrow> n \<le> n' \<Longrightarrow> timed_reachable s n'"
| quiet: "timed_reachable s n \<Longrightarrow> session_step s t \<Longrightarrow> uploadLogs (app t) = uploadLogs (app s) \<Longrightarrow>
          timed_reachable t n"
| settle: "timed_reachable s n \<Longrightarrow> r \<in> set (inflight s) \<Longrightarrow> clock_now_ms clk = n \<Longrightarrow>
           timed_reachable (s\<lparr>app := uploadSettle clk (req_file r) (req_shipmentId r) (req_docType r)
                                  (req_comments r)
                                  (analyzeDocumentContent (api_key s) env gemini
                                     (fileContent (req_file r) (req_docType r) (req_shipmentId r))
                                     (req_docType r))
                                  (app s),
                             inflight := remove1 r (inflight s)\<rparr>) (Suc n)"

text \<open>The log ids as timestamps: the ids are \<open>log-t\<close> for readings \<open>t\<close> below the
  current one, newest first.\<close>

definition log_stamps :: "upload_log_entry list \<Rightarrow> nat \<Rightarrow> bool" where
  "log_stamps logs n \<longleftrightarrow>
     (\<exists>ts. map log_id logs = map (\<lambda>t. ''log-'' @ show_nat t) ts \<and> sorted_wrt (>) ts \<and> (\<forall>t \<in> set ts. t < n))"

section \<open>Lemmas\<close>

lemma timed_reachable_reachable: "timed_reachable s n \<Longrightarrow> reachable s"
proof (induction rule: timed_reachable.induct)
  case (init key n)
  then show ?case by (rule reachable.init)
next
  case (tick s n n')
  then show ?case by simp
next
  case (quiet s n t)
  then show ?case by (simp add: reachable.step)
next
  case (settle s n r clk env gemini)
  then show ?case by (blast intro: reachable.step analysis_settles)
qed

lemma log_stamps_mono: "log_stamps logs n \<Longrightarrow> n \<le> n' \<Longrightarrow> log_stamps logs n'"
  unfolding log_stamps_def by (meson less_le_trans)

lemma log_stamps_cons:
  assumes "log_stamps logs n" and "log_id e = ''log-'' @ show_nat n"
  shows "log_stamps (e # logs) (Suc n)"
proof -
  obtain ts where ts: "map log_id logs = map (\<lambda>t. ''log-'' @ show_nat t) ts" "sorted_wrt (>) ts"
      "\<forall>t \<in> set ts. t < n"
    using assms(1) unfolding log_stamps_def by blast
  then have "map log_id (e # logs) = map (\<lambda>t. ''log-'' @ show_nat t) (n # ts)
      \<and> sorted_wrt (>) (n # ts) \<and> (\<forall>t \<in> set (n # ts). t < Suc n)"
    using assms(2) by auto
  then show ?thesis unfolding log_stamps_def by blast
qed

lemma log_stamps_distinct: "log_stamps logs n \<Longrightarrow> distinct (map log_id logs)"
proof -
  assume "log_stamps logs n"
  then obtain ts where ts: "map log_id logs = map (\<lambda>t. ''log-'' @ show_nat t) ts" "sorted_wrt (>) ts"
    unfolding log_stamps_def by blast
  have "distinct ts" using ts(2) by (induction ts) auto
  moreover have "inj (\<lambda>t. ''log-'' @ show_nat t)" by (rule injI) simp
  ultimately have "distinct (map (\<lambda>t. ''log-'' @ show_nat t) ts)"
    by (simp add: distinct_map inj_on_subset [OF _ subset_UNIV])
  then show ?thesis by (simp only: ts(1))
qed

lemma timed_log_stamps: "timed_reachable s n \<Longrightarrow> log_stamps (uploadLogs (app s)) n"
proof (induction rule: timed_reachable.induct)
  case (init key n)
  then show ?case by (simp add: log_stamps_def session_init_def initial_state_def)
next
  case (tick s n n')
  from tick.IH tick.hyps(2) show ?case by (rule log_stamps_mono)
next
  case (quiet s n t)
  then show ?case by simp
next
  case (settle s n r clk env gemini)
  let ?oc = "analyzeDocumentContent (api_key s) env gemini
      (fileContent (req_file r) (req_docType r) (req_shipmentId r)) (req_docType r)"
  show ?case
  proof (cases ?oc)
    case (Resolved res)
    have "log_id (newLog clk (req_file r) (req_shipmentId r) (req_docType r) (req_comments r) res)
        = ''log-'' @ show_nat n" using settle.hyps(3) by (simp add: newLog_def)
    from log_stamps_cons [OF settle.IH this] Resolved show ?thesis
      by (simp add: uploadLogs_uploadSettle)
  next
    case (Rejected m)
    have "log_stamps (uploadLogs (app s)) (Suc n)" using settle.IH by (rule log_stamps_mono) simp
    with Rejected show ?thesis by (simp add: uploadLogs_uploadSettle)
  qed
qed

lemma session_step_logs_grow:
  "session_step s t \<Longrightarrow> uploadLogs (app t) = uploadLogs (app s) \<or> (\<exists>e. uploadLogs (app t) = e # uploadLogs (app s))"
  by (induction rule: session_step.induct)
     (auto simp: uploadLogs_uploadSettle handleCancel_def split: analysis_outcome.splits)

lemma reachable_no_logs_timed: "reachable s \<Longrightarrow> uploadLogs (app s) = [] \<Longrightarrow> timed_reachable s n"
proof (induction rule: reachable.induct)
  case (init key)
  show ?case by (rule timed_reachable.init)
next
  case (step s t)
  from session_step_logs_grow [OF step.hyps(2)] step.prems have "uploadLogs (app s) = []" by auto
  with step.IH have "timed_reachable s n" by blast
  then show ?case using step.hyps(2) step.prems \<open>uploadLogs (app s) = []\<close> by (simp add: timed_reachable.quiet)
qed

section \<open>Properties of timed runs\<close>

text \<open>C30. When the clock moves on between two settling analyses, the activity log's
  ids are unique and ordered: every timed run is a run of the application, and in the
  state it reaches the log ids are \<open>log-t\<close> for strictly decreasing readings
  \<open>t\<close>, newest first, hence distinct.\<close>

theorem timed_log_ids_distinct:
  assumes "timed_reachable s n"
  shows "reachable s \<and> distinct (map log_id (uploadLogs (app s)))
    \<and> (\<exists>ts. map log_id (uploadLogs (app s)) = map (\<lambda>t. ''log-'' @ show_nat t) ts \<and> sorted_wrt (>) ts)"
proof -
  have st: "log_stamps (uploadLogs (app s)) n" using assms by (rule timed_log_stamps)
  then have "\<exists>ts. map log_id (uploadLogs (app s)) = map (\<lambda>t. ''log-'' @ show_nat t) ts \<and> sorted_wrt (>) ts"
    unfolding log_stamps_def by blast
  with timed_reachable_reachable [OF assms] log_stamps_distinct [OF st] show ?thesis by blast
qed

theorem timed_log_ids_distinct_witness:
  "reachable demo_settled \<and> distinct (map log_id (uploadLogs (app demo_settled)))"
proof -
  have "timed_reachable demo_inflight 0"
    by (rule reachable_no_logs_timed [OF reachable_demo_inflight])
       (simp add: demo_inflight_def initial_state_def)
  then have "timed_reachable (demo_inflight\<lparr>app := uploadSettle some_clock (req_file demo_request)
        (req_shipmentId demo_request) (req_docType demo_request) (req_comments demo_request)
        (analyzeDocumentContent (api_key demo_inflight) some_env (\<lambda>_. None)
           (fileContent (req_file demo_request) (req_docType demo_request) (req_shipmentId demo_request))
           (req_docType demo_request))
        (app demo_inflight),
      inflight := remove1 demo_request (inflight demo_inflight)\<rparr>) (Suc 0)"
    by (rule timed_reachable.settle) (simp_all add: demo_inflight_def some_clock_def)
  then have "timed_reachable demo_settled (Suc 0)" by (simp only: demo_settled_eq)
  from timed_log_ids_distinct [OF this] show ?thesis by blast
qed

end
