(* ===== verification/Spec2Isabelle.thy ===== *)
theory Spec2Isabelle
  imports Page Timed
begin

text \<open>
  \<^bold>\<open>A verification development for the shipment-document dashboard (SCM_DOCBOARD).\<close>

  \<^medskip>
  \<^bold>\<open>The program.\<close> A React/TypeScript single-page application. \<open>src/App.tsx\<close> owns
  the whole session state in \<open>useState\<close> hooks: the shipments (each with one
  document slot per document type), the upload log, the analyzed-data rows, the
  upload dialog's state, the \<open>isAnalyzing\<close> flag, the error message and the
  drag-overlay flag. \<open>handleFileUpload\<close> marks the target slot \<open>Processing\<close>,
  awaits the analyzer of \<open>src/services/geminiService.ts\<close> (a mock when no API key
  is configured, the Gemini API otherwise), and then writes either the uploaded
  slot, a log entry and an analyzed-data row, or the \<open>Error\<close> status and an error
  message; a \<open>finally\<close> block clears \<open>isAnalyzing\<close>. The dashboard summary
  (\<open>analyticsSummary\<close>) is a pure projection of the state. The components under
  \<open>src/components/\<close> render this state; \<open>FileUploadModal\<close> gathers the file, the
  shipment and the document type and calls \<open>handleFileUpload\<close>.

  \<^medskip>
  \<^bold>\<open>Theories.\<close>
  \<^item> \<open>Prelude\<close>: the representation of JavaScript values: objects used as
    dictionaries are association lists in insertion order (\<open>obj_set\<close> is
    \<open>{...o, [k]: v}\<close>), string truthiness, the decimal rendering \<open>show_nat\<close>
    of numbers in template literals with its inverse \<open>parse_nat\<close>.
  \<^item> \<open>Types\<close> (\<open>src/types.ts\<close>): the enums \<open>DocumentType\<close> and
    \<open>DocumentStatus\<close> with their string values, and the records \<open>doc_slot\<close>,
    \<open>shipment\<close>, \<open>analysis_result\<close>, \<open>analyzed_data\<close>,
    \<open>upload_log_entry\<close>, \<open>modal_state\<close>.
  \<^item> \<open>Constants\<close> (\<open>src/constants.ts\<close>): \<open>DOCUMENT_TYPES\<close> and the seed
    \<open>INITIAL_SHIPMENTS\<close>.
  \<^item> \<open>Analyzer\<close> (\<open>src/services/geminiService.ts\<close>): \<open>mockGeminiService\<close>,
    the Gemini path (the prompt \<open>gemini_prompt\<close>, the request
    \<open>gemini_request_of\<close>, the copy of the reply \<open>geminiAnalyze\<close>) and the
    dispatcher \<open>analyzeDocumentContent\<close>; a settled promise is an
    \<open>analysis_outcome\<close>.
  \<^item> \<open>Lifecycle\<close> (\<open>src/App.tsx\<close>): the record \<open>app_state\<close> and one
    definition per handler. The asynchronous \<open>handleFileUpload\<close> is split at its
    \<open>await\<close> into \<open>uploadStart\<close> and \<open>uploadSettle\<close> (the \<open>try\<close>
    continuation \<open>uploadSucceeded\<close>, the \<open>catch\<close> block \<open>uploadFailed\<close>,
    then \<open>finally\<close>); \<open>handleFileUpload\<close> composes them around an analyzer
    given as a parameter of type \<open>analyzer\<close>, which \<open>analyzeDocumentContent\<close>
    instantiates. The per-shipment updates \<open>markProcessing\<close>,
    \<open>applySuccess\<close> and \<open>markError\<close> are the \<open>prev.map(...)\<close> callbacks.
    The section on invariants defines the well-formedness of the shipments
    (\<open>shipments_wf\<close>: distinct ids, exactly the six document types as slot
    keys in display order, every uploaded slot with name, date, uploader and
    link), the abstraction \<open>abs_slots\<close> of the shipments to a map from
    (shipment id, document type) to status, and the abstract per-slot state
    machine of the specification (\<open>spec_slot\<close>, \<open>spec_apply\<close>:
    any status \<open>\<rightarrow>\<close> Processing \<open>\<rightarrow>\<close> Uploaded or Error).

  \<^item> \<open>Modal\<close> (\<open>src/components/FileUploadModal.tsx\<close>): the dialog's local
    state \<open>modal_local\<close> (its five \<open>useState\<close> hooks), the mount initialisers
    \<open>modal_mount\<close> and the reset effect \<open>modal_reset\<close>, one definition per
    handler, \<open>handleSubmit\<close> (file, shipment and type all chosen, then the
    \<open>as DocumentType\<close> cast \<open>DocumentType_of_value\<close>), the enabling
    conditions of its two buttons and the option sets of its two selects.
  \<^item> \<open>Session\<close> (the wiring in \<open>App\<close>'s render): the running application as
    an inductive step relation \<open>session_step\<close> over a \<open>session\<close> (App
    state, dialog state, the uploads whose analyzer promise is pending, the API
    key). One rule per event the page can deliver: the header's upload button,
    drag events and a drop on the page overlay, an event of a rendered dialog
    control, Cancel and Upload and Analyze when enabled, and the settling of a
    pending analysis with any clock reading, random readings and Gemini API.
    \<open>reachable\<close> closes the initial state under steps; \<open>session_inv\<close> is the
    inductive invariant, proved preserved rule by rule (\<open>inv_submit\<close>,
    \<open>inv_settle\<close>, ...) and hence by rule induction for every reachable state.
  \<^item> \<open>Views\<close> (\<open>src/components/AnalyticsOverview.tsx\<close>, \<open>Dashboard.tsx\<close>,
    \<open>ShipmentRow.tsx\<close>, \<open>DocumentStatusCell.tsx\<close>, \<open>UploadLogs.tsx\<close>): the
    completion rate \<open>completionPercentage\<close> with \<open>toFixed(1)\<close> as \<open>to_fixed1\<close>,
    the column headers \<open>dashboard_headers\<close> (\<open>split('(')[0].trim()\<close>), a row's
    cells \<open>shipmentRow_cells\<close>, the status indicator \<open>getStatusIndicator\<close>
    (icon, colour class, label, tooltip), \<open>getInvoiceNumber\<close> and the activity
    list \<open>uploadLogs_view\<close> with its rows \<open>logRow\<close>.

  \<^item> \<open>Overview\<close> (\<open>src/components/AnalyticsOverview.tsx\<close>, and its mount in
    \<open>App\<close>, \<open>app_overview\<close>): the component as the text it shows,
    \<open>analytics_overview\<close>: the three \<open>StatCard\<close>s (\<open>overview_cards\<close>), the
    completion card (\<open>completion_card_of\<close>, with the rate text
    \<open>completion_label\<close> from \<open>to_fixed1_text\<close>). The total value goes through
    \<open>new Intl.NumberFormat().format\<close>, a browser library whose output depends on
    the locale; \<open>intl_number_format\<close> models it for \<open>en-US\<close> with the default
    options (rounding to three fraction digits half away from zero,
    \<open>round_half_expand\<close>; comma grouping by the recursion \<open>group_thousands\<close>
    on \<open>n div 1000\<close>; trailing zeros of the fraction dropped). That model is not
    code of the repository and no property is claimed of it; \<open>parse_number\<close>
    reads a decimal text back and belongs to the specification.

  \<^item> \<open>Dialog\<close> (the render of \<open>src/components/FileUploadModal.tsx\<close> and the
    conditional parts of \<open>App\<close>'s render): the props \<open>modal_props\<close> as
    \<open>App\<close> passes them (\<open>modal_props_of\<close>), the rendered dialog
    \<open>modal_render\<close> (\<open>None\<close> for \<open>return null\<close>; otherwise the drop zone or
    the chosen file with its \<open>toFixed(2)\<close> size, both selects with their options
    and disabled flags, the two banners and the two buttons), the mounted dialog
    \<open>app_dialog\<close> of a session and the page's drop overlay.

  \<^item> \<open>Page\<close> (\<open>App\<close>'s render, \<open>src/components/Dashboard.tsx\<close>,
    \<open>ShipmentRow.tsx\<close>, \<open>DocumentStatusCell.tsx\<close>): the whole page
    \<open>app_render\<close> of a session, the grid \<open>dashboard_render\<close> with its rows
    \<open>shipmentRow_view\<close> and cells \<open>documentStatusCell\<close> (\<open>None\<close> for a
    cell whose slot is \<open>undefined\<close>, on which the component would throw).

  \<^item> \<open>Runs\<close>: whole upload runs of the session from an idle state with the
    dialog closed (\<open>reachable_start_upload\<close>: header button, file, shipment,
    document type, submit; \<open>upload_run\<close>: then the mock analysis settles and
    prepends one log entry whose id comes from the settling clock).

  \<^item> \<open>Timed\<close>: runs with a clock, \<open>timed_reachable s n\<close>: time passes
    between events, events that write no log take no time, and an analysis settles
    at the current reading \<open>n\<close>, after which the clock reads at least \<open>n + 1\<close>.
    Every timed run is a run of \<open>session_step\<close>.

  \<^item> \<open>Integration\<close>: properties that compose the analyzer with the upload
    workflow and the session, and the invariant \<open>error_shown\<close> on where the
    error message of \<open>App\<close> can be seen.

  \<^medskip>
  \<^bold>\<open>What is proved.\<close> In \<open>Lifecycle\<close>: every upload attempt ends with the
  target slot Uploaded or Error and \<open>isAnalyzing\<close> cleared (C1); the handler
  refines the abstract slot machine (C2); the exact effect of a successful and of
  a rejected analysis on the summary, the log, the dialog and the error message
  (C3, C4); the summary's bounds (C5). The well-formedness invariant is preserved
  by each per-shipment update (\<open>shipments_wf_markProcessing\<close>,
  \<open>shipments_wf_applySuccess\<close>, \<open>shipments_wf_markError\<close>) and holds for the
  seed data (\<open>shipments_wf_INITIAL\<close>). In \<open>Session\<close>, for every reachable
  state: the shipments stay well formed (C6); at most one analysis is in flight and
  \<open>isAnalyzing\<close> is set exactly while one is (C7); a slot is Processing exactly
  while its upload is in flight (C8); the dialog stays open while an analysis runs
  (C9). The witnesses use the run \<open>demo_inflight\<close> (open the dialog, choose a
  file, the first seed shipment and the invoice type, submit), proved reachable.
  In \<open>Views\<close>: the completion rate lies in [0, 100] (C10) and, with at most 333
  shipments (fewer than 2000 slots, so one missing slot keeps the rate below
  99.95), reads 100 exactly when nothing is missing (C11); every grid row has one
  defined cell per header, so no cell receives \<open>undefined\<close> (C12); in every
  reachable state a cell spins exactly while its upload is in flight (C13), every
  log row names an existing shipment whose current invoice number is shown (C14),
  and the rows are the five seed shipments, so 30 documents are required (C15);
  every row of the activity list shows the success icon, since failures are never
  logged (C23).
  In \<open>Analyzer\<close>: with random readings in [0, 1) the mock resolves with an
  amount in [500, 10500] of at most two decimals, a quantity in [10, 209] and three
  SKUs (C16); a SKU reads back as the drawn number (C17); the mock's invoice number
  reads back as the clock modulo \<open>10^6\<close> and is never empty (C18); the service
  rejects exactly when a key is set and the Gemini call or parse fails (C19).
  In \<open>Integration\<close>: without a key every pending upload settles as Uploaded
  (C20); the links written by a successful upload disagree with the new invoice
  number (C21); the error message exists only while the dialog that shows it is
  open, and never while an analysis runs (C22).
  In \<open>Page\<close>: the overview agrees with the grid, which is computed separately: the
  ``Documents Uploaded'' card shows the number of check-mark cells, ``Documents
  Missing'' the number of the other cells, and the completion rate is \<open>toFixed(1)\<close>
  of the percentage of check-mark cells (C24); the grid of every reachable state has
  one row per shipment and a defined cell under every document-type header, so no
  cell throws (C27), and it shows exactly one spinner per analysis in flight, at
  most one in all (C28); the count goes through the distinct (shipment id, document
  type) pairs of the grid and the invariant's description of the Processing slots.
  In \<open>Dialog\<close>: while an analysis is in flight the dialog shows the progress
  banner, reads ``Analyzing...'', locks both buttons and shows no error (C25); the
  submit button is enabled exactly when nothing is in flight and a click would hand a
  request to \<open>handleFileUpload\<close> (C26). The lemma \<open>dialog_events_match_render\<close>
  checks the session model's \<open>modal_event_enabled\<close> against the render: the
  dialog events of \<open>session_step\<close> are those of the controls the render shows.
  In \<open>Runs\<close>: two complete uploads settling at the same clock reading leave two log
  entries with the same id (C29), against the uniqueness the specification states.
  In \<open>Timed\<close>: when the clock moves on after each settling analysis the ids are
  \<open>log-t\<close> for strictly decreasing readings, newest first, hence unique (C30); the
  proof is a rule induction with the invariant \<open>log_stamps\<close>.

  \<^medskip>
  \<^bold>\<open>Modelling choices.\<close> JavaScript numbers are exact (\<open>rat\<close> for amounts,
  \<open>int\<close> for counts): binary floating point and \<open>NaN\<close> are not modelled, so
  \<open>toFixed\<close> rounds the exact value (\<open>to_fixed1_text\<close>, \<open>to_fixed2_text\<close>)
  where a browser rounds its binary approximation, and the total value, a sum of
  doubles in the browser whose low bits depend on the order of the rows, is an
  exact sum here; no property of the development depends on that order.
  Clock and random readings are inputs (\<open>upload_clock\<close>, \<open>mock_env\<close>).
  The Gemini call and \<open>JSON.parse\<close> are outside the repository: they are a
  function \<open>gemini_api\<close> from the request the code builds to the parsed reply
  (\<open>None\<close> when they throw), quantified over in every theorem. React's batching is modelled by applying each
  phase of a handler as one function of the current state, which is what the
  functional \<open>setState\<close> updates guarantee. The rule \<open>analysis_settles\<close> can
  always fire for a pending upload: the real Gemini call has no timeout, so that an
  analysis eventually settles is an assumption of the model, not a property of the
  code, and no theorem claims it.

  \<^medskip>
  \<^bold>\<open>Not modelled.\<close> The layout of the rendering (JSX nesting, CSS classes, icons;
  the text the views show is modelled), \<open>Intl.NumberFormat\<close> for locales other
  than \<open>en-US\<close>, the
  \<open>Header\<close> component (not in the repository), console logging, the 1.5 s mock
  delay (only the order of events matters; \<open>Timed\<close> adds the clock where the log
  ids depend on it), and the Gemini backend.
\<close>

end
